theory Spec2Isabelle
  imports Main "HOL-Library.Signed_Division"
begin

section \<open>Chainlens: the transaction fetching and normalisation layer\<close>

text \<open>
  A shallow embedding of \<^verbatim>\<open>webapp/src/lib/transactions.ts\<close>. JavaScript values are
  modelled dynamically, as they are at run time (the TypeScript annotations are erased):
  a JSON document is a \<open>jsval\<close>, an exception is the \<open>Inl\<close> branch of a sum, and the
  network, the environment, the clock, the random generator and the chain registry
  (\<^verbatim>\<open>chains.ts\<close>) are parameters collected in a \<open>runtime\<close> record.
\<close>

subsection \<open>JavaScript values\<close>

text \<open>
  Thrown values. \<open>Error msg\<close> is \<^verbatim>\<open>new Error(msg)\<close>; the three built-in error classes
  are raised by the language itself (their message text is engine specific and not kept).
\<close>

datatype error = Error string | TypeError | SyntaxError | RangeError

text \<open>
  Numbers. A finite Number is kept only when it is an integer (the JSON fields read by the
  code are counts, heights, timestamps and base-unit amounts); \<open>NaN\<close> and \<open>Infinity\<close>
  are the two non-finite values that the code can produce.
\<close>

datatype number = Fin int | NaN | Infinity

datatype jsval =
    Undefined
  | Null
  | Bool bool
  | Num number
  | Str string
  | Arr "jsval list"
  | Obj "(string \<times> jsval) list"

text \<open>ToBoolean.\<close>

fun truthy :: "jsval \<Rightarrow> bool" where
  "truthy Undefined = False"
| "truthy Null = False"
| "truthy (Bool b) = b"
| "truthy (Num (Fin n)) = (n \<noteq> 0)"
| "truthy (Num NaN) = False"
| "truthy (Num Infinity) = True"
| "truthy (Str s) = (s \<noteq> [])"
| "truthy (Arr xs) = True"
| "truthy (Obj kvs) = True"

text \<open>\<^verbatim>\<open>a || b\<close>\<close>

definition or_else :: "jsval \<Rightarrow> jsval \<Rightarrow> jsval" where
  "or_else a b = (if truthy a then a else b)"

definition nullish :: "jsval \<Rightarrow> bool" where
  "nullish v = (v = Undefined \<or> v = Null)"

text \<open>
  Property read \<^verbatim>\<open>v.k\<close> on a value that is not \<^verbatim>\<open>null\<close> or \<^verbatim>\<open>undefined\<close>. Only
  own properties of JSON objects are modelled: none of the names the code reads is a
  property of a built-in prototype.
\<close>

fun get :: "jsval \<Rightarrow> string \<Rightarrow> jsval" where
  "get (Obj kvs) k = (case map_of kvs k of None \<Rightarrow> Undefined | Some v \<Rightarrow> v)"
| "get v k = Undefined"

text \<open>\<^verbatim>\<open>v.k\<close>: a TypeError on \<^verbatim>\<open>null\<close> and \<^verbatim>\<open>undefined\<close>.\<close>

definition get_prop :: "jsval \<Rightarrow> string \<Rightarrow> error + jsval" where
  "get_prop v k = (if nullish v then Inl TypeError else Inr (get v k))"

text \<open>\<^verbatim>\<open>v?.k\<close>\<close>

definition opt_get :: "jsval \<Rightarrow> string \<Rightarrow> jsval" where
  "opt_get v k = (if nullish v then Undefined else get v k)"

subsection \<open>The world outside the module\<close>

text \<open>
  An HTTP request as \<^verbatim>\<open>fetch\<close> receives it. \<open>req_body\<close> is the value handed to
  \<^verbatim>\<open>JSON.stringify\<close> (\<open>Undefined\<close> when the call has no body).
\<close>

record request =
  req_url :: string
  req_method :: string
  req_headers :: "(string \<times> string) list"
  req_body :: jsval

text \<open>
  \<^verbatim>\<open>ChainConfig\<close> is declared in \<^verbatim>\<open>chains.ts\<close>; the fields are those the module reads.
  \<open>chain_fallbackEndpoints\<close> may be absent (\<^verbatim>\<open>chain.fallbackEndpoints || []\<close>).
\<close>

record ChainConfig =
  chain_id :: string
  chain_name :: string
  chain_symbol :: string
  chain_decimals :: nat
  chain_apiEndpoint :: string
  chain_apiType :: string
  chain_fallbackEndpoints :: "string list option"
  chain_explorerUrl :: string

text \<open>
  What the module takes from its surroundings.
  \<^item> \<open>fetch_json prior req\<close>: the outcome of \<^verbatim>\<open>await fetch(...)\<close> followed by
    \<^verbatim>\<open>await response.json()\<close> for the request \<open>req\<close>, after the requests \<open>prior\<close> have
    been issued: \<open>Inl\<close> when either promise rejects (transport failure, body that is
    not JSON), else the parsed document.
  \<^item> \<open>env\<close>: \<^verbatim>\<open>import.meta.env\<close>.
  \<^item> \<open>getChainById\<close>: the chain registry of \<^verbatim>\<open>chains.ts\<close>.
  \<^item> \<open>Date_now\<close>: \<^verbatim>\<open>Date.now()\<close>, in milliseconds.
  \<^item> \<open>Date_getTime\<close>: \<^verbatim>\<open>new Date(v).getTime()\<close>.
  \<^item> \<open>random k\<close>: the \<open>k\<close>-th draw of \<^verbatim>\<open>Math.random()\<close> within a call, as the
    numerator of the fraction \<open>random k / 2 ^ 53\<close>.
  \<^item> \<open>unsafe_toString\<close>: \<^verbatim>\<open>Number.prototype.toString\<close> on an integer outside the safe
    range, where the digits printed are those of the shortest round-tripping decimal.
  \<^item> \<open>StringToNumber\<close>: the Number a string converts to.
  \<^item> \<open>parseInt\<close>: the global \<^verbatim>\<open>parseInt\<close> on a string.
\<close>

record runtime =
  fetch_json :: "request list \<Rightarrow> request \<Rightarrow> error + jsval"
  env :: "string \<Rightarrow> string option"
  getChainById :: "string \<Rightarrow> ChainConfig option"
  Date_now :: int
  Date_getTime :: "jsval \<Rightarrow> number"
  random :: "nat \<Rightarrow> nat"
  unsafe_toString :: "int \<Rightarrow> string"
  StringToNumber :: "string \<Rightarrow> number"
  parseInt :: "string \<Rightarrow> number"

subsection \<open>Strings and BigInt\<close>

text \<open>Strings are lists of 8-bit characters: the model covers ASCII text.\<close>

definition digit_char :: "nat \<Rightarrow> char" where
  "digit_char n = ''0123456789'' ! n"

fun show_nat :: "nat \<Rightarrow> string" where
  "show_nat n = (if n < 10 then [digit_char n] else show_nat (n div 10) @ [digit_char (n mod 10)])"

declare show_nat.simps [simp del]

text \<open>\<^verbatim>\<open>BigInt.prototype.toString()\<close>\<close>

definition BigInt_toString :: "int \<Rightarrow> string" where
  "BigInt_toString k = (if k < 0 then CHR ''-'' # show_nat (nat (- k)) else show_nat (nat k))"

definition is_digit :: "char \<Rightarrow> bool" where
  "is_digit c = (c \<in> set ''0123456789'')"

text \<open>The value of a digit in a radix up to 16, when it is one.\<close>

definition digit_table :: "(char \<times> nat) list" where
  "digit_table =
     [(CHR ''0'', 0), (CHR ''1'', 1), (CHR ''2'', 2), (CHR ''3'', 3), (CHR ''4'', 4),
      (CHR ''5'', 5), (CHR ''6'', 6), (CHR ''7'', 7), (CHR ''8'', 8), (CHR ''9'', 9),
      (CHR ''a'', 10), (CHR ''b'', 11), (CHR ''c'', 12), (CHR ''d'', 13), (CHR ''e'', 14),
      (CHR ''f'', 15),
      (CHR ''A'', 10), (CHR ''B'', 11), (CHR ''C'', 12), (CHR ''D'', 13), (CHR ''E'', 14),
      (CHR ''F'', 15)]"

definition digit_value :: "nat \<Rightarrow> char \<Rightarrow> nat option" where
  "digit_value radix c =
     (case map_of digit_table c of
        None \<Rightarrow> None
      | Some d \<Rightarrow> if d < radix then Some d else None)"

fun parse_digits :: "nat \<Rightarrow> nat \<Rightarrow> string \<Rightarrow> nat option" where
  "parse_digits radix acc [] = Some acc"
| "parse_digits radix acc (c # cs) =
     (case digit_value radix c of
        None \<Rightarrow> None
      | Some d \<Rightarrow> parse_digits radix (acc * radix + d) cs)"

definition is_space :: "char \<Rightarrow> bool" where
  "is_space c = (c \<in> set [CHR 0x09, CHR 0x0A, CHR 0x0B, CHR 0x0C, CHR 0x0D, CHR 0x20])"

definition trim :: "string \<Rightarrow> string" where
  "trim s = rev (dropWhile is_space (rev (dropWhile is_space s)))"

definition parse_radix :: "nat \<Rightarrow> string \<Rightarrow> error + int" where
  "parse_radix radix ds =
     (if ds = [] then Inl SyntaxError
      else case parse_digits radix 0 ds of
             None \<Rightarrow> Inl SyntaxError
           | Some n \<Rightarrow> Inr (int n))"

text \<open>
  StringToBigInt: surrounding white space is dropped; the empty string is \<open>0n\<close>; a
  decimal literal may carry a sign, a \<^verbatim>\<open>0x\<close>, \<^verbatim>\<open>0o\<close> or \<^verbatim>\<open>0b\<close> literal may not;
  anything else is a SyntaxError.
\<close>

definition StringToBigInt :: "string \<Rightarrow> error + int" where
  "StringToBigInt s =
     (case trim s of
        [] \<Rightarrow> Inr 0
      | c # cs \<Rightarrow>
          if c = CHR ''0'' \<and> cs \<noteq> [] \<and> hd cs \<in> set ''xX'' then parse_radix 16 (tl cs)
          else if c = CHR ''0'' \<and> cs \<noteq> [] \<and> hd cs \<in> set ''oO'' then parse_radix 8 (tl cs)
          else if c = CHR ''0'' \<and> cs \<noteq> [] \<and> hd cs \<in> set ''bB'' then parse_radix 2 (tl cs)
          else if c = CHR ''-'' then
            (case parse_radix 10 cs of Inl e \<Rightarrow> Inl e | Inr n \<Rightarrow> Inr (- n))
          else if c = CHR ''+'' then parse_radix 10 cs
          else parse_radix 10 (c # cs))"

text \<open>\<^verbatim>\<open>BigInt(n)\<close> for a Number: the exact value of an integral Number, else a RangeError.\<close>

fun NumberToBigInt :: "number \<Rightarrow> error + int" where
  "NumberToBigInt (Fin n) = Inr n"
| "NumberToBigInt NaN = Inl RangeError"
| "NumberToBigInt Infinity = Inl RangeError"

subsection \<open>The Number \<^verbatim>\<open>10 ** decimals\<close>\<close>

fun bitlen :: "nat \<Rightarrow> nat" where
  "bitlen n = (if n = 0 then 0 else Suc (bitlen (n div 2)))"

declare bitlen.simps [simp del]

text \<open>A natural number rounded to 53 significant bits, ties to even.\<close>

definition round53 :: "nat \<Rightarrow> nat" where
  "round53 n =
     (let e = bitlen n - 53;
          q = n div 2 ^ e;
          r = n mod 2 ^ e;
          m = (if 2 ^ e < 2 * r \<or> (2 * r = 2 ^ e \<and> odd q) then q + 1 else q)
      in m * 2 ^ e)"

text \<open>
  The binary64 value nearest to a natural number: what rounds to \<open>2 ^ 1024\<close> or more is
  \<open>Infinity\<close>.
\<close>

definition round_binary64 :: "nat \<Rightarrow> number" where
  "round_binary64 n = (let v = round53 n in if 2 ^ 1024 \<le> v then Infinity else Fin (int v))"

text \<open>
  \<^verbatim>\<open>10 ** decimals\<close> is a Number exponentiation: its result is the binary64 value of
  the power, taken here as correctly rounded. Up to 22 decimals the power is itself a
  binary64 value. ECMAScript leaves exponentiation implementation-approximated, so above 22
  an engine may return a neighbour of the correctly rounded value for some exponents; the
  properties below evaluate the power at no more than 24 decimals.
\<close>

definition pow10 :: "nat \<Rightarrow> number" where
  "pow10 decimals = round_binary64 (10 ^ decimals)"

subsection \<open>Conversions\<close>

fun join :: "string \<Rightarrow> string list \<Rightarrow> string" where
  "join sep [] = []"
| "join sep [x] = x"
| "join sep (x # y # ys) = x @ sep @ join sep (y # ys)"

text \<open>\<^verbatim>\<open>Number.prototype.toString()\<close>\<close>

fun Number_toString :: "runtime \<Rightarrow> number \<Rightarrow> string" where
  "Number_toString rt (Fin n) =
     (if \<bar>n\<bar> < 2 ^ 53 then BigInt_toString n else unsafe_toString rt n)"
| "Number_toString rt NaN = ''NaN''"
| "Number_toString rt Infinity = ''Infinity''"

text \<open>\<^verbatim>\<open>String(v)\<close>, also the conversion of a template literal's substitution.\<close>

fun ToString :: "runtime \<Rightarrow> jsval \<Rightarrow> string" where
  "ToString rt Undefined = ''undefined''"
| "ToString rt Null = ''null''"
| "ToString rt (Bool b) = (if b then ''true'' else ''false'')"
| "ToString rt (Num n) = Number_toString rt n"
| "ToString rt (Str s) = s"
| "ToString rt (Arr xs) = join '','' (map (\<lambda>x. if nullish x then [] else ToString rt x) xs)"
| "ToString rt (Obj kvs) = ''[object Object]''"

text \<open>\<^verbatim>\<open>BigInt(v)\<close>\<close>

fun BigInt :: "runtime \<Rightarrow> jsval \<Rightarrow> error + int" where
  "BigInt rt Undefined = Inl TypeError"
| "BigInt rt Null = Inl TypeError"
| "BigInt rt (Bool b) = Inr (if b then 1 else 0)"
| "BigInt rt (Num n) = NumberToBigInt n"
| "BigInt rt (Str s) = StringToBigInt s"
| "BigInt rt (Arr xs) = StringToBigInt (ToString rt (Arr xs))"
| "BigInt rt (Obj kvs) = StringToBigInt (ToString rt (Obj kvs))"

subsection \<open>Value formatter\<close>

text \<open>\<^verbatim>\<open>s.padStart(n, c)\<close> for a one-character filler.\<close>

definition padStart :: "nat \<Rightarrow> char \<Rightarrow> string \<Rightarrow> string" where
  "padStart n c s = replicate (n - length s) c @ s"

text \<open>\<^verbatim>\<open>s.replace(/0+$/, '')\<close>\<close>

definition strip_trailing_zeros :: "string \<Rightarrow> string" where
  "strip_trailing_zeros s = rev (dropWhile (\<lambda>c. c = CHR ''0'') (rev s))"

text \<open>
  \<^verbatim>\<open>formatValue(value, decimals)\<close>. BigInt division truncates towards zero and the
  remainder takes the sign of the dividend; a zero divisor is a RangeError.
\<close>

text \<open>\<^verbatim>\<open>const divisor = BigInt(10 ** decimals)\<close>\<close>

definition formatValue_divisor :: "nat \<Rightarrow> error + int" where
  "formatValue_divisor decimals = NumberToBigInt (pow10 decimals)"

definition formatValue :: "runtime \<Rightarrow> jsval \<Rightarrow> nat \<Rightarrow> error + string" where
  "formatValue rt value decimals =
     (if \<not> truthy value \<or> value = Str ''0'' then Inr ''0''
      else case BigInt rt value of
        Inl e \<Rightarrow> Inl e
      | Inr num \<Rightarrow>
         (case formatValue_divisor decimals of
            Inl e \<Rightarrow> Inl e
          | Inr divisor \<Rightarrow>
              if divisor = 0 then Inl RangeError
              else
                let intPart = num sdiv divisor;
                    fracPart = num smod divisor;
                    fracStr = strip_trailing_zeros
                                (take 6 (padStart decimals CHR ''0'' (BigInt_toString fracPart)))
                in Inr (if fracStr \<noteq> [] then BigInt_toString intPart @ ''.'' @ fracStr
                        else BigInt_toString intPart)))"

subsection \<open>More of the language\<close>

fun ToNumber :: "runtime \<Rightarrow> jsval \<Rightarrow> number" where
  "ToNumber rt Undefined = NaN"
| "ToNumber rt Null = Fin 0"
| "ToNumber rt (Bool b) = Fin (if b then 1 else 0)"
| "ToNumber rt (Num n) = n"
| "ToNumber rt (Str s) = StringToNumber rt s"
| "ToNumber rt (Arr xs) = StringToNumber rt (ToString rt (Arr xs))"
| "ToNumber rt (Obj kvs) = StringToNumber rt (ToString rt (Obj kvs))"

text \<open>\<^verbatim>\<open>Math.floor(x / k)\<close> for a positive integer \<open>k\<close>.\<close>

fun floor_div :: "number \<Rightarrow> int \<Rightarrow> number" where
  "floor_div (Fin n) k = Fin (n div k)"
| "floor_div NaN k = NaN"
| "floor_div Infinity k = Infinity"

text \<open>\<^verbatim>\<open>x > k\<close> for a Number \<open>x\<close> and an integer \<open>k\<close>.\<close>

fun number_gt :: "number \<Rightarrow> int \<Rightarrow> bool" where
  "number_gt (Fin n) k = (k < n)"
| "number_gt NaN k = False"
| "number_gt Infinity k = True"

text \<open>\<^verbatim>\<open>v.length\<close> on a value that is not \<^verbatim>\<open>null\<close> or \<^verbatim>\<open>undefined\<close>.\<close>

fun js_length :: "jsval \<Rightarrow> jsval" where
  "js_length (Str s) = Num (Fin (int (length s)))"
| "js_length (Arr xs) = Num (Fin (int (length xs)))"
| "js_length v = get v ''length''"

text \<open>\<^verbatim>\<open>v[0]\<close> on a value that is not \<^verbatim>\<open>null\<close> or \<^verbatim>\<open>undefined\<close>.\<close>

fun index0 :: "jsval \<Rightarrow> jsval" where
  "index0 (Arr xs) = (case xs of [] \<Rightarrow> Undefined | x # _ \<Rightarrow> x)"
| "index0 (Str s) = (case s of [] \<Rightarrow> Undefined | c # _ \<Rightarrow> Str [c])"
| "index0 v = get v ''0''"

text \<open>\<^verbatim>\<open>v?.[0]\<close>\<close>

definition opt_index0 :: "jsval \<Rightarrow> jsval" where
  "opt_index0 v = (if nullish v then Undefined else index0 v)"

text \<open>\<^verbatim>\<open>Array.isArray(v)\<close>\<close>

fun isArray :: "jsval \<Rightarrow> bool" where
  "isArray (Arr xs) = True"
| "isArray v = False"

text \<open>The elements of an array.\<close>

fun elements :: "jsval \<Rightarrow> jsval list" where
  "elements (Arr xs) = xs"
| "elements v = []"

text \<open>A callback applied to each element in turn; the first exception ends the loop.\<close>

fun map_result :: "('a \<Rightarrow> error + 'b) \<Rightarrow> 'a list \<Rightarrow> error + 'b list" where
  "map_result f [] = Inr []"
| "map_result f (x # xs) =
     (case f x of
        Inl e \<Rightarrow> Inl e
      | Inr y \<Rightarrow> (case map_result f xs of Inl e \<Rightarrow> Inl e | Inr ys \<Rightarrow> Inr (y # ys)))"

text \<open>
  \<^verbatim>\<open>v.map(f)\<close>: JSON data holds no functions, so only an array has a callable
  \<^verbatim>\<open>map\<close>; on anything else the call is a TypeError.
\<close>

fun js_map :: "(jsval \<Rightarrow> error + 'b) \<Rightarrow> jsval \<Rightarrow> error + 'b list" where
  "js_map f (Arr xs) = map_result f xs"
| "js_map f v = Inl TypeError"

text \<open>
  \<^verbatim>\<open>v.find(o => o.k === s)\<close> for a string \<open>s\<close>: the first element whose property \<open>k\<close>
  is \<open>s\<close>, \<^verbatim>\<open>undefined\<close> when there is none; reading the property of a \<^verbatim>\<open>null\<close>
  element on the way is a TypeError.
\<close>

fun find_by :: "string \<Rightarrow> string \<Rightarrow> jsval list \<Rightarrow> error + jsval" where
  "find_by k s [] = Inr Undefined"
| "find_by k s (x # xs) =
     (if nullish x then Inl TypeError
      else if get x k = Str s then Inr x
      else find_by k s xs)"

fun js_find_by :: "string \<Rightarrow> string \<Rightarrow> jsval \<Rightarrow> error + jsval" where
  "js_find_by k s (Arr xs) = find_by k s xs"
| "js_find_by k s v = Inl TypeError"

text \<open>\<^verbatim>\<open>xs.slice(start, end)\<close> on an array.\<close>

definition slice_index :: "nat \<Rightarrow> int \<Rightarrow> nat" where
  "slice_index len k = (if k < 0 then nat (max (int len + k) 0) else min (nat k) len)"

definition array_slice :: "'a list \<Rightarrow> int \<Rightarrow> int \<Rightarrow> 'a list" where
  "array_slice xs start end =
     (let k = slice_index (length xs) start;
          final = slice_index (length xs) end
      in take (final - k) (drop k xs))"

definition lower_char :: "char \<Rightarrow> char" where
  "lower_char c =
     (case map_of (zip ''ABCDEFGHIJKLMNOPQRSTUVWXYZ'' ''abcdefghijklmnopqrstuvwxyz'') c of
        None \<Rightarrow> c
      | Some l \<Rightarrow> l)"

text \<open>\<^verbatim>\<open>s.toLowerCase()\<close>\<close>

definition toLowerCase :: "string \<Rightarrow> string" where
  "toLowerCase s = map lower_char s"

text \<open>\<^verbatim>\<open>s.includes(sub)\<close>\<close>

fun str_includes :: "string \<Rightarrow> string \<Rightarrow> bool" where
  "str_includes [] sub = (sub = [])"
| "str_includes (c # cs) sub = (take (length sub) (c # cs) = sub \<or> str_includes cs sub)"

text \<open>\<^verbatim>\<open>s.split(c)[0]\<close>\<close>

definition split_first :: "char \<Rightarrow> string \<Rightarrow> string" where
  "split_first c s = takeWhile (\<lambda>x. x \<noteq> c) s"

text \<open>\<^verbatim>\<open>s.split(c).pop()\<close>\<close>

definition split_last :: "char \<Rightarrow> string \<Rightarrow> string" where
  "split_last c s = rev (takeWhile (\<lambda>x. x \<noteq> c) (rev s))"

text \<open>A string, or \<^verbatim>\<open>undefined\<close> when it is empty: \<^verbatim>\<open>s || undefined\<close>.\<close>

definition or_undefined :: "string \<Rightarrow> jsval" where
  "or_undefined s = (if s = [] then Undefined else Str s)"

subsection \<open>The canonical transaction and the response envelope\<close>

text \<open>
  \<^verbatim>\<open>Transaction\<close> and \<^verbatim>\<open>TransactionResponse\<close> of \<^verbatim>\<open>types.ts\<close>. A field that the code
  fills with a value read from the provider's JSON holds that value as it is; an optional
  field that a parser leaves out is \<open>Undefined\<close>.
\<close>

record Transaction =
  tx_hash :: jsval
  tx_blockNumber :: jsval
  tx_timestamp :: jsval
  tx_from :: jsval
  tx_to :: jsval
  tx_value :: jsval
  tx_valueFormatted :: string
  tx_fee :: jsval
  tx_feeFormatted :: string
  tx_status :: jsval
  tx_type :: jsval
  tx_chainId :: string
  tx_chainName :: string
  tx_symbol :: string
  tx_method :: jsval
  tx_gasUsed :: jsval
  tx_gasPrice :: jsval
  tx_nonce :: jsval
  tx_input :: jsval
  tx_explorerUrl :: string

record TransactionResponse =
  resp_transactions :: "Transaction list"
  resp_totalCount :: jsval
  resp_page :: int
  resp_limit :: int
  resp_hasMore :: bool

subsection \<open>Per-provider parsers\<close>

text \<open>Sequencing of computations that may throw.\<close>

definition then_result :: "error + 'a \<Rightarrow> ('a \<Rightarrow> error + 'b) \<Rightarrow> error + 'b" where
  "then_result m f = (case m of Inl e \<Rightarrow> Inl e | Inr x \<Rightarrow> f x)"

text \<open>
  The classification of \<^verbatim>\<open>parseEtherscanTransaction\<close>. \<^verbatim>\<open>input.slice(0, 10).toLowerCase()\<close>
  succeeds on a string only.
\<close>

definition etherscan_type :: "runtime \<Rightarrow> jsval \<Rightarrow> jsval \<Rightarrow> error + string" where
  "etherscan_type rt tx input =
     (if truthy (get tx ''contractAddress'') \<or>
         (truthy input \<and> input \<noteq> Str ''0x'' \<and> number_gt (ToNumber rt (js_length input)) 10)
      then (case input of
              Str s \<Rightarrow>
                let methodId = toLowerCase (take 10 s)
                in Inr (if methodId = ''0xa9059cbb'' \<or> methodId = ''0x23b872dd'' then ''token''
                        else if methodId = ''0x095ea7b3'' then ''contract''
                        else ''contract'')
            | _ \<Rightarrow> Inl TypeError)
      else Inr ''transfer'')"

definition etherscan_status :: "jsval \<Rightarrow> string" where
  "etherscan_status tx =
     (if get tx ''isError'' = Str ''1'' \<or> get tx ''txreceipt_status'' = Str ''0'' then ''failed''
      else if get tx ''confirmations'' = Str ''0'' then ''pending''
      else ''success'')"

text \<open>\<^verbatim>\<open>tx.functionName?.split('(')[0] || undefined\<close>\<close>

definition etherscan_method :: "jsval \<Rightarrow> error + jsval" where
  "etherscan_method functionName =
     (if nullish functionName then Inr Undefined
      else case functionName of
             Str s \<Rightarrow> Inr (or_undefined (split_first CHR ''('' s))
           | _ \<Rightarrow> Inl TypeError)"

definition parseEtherscanTransaction :: "runtime \<Rightarrow> jsval \<Rightarrow> ChainConfig \<Rightarrow> error + Transaction" where
  "parseEtherscanTransaction rt tx chain =
     (if nullish tx then Inl TypeError
      else
        let timestamp = or_else (or_else (get tx ''timeStamp'') (get tx ''timestamp'')) (Str ''0'');
            value = or_else (get tx ''value'') (Str ''0'');
            gasUsed = or_else (or_else (get tx ''gasUsed'') (get tx ''gas'')) (Str ''0'');
            gasPrice = or_else (get tx ''gasPrice'') (Str ''0'')
        in
        then_result (BigInt rt gasUsed) (\<lambda>gu.
        then_result (BigInt rt gasPrice) (\<lambda>gp.
          let fee = Str (BigInt_toString (gu * gp));
              input = or_else (or_else (get tx ''input'') (get tx ''data'')) (Str [])
          in
          then_result (etherscan_type rt tx input) (\<lambda>type.
          then_result (formatValue rt value (chain_decimals chain)) (\<lambda>valueFormatted.
          then_result (formatValue rt fee (chain_decimals chain)) (\<lambda>feeFormatted.
          then_result (etherscan_method (get tx ''functionName'')) (\<lambda>method.
            Inr \<lparr>tx_hash = or_else (or_else (get tx ''hash'') (get tx ''txhash'')) (Str []),
                 tx_blockNumber = or_else (or_else (get tx ''blockNumber'') (get tx ''block'')) (Str []),
                 tx_timestamp = timestamp,
                 tx_from = or_else (get tx ''from'') (Str []),
                 tx_to = or_else (or_else (get tx ''to'') (get tx ''contractAddress'')) (Str []),
                 tx_value = value,
                 tx_valueFormatted = valueFormatted,
                 tx_fee = fee,
                 tx_feeFormatted = feeFormatted,
                 tx_status = Str (etherscan_status tx),
                 tx_type = Str type,
                 tx_chainId = chain_id chain,
                 tx_chainName = chain_name chain,
                 tx_symbol = chain_symbol chain,
                 tx_method = method,
                 tx_gasUsed = gasUsed,
                 tx_gasPrice = gasPrice,
                 tx_nonce = get tx ''nonce'',
                 tx_input = input,
                 tx_explorerUrl = chain_explorerUrl chain @ ''/tx/'' @
                   ToString rt (or_else (get tx ''hash'') (get tx ''txhash''))\<rparr>)))))))"

definition subscan_type :: "string \<Rightarrow> string \<Rightarrow> string" where
  "subscan_type callModule callFunction =
     (if callModule = ''staking'' \<or> str_includes callFunction ''stake'' then ''stake''
      else if str_includes callFunction ''unstake'' \<or> str_includes callFunction ''unbond''
           then ''unstake''
      else if callModule = ''balances'' then ''transfer''
      else ''transfer'')"

definition parseSubscanTransaction :: "runtime \<Rightarrow> jsval \<Rightarrow> ChainConfig \<Rightarrow> error + Transaction" where
  "parseSubscanTransaction rt tx chain =
     (if nullish tx then Inl TypeError
      else
        let timestamp = ToString rt (or_else (or_else (get tx ''block_timestamp'') (get tx ''timestamp''))
                                       (Num (Fin 0)));
            value = ToString rt (or_else (or_else (get tx ''amount'') (get tx ''value'')) (Num (Fin 0)));
            fee = ToString rt (or_else (get tx ''fee'') (Num (Fin 0)));
            callModule = toLowerCase (ToString rt
                           (or_else (or_else (get tx ''call_module'') (get tx ''module'')) (Str [])));
            callFunction = toLowerCase (ToString rt
                           (or_else (or_else (get tx ''call_module_function'') (get tx ''call''))
                              (Str [])))
        in
        then_result (formatValue rt (Str value) (chain_decimals chain)) (\<lambda>valueFormatted.
        then_result (formatValue rt (Str fee) (chain_decimals chain)) (\<lambda>feeFormatted.
          Inr \<lparr>tx_hash = Str (ToString rt (or_else (or_else (get tx ''extrinsic_hash'') (get tx ''hash''))
                                          (Str []))),
               tx_blockNumber = Str (ToString rt (or_else (or_else (get tx ''block_num'') (get tx ''block''))
                                                 (Str []))),
               tx_timestamp = Str timestamp,
               tx_from = Str (ToString rt (or_else (or_else (get tx ''account_id'') (get tx ''from''))
                                          (Str []))),
               tx_to = Str (ToString rt (or_else (or_else (get tx ''to'') (get tx ''destination''))
                                        (Str []))),
               tx_value = Str value,
               tx_valueFormatted = valueFormatted,
               tx_fee = Str fee,
               tx_feeFormatted = feeFormatted,
               tx_status = Str (if get tx ''success'' = Bool False then ''failed'' else ''success''),
               tx_type = Str (subscan_type callModule callFunction),
               tx_chainId = chain_id chain,
               tx_chainName = chain_name chain,
               tx_symbol = chain_symbol chain,
               tx_method = or_undefined callFunction,
               tx_gasUsed = Undefined,
               tx_gasPrice = Undefined,
               tx_nonce = Undefined,
               tx_input = Undefined,
               tx_explorerUrl = chain_explorerUrl chain @ ''/extrinsic/'' @
                 ToString rt (or_else (get tx ''extrinsic_hash'') (get tx ''hash''))\<rparr>)))"

definition solscan_type :: "jsval \<Rightarrow> string" where
  "solscan_type t =
     (if t = Str ''stake'' then ''stake''
      else if t = Str ''unstake'' then ''unstake''
      else if t = Str ''swap'' then ''swap''
      else if t = Str ''nft'' then ''nft''
      else ''transfer'')"

definition parseSolscanTransaction :: "runtime \<Rightarrow> jsval \<Rightarrow> ChainConfig \<Rightarrow> error + Transaction" where
  "parseSolscanTransaction rt tx chain =
     (if nullish tx then Inl TypeError
      else
        let timestamp = ToString rt (or_else (or_else (get tx ''blockTime'') (get tx ''timestamp''))
                                       (Num (Fin 0)));
            value = ToString rt (or_else (or_else (get tx ''lamport'') (get tx ''amount'')) (Num (Fin 0)));
            fee = ToString rt (or_else (get tx ''fee'') (Num (Fin 0)))
        in
        then_result (formatValue rt (Str value) (chain_decimals chain)) (\<lambda>valueFormatted.
        then_result (formatValue rt (Str fee) (chain_decimals chain)) (\<lambda>feeFormatted.
          Inr \<lparr>tx_hash = Str (ToString rt (or_else (or_else (get tx ''txHash'') (get tx ''signature''))
                                          (Str []))),
               tx_blockNumber = Str (ToString rt (or_else (or_else (get tx ''slot'') (get tx ''block''))
                                                 (Str []))),
               tx_timestamp = Str timestamp,
               tx_from = Str (ToString rt (or_else (or_else (get tx ''signer'') (get tx ''from''))
                                          (Str []))),
               tx_to = Str (ToString rt (or_else (or_else (get tx ''to'') (get tx ''destination''))
                                        (Str []))),
               tx_value = Str value,
               tx_valueFormatted = valueFormatted,
               tx_fee = Str fee,
               tx_feeFormatted = feeFormatted,
               tx_status = Str (if get tx ''status'' = Str ''fail'' then ''failed'' else ''success''),
               tx_type = Str (solscan_type (get tx ''type'')),
               tx_chainId = chain_id chain,
               tx_chainName = chain_name chain,
               tx_symbol = chain_symbol chain,
               tx_method = Undefined,
               tx_gasUsed = Undefined,
               tx_gasPrice = Undefined,
               tx_nonce = Undefined,
               tx_input = Undefined,
               tx_explorerUrl = chain_explorerUrl chain @ ''/tx/'' @
                 ToString rt (or_else (get tx ''txHash'') (get tx ''signature''))\<rparr>)))"

definition cosmos_type :: "string \<Rightarrow> string" where
  "cosmos_type msgType =
     (if str_includes msgType ''MsgDelegate'' then ''stake''
      else if str_includes msgType ''MsgUndelegate'' then ''unstake''
      else if str_includes msgType ''MsgSend'' then ''transfer''
      else ''transfer'')"

definition parseCosmosTransaction :: "runtime \<Rightarrow> jsval \<Rightarrow> ChainConfig \<Rightarrow> error + Transaction" where
  "parseCosmosTransaction rt tx chain =
     (if nullish tx then Inl TypeError
      else
        let txData = or_else (get tx ''tx'') tx;
            body = or_else (get txData ''body'') (Obj []);
            messages = or_else (get body ''messages'') (Arr []);
            firstMsg = or_else (index0 messages) (Obj []);
            timestamp = ToString rt (or_else (or_else (get tx ''timestamp'') (get tx ''time''))
                                       (Num (Fin 0)));
            value = ToString rt (or_else (opt_get (opt_index0 (get firstMsg ''amount'')) ''amount'')
                                   (Num (Fin 0)));
            fee = ToString rt (or_else (get tx ''fee'') (Num (Fin 0)));
            msgType = ToString rt (or_else (get firstMsg ''@type'') (Str []))
        in
        then_result (formatValue rt (Str value) (chain_decimals chain)) (\<lambda>valueFormatted.
        then_result (formatValue rt (Str fee) (chain_decimals chain)) (\<lambda>feeFormatted.
          Inr \<lparr>tx_hash = Str (ToString rt (or_else (or_else (get tx ''txhash'') (get tx ''hash''))
                                          (Str []))),
               tx_blockNumber = Str (ToString rt (or_else (or_else (get tx ''height'') (get tx ''block''))
                                                 (Str []))),
               tx_timestamp = Str timestamp,
               tx_from = Str (ToString rt (or_else (or_else (get firstMsg ''from_address'')
                                                     (get firstMsg ''delegator_address'')) (Str []))),
               tx_to = Str (ToString rt (or_else (or_else (get firstMsg ''to_address'')
                                                   (get firstMsg ''validator_address'')) (Str []))),
               tx_value = Str value,
               tx_valueFormatted = valueFormatted,
               tx_fee = Str fee,
               tx_feeFormatted = feeFormatted,
               tx_status = Str (if get tx ''code'' = Num (Fin 0) \<or> \<not> truthy (get tx ''code'')
                                 then ''success'' else ''failed''),
               tx_type = Str (cosmos_type msgType),
               tx_chainId = chain_id chain,
               tx_chainName = chain_name chain,
               tx_symbol = chain_symbol chain,
               tx_method = or_undefined (split_last CHR ''.'' msgType),
               tx_gasUsed = Undefined,
               tx_gasPrice = Undefined,
               tx_nonce = Undefined,
               tx_input = Undefined,
               tx_explorerUrl = chain_explorerUrl chain @ ''/txs/'' @
                 ToString rt (or_else (get tx ''txhash'') (get tx ''hash''))\<rparr>)))"

subsection \<open>Per-provider fetchers\<close>

text \<open>
  A fetcher takes the requests issued so far and returns its outcome (\<open>Inl\<close>: the promise
  rejects with that error) together with the requests issued once it has settled.
  Console output is not modelled.
\<close>

type_synonym fetch_result = "(error + TransactionResponse) \<times> request list"

definition http_get :: "string \<Rightarrow> request" where
  "http_get u = \<lparr>req_url = u, req_method = ''GET'', req_headers = [], req_body = Undefined\<rparr>"

text \<open>\<^verbatim>\<open>${n}\<close> for a Number \<open>n\<close> in a template literal.\<close>

definition show_int :: "runtime \<Rightarrow> int \<Rightarrow> string" where
  "show_int rt n = Number_toString rt (Fin n)"

text \<open>The envelope every fetcher returns: \<^verbatim>\<open>{transactions, totalCount, page, limit, hasMore}\<close>.\<close>

definition envelope :: "Transaction list \<Rightarrow> jsval \<Rightarrow> int \<Rightarrow> int \<Rightarrow> TransactionResponse" where
  "envelope transactions totalCount page limit =
     \<lparr>resp_transactions = transactions,
      resp_totalCount = totalCount,
      resp_page = page,
      resp_limit = limit,
      resp_hasMore = (int (length transactions) = limit)\<rparr>"

text \<open>\<^verbatim>\<open>transactions.length\<close>\<close>

definition count_of :: "Transaction list \<Rightarrow> jsval" where
  "count_of transactions = Num (Fin (int (length transactions)))"

text \<open>
  The outcome of one attempt against one endpoint: a response, a provider error envelope
  (with the message the code extracts from it), or an exception.
\<close>

datatype attempt = Success TransactionResponse | Envelope jsval | Thrown error

text \<open>\<^verbatim>\<open>[chain.apiEndpoint, ...(chain.fallbackEndpoints || [])]\<close>\<close>

definition allEndpoints :: "ChainConfig \<Rightarrow> string list" where
  "allEndpoints chain =
     chain_apiEndpoint chain #
       (case chain_fallbackEndpoints chain of None \<Rightarrow> [] | Some fs \<Rightarrow> fs)"

text \<open>\<^verbatim>\<open>allEndpoints[endpointIndex] || chain.apiEndpoint\<close>\<close>

definition currentEndpoint :: "ChainConfig \<Rightarrow> nat \<Rightarrow> string" where
  "currentEndpoint chain endpointIndex =
     (if endpointIndex < length (allEndpoints chain) \<and> allEndpoints chain ! endpointIndex \<noteq> []
      then allEndpoints chain ! endpointIndex
      else chain_apiEndpoint chain)"

definition apiKeyMap :: "runtime \<Rightarrow> string \<Rightarrow> string option" where
  "apiKeyMap rt cid =
     (case map_of
        [(''ethereum'', ''VITE_ETHERSCAN_API_KEY''),
         (''polygon'', ''VITE_POLYGONSCAN_API_KEY''),
         (''arbitrum'', ''VITE_ARBISCAN_API_KEY''),
         (''optimism'', ''VITE_OPTIMISM_API_KEY''),
         (''base'', ''VITE_BASESCAN_API_KEY''),
         (''bsc'', ''VITE_BSCSCAN_API_KEY''),
         (''avalanche'', ''VITE_SNOWTRACE_API_KEY''),
         (''fantom'', ''VITE_FTMSCAN_API_KEY''),
         (''gnosis'', ''VITE_GNOSISSCAN_API_KEY''),
         (''linea'', ''VITE_LINEASCAN_API_KEY''),
         (''zksync'', ''VITE_ZKSYNC_API_KEY'')] cid of
        None \<Rightarrow> None
      | Some var \<Rightarrow> env rt var)"

definition evm_request :: "runtime \<Rightarrow> string \<Rightarrow> ChainConfig \<Rightarrow> int \<Rightarrow> int \<Rightarrow> nat \<Rightarrow> request" where
  "evm_request rt address chain page limit endpointIndex =
     (let endpoint = currentEndpoint chain endpointIndex;
          isBlockscout = str_includes endpoint ''blockscout'';
          url = endpoint @ ''?module=account&action=txlist&address='' @ address @
                ''&page='' @ show_int rt page @ ''&offset='' @ show_int rt limit @ ''&sort=desc''
      in http_get
           (case apiKeyMap rt (chain_id chain) of
              None \<Rightarrow> url
            | Some apiKey \<Rightarrow>
                if apiKey \<noteq> [] \<and> \<not> isBlockscout then url @ ''&apikey='' @ apiKey else url))"

text \<open>
  One pass through the \<^verbatim>\<open>try\<close> block of \<^verbatim>\<open>fetchEVMTransactions\<close>, up to the point where
  the code decides between the next endpoint and an exception.
\<close>

definition evm_attempt ::
  "runtime \<Rightarrow> string \<Rightarrow> ChainConfig \<Rightarrow> int \<Rightarrow> int \<Rightarrow> nat \<Rightarrow> request list \<Rightarrow> attempt" where
  "evm_attempt rt address chain page limit endpointIndex log =
     (case fetch_json rt log (evm_request rt address chain page limit endpointIndex) of
        Inl e \<Rightarrow> Thrown e
      | Inr data \<Rightarrow>
          if nullish data then Thrown TypeError
          else if get data ''status'' \<noteq> Str ''1'' \<or> \<not> isArray (get data ''result'') then
            Envelope (case get data ''result'' of Str s \<Rightarrow> Str s | _ \<Rightarrow> get data ''message'')
          else
            (case js_map (\<lambda>tx. parseEtherscanTransaction rt tx chain) (get data ''result'') of
               Inl e \<Rightarrow> Thrown e
             | Inr transactions \<Rightarrow>
                 Success (envelope transactions (count_of transactions) page limit)))"

text \<open>
  \<^verbatim>\<open>fetchEVMTransactions\<close>. On an error envelope the \<^verbatim>\<open>try\<close> block either returns the
  call on the next endpoint or throws \<^verbatim>\<open>new Error(errorMsg || ...)\<close>, which the
  \<^verbatim>\<open>catch\<close> block rethrows (its own test for a remaining endpoint is false then); on an
  exception the \<^verbatim>\<open>catch\<close> block returns the call on the next endpoint or rethrows.
\<close>

function fetchEVMTransactions ::
  "runtime \<Rightarrow> string \<Rightarrow> ChainConfig \<Rightarrow> int \<Rightarrow> int \<Rightarrow> nat \<Rightarrow> request list \<Rightarrow> fetch_result" where
  "fetchEVMTransactions rt address chain page limit endpointIndex log =
     (let log' = log @ [evm_request rt address chain page limit endpointIndex] in
      case evm_attempt rt address chain page limit endpointIndex log of
        Success r \<Rightarrow> (Inr r, log')
      | Envelope errorMsg \<Rightarrow>
          if endpointIndex < length (allEndpoints chain) - 1
          then fetchEVMTransactions rt address chain page limit (endpointIndex + 1) log'
          else (Inl (Error (ToString rt (or_else errorMsg (Str ''Failed to fetch transactions'')))),
                log')
      | Thrown e \<Rightarrow>
          if endpointIndex < length (allEndpoints chain) - 1
          then fetchEVMTransactions rt address chain page limit (endpointIndex + 1) log'
          else (Inl e, log'))"
  by pat_completeness auto
termination
  by (relation "measure (\<lambda>(rt, address, chain, page, limit, endpointIndex, log).
                  length (allEndpoints chain) - endpointIndex)") auto

declare fetchEVMTransactions.simps [simp del]

text \<open>The result of a \<^verbatim>\<open>try\<close> block whose \<^verbatim>\<open>catch\<close> block rethrows.\<close>

definition settle :: "request list \<Rightarrow> request \<Rightarrow> error + TransactionResponse \<Rightarrow> fetch_result" where
  "settle log req r = (r, log @ [req])"

definition substrate_request :: "runtime \<Rightarrow> string \<Rightarrow> ChainConfig \<Rightarrow> int \<Rightarrow> int \<Rightarrow> request" where
  "substrate_request rt address chain page limit =
     \<lparr>req_url = chain_apiEndpoint chain @ ''/api/v2/scan/extrinsics'',
      req_method = ''POST'',
      req_headers =
        (''Content-Type'', ''application/json'') #
          (case env rt ''VITE_SUBSCAN_API_KEY'' of
             None \<Rightarrow> []
           | Some apiKey \<Rightarrow> if apiKey \<noteq> [] then [(''X-API-Key'', apiKey)] else []),
      req_body = Obj [(''address'', Str address), (''page'', Num (Fin (page - 1))),
                      (''row'', Num (Fin limit))]\<rparr>"

definition substrate_attempt ::
  "runtime \<Rightarrow> string \<Rightarrow> ChainConfig \<Rightarrow> int \<Rightarrow> int \<Rightarrow> request list \<Rightarrow> error + TransactionResponse" where
  "substrate_attempt rt address chain page limit log =
     then_result (fetch_json rt log (substrate_request rt address chain page limit)) (\<lambda>data.
       if nullish data then Inl TypeError
       else if get data ''code'' \<noteq> Num (Fin 0) \<or> \<not> truthy (opt_get (get data ''data'') ''extrinsics'')
       then Inl (Error (ToString rt (or_else (get data ''message'')
                                       (Str ''Failed to fetch transactions''))))
       else
         then_result (js_map (\<lambda>tx. parseSubscanTransaction rt tx chain)
                        (get (get data ''data'') ''extrinsics'')) (\<lambda>transactions.
           Inr (envelope transactions
                  (or_else (get (get data ''data'') ''count'') (count_of transactions)) page limit)))"

definition fetchSubstrateTransactions ::
  "runtime \<Rightarrow> string \<Rightarrow> ChainConfig \<Rightarrow> int \<Rightarrow> int \<Rightarrow> request list \<Rightarrow> fetch_result" where
  "fetchSubstrateTransactions rt address chain page limit log =
     settle log (substrate_request rt address chain page limit)
       (substrate_attempt rt address chain page limit log)"

text \<open>The record that the Helius branch of \<^verbatim>\<open>fetchSolanaTransactions\<close> builds in place.\<close>

definition parseHeliusTransaction ::
  "runtime \<Rightarrow> string \<Rightarrow> jsval \<Rightarrow> ChainConfig \<Rightarrow> error + Transaction" where
  "parseHeliusTransaction rt address tx chain =
     (if nullish tx then Inl TypeError
      else
        then_result (formatValue rt (Str (ToString rt (or_else (get tx ''fee'') (Num (Fin 0)))))
                       (chain_decimals chain)) (\<lambda>feeFormatted.
          Inr \<lparr>tx_hash = Str (ToString rt (or_else (get tx ''signature'') (Str []))),
               tx_blockNumber = Str (ToString rt (or_else (get tx ''slot'') (Str []))),
               tx_timestamp = Str (ToString rt (or_else (get tx ''timestamp'') (Num (Fin 0)))),
               tx_from = Str address,
               tx_to = Str (ToString rt (or_else (get tx ''destination'') (Str []))),
               tx_value = Str ''0'',
               tx_valueFormatted = ''0'',
               tx_fee = Str (ToString rt (or_else (get tx ''fee'') (Num (Fin 0)))),
               tx_feeFormatted = feeFormatted,
               tx_status = Str (if truthy (get tx ''transactionError'') then ''failed'' else ''success''),
               tx_type = Str ''transfer'',
               tx_chainId = chain_id chain,
               tx_chainName = chain_name chain,
               tx_symbol = chain_symbol chain,
               tx_method = Undefined,
               tx_gasUsed = Undefined,
               tx_gasPrice = Undefined,
               tx_nonce = Undefined,
               tx_input = Undefined,
               tx_explorerUrl = chain_explorerUrl chain @ ''/tx/'' @
                 ToString rt (get tx ''signature'')\<rparr>))"

definition helius_request :: "runtime \<Rightarrow> string \<Rightarrow> string \<Rightarrow> int \<Rightarrow> request" where
  "helius_request rt heliusKey address limit =
     http_get (''https://api.helius.xyz/v0/addresses/'' @ address @ ''/transactions?api-key='' @
               heliusKey @ ''&limit='' @ show_int rt limit)"

definition helius_attempt ::
  "runtime \<Rightarrow> string \<Rightarrow> string \<Rightarrow> ChainConfig \<Rightarrow> int \<Rightarrow> int \<Rightarrow> request list
     \<Rightarrow> error + TransactionResponse" where
  "helius_attempt rt heliusKey address chain page limit log =
     then_result (fetch_json rt log (helius_request rt heliusKey address limit)) (\<lambda>data.
       if \<not> isArray data then Inl (Error ''Invalid response from Helius'')
       else
         then_result (js_map (\<lambda>tx. parseHeliusTransaction rt address tx chain) data)
           (\<lambda>transactions. Inr (envelope transactions (count_of transactions) page limit)))"

definition solscan_request :: "runtime \<Rightarrow> string \<Rightarrow> ChainConfig \<Rightarrow> int \<Rightarrow> int \<Rightarrow> request" where
  "solscan_request rt address chain page limit =
     http_get (chain_apiEndpoint chain @ ''/account/transactions?account='' @ address @
               ''&page='' @ show_int rt page @ ''&page_size='' @ show_int rt limit)"

definition solscan_attempt ::
  "runtime \<Rightarrow> string \<Rightarrow> ChainConfig \<Rightarrow> int \<Rightarrow> int \<Rightarrow> request list \<Rightarrow> error + TransactionResponse" where
  "solscan_attempt rt address chain page limit log =
     then_result (fetch_json rt log (solscan_request rt address chain page limit)) (\<lambda>data.
       if nullish data then Inl TypeError
       else if \<not> isArray (get data ''data'') then
         Inl (Error
           ''Solscan API requires authentication. Add VITE_HELIUS_API_KEY for Solana support.'')
       else
         then_result (js_map (\<lambda>tx. parseSolscanTransaction rt tx chain) (get data ''data''))
           (\<lambda>transactions.
              Inr (envelope transactions (or_else (get data ''total'') (count_of transactions))
                     page limit)))"

definition fetchSolanaTransactions ::
  "runtime \<Rightarrow> string \<Rightarrow> ChainConfig \<Rightarrow> int \<Rightarrow> int \<Rightarrow> request list \<Rightarrow> fetch_result" where
  "fetchSolanaTransactions rt address chain page limit log =
     (case env rt ''VITE_HELIUS_API_KEY'' of
        Some heliusKey \<Rightarrow>
          if heliusKey \<noteq> [] then
            settle log (helius_request rt heliusKey address limit)
              (helius_attempt rt heliusKey address chain page limit log)
          else
            settle log (solscan_request rt address chain page limit)
              (solscan_attempt rt address chain page limit log)
      | None \<Rightarrow>
          settle log (solscan_request rt address chain page limit)
            (solscan_attempt rt address chain page limit log))"

definition cosmos_request :: "runtime \<Rightarrow> string \<Rightarrow> ChainConfig \<Rightarrow> int \<Rightarrow> int \<Rightarrow> nat \<Rightarrow> request" where
  "cosmos_request rt address chain page limit endpointIndex =
     (let offset = (page - 1) * limit in
      http_get (currentEndpoint chain endpointIndex @
                ''/cosmos/tx/v1beta1/txs?events=message.sender='' @ [CHR 0x27] @ address @
                [CHR 0x27] @ ''&pagination.limit='' @ show_int rt limit @
                ''&pagination.offset='' @ show_int rt offset @ ''&order_by=ORDER_BY_DESC''))"

definition cosmos_attempt ::
  "runtime \<Rightarrow> string \<Rightarrow> ChainConfig \<Rightarrow> int \<Rightarrow> int \<Rightarrow> nat \<Rightarrow> request list \<Rightarrow> attempt" where
  "cosmos_attempt rt address chain page limit endpointIndex log =
     (case fetch_json rt log (cosmos_request rt address chain page limit endpointIndex) of
        Inl e \<Rightarrow> Thrown e
      | Inr data \<Rightarrow>
          if nullish data then Thrown TypeError
          else if \<not> isArray (get data ''tx_responses'') then
            Envelope (Str ''Failed to fetch Cosmos transactions'')
          else
            (case js_map (\<lambda>tx. parseCosmosTransaction rt tx chain) (get data ''tx_responses'') of
               Inl e \<Rightarrow> Thrown e
             | Inr transactions \<Rightarrow>
                 Success (envelope transactions
                            (Num (parseInt rt (ToString rt
                               (or_else (opt_get (get data ''pagination'') ''total'') (Str ''0'')))))
                            page limit)))"

function fetchCosmosTransactions ::
  "runtime \<Rightarrow> string \<Rightarrow> ChainConfig \<Rightarrow> int \<Rightarrow> int \<Rightarrow> nat \<Rightarrow> request list \<Rightarrow> fetch_result" where
  "fetchCosmosTransactions rt address chain page limit endpointIndex log =
     (let log' = log @ [cosmos_request rt address chain page limit endpointIndex] in
      case cosmos_attempt rt address chain page limit endpointIndex log of
        Success r \<Rightarrow> (Inr r, log')
      | Envelope errorMsg \<Rightarrow>
          if endpointIndex < length (allEndpoints chain) - 1
          then fetchCosmosTransactions rt address chain page limit (endpointIndex + 1) log'
          else (Inl (Error (ToString rt errorMsg)), log')
      | Thrown e \<Rightarrow>
          if endpointIndex < length (allEndpoints chain) - 1
          then fetchCosmosTransactions rt address chain page limit (endpointIndex + 1) log'
          else (Inl e, log'))"
  by pat_completeness auto
termination
  by (relation "measure (\<lambda>(rt, address, chain, page, limit, endpointIndex, log).
                  length (allEndpoints chain) - endpointIndex)") auto

declare fetchCosmosTransactions.simps [simp del]

text \<open>The record that \<^verbatim>\<open>fetchBitcoinTransactions\<close> builds from a Blockchain.info entry.\<close>

definition parseBlockchainInfoTransaction ::
  "runtime \<Rightarrow> string \<Rightarrow> jsval \<Rightarrow> ChainConfig \<Rightarrow> error + Transaction" where
  "parseBlockchainInfoTransaction rt address tx chain =
     (if nullish tx then Inl TypeError
      else
        then_result (js_find_by ''addr'' address (get tx ''out'')) (\<lambda>found.
          let value = or_else (opt_get found ''value'') (Num (Fin 0)) in
          if nullish (get tx ''inputs'') then Inl TypeError
          else
            then_result (formatValue rt (Str (ToString rt value)) (chain_decimals chain))
              (\<lambda>valueFormatted.
            then_result (formatValue rt (Str (ToString rt (or_else (get tx ''fee'') (Num (Fin 0)))))
                           (chain_decimals chain)) (\<lambda>feeFormatted.
              Inr \<lparr>tx_hash = get tx ''hash'',
                   tx_blockNumber = Str (ToString rt (or_else (get tx ''block_height'')
                                                       (Str ''pending''))),
                   tx_timestamp = Str (ToString rt (get tx ''time'')),
                   tx_from = or_else (opt_get (opt_get (index0 (get tx ''inputs'')) ''prev_out'')
                                        ''addr'') (Str ''coinbase''),
                   tx_to = or_else (opt_get (index0 (get tx ''out'')) ''addr'') (Str []),
                   tx_value = Str (ToString rt value),
                   tx_valueFormatted = valueFormatted,
                   tx_fee = Str (ToString rt (or_else (get tx ''fee'') (Num (Fin 0)))),
                   tx_feeFormatted = feeFormatted,
                   tx_status = Str (if truthy (get tx ''block_height'') then ''success''
                                    else ''pending''),
                   tx_type = Str ''transfer'',
                   tx_chainId = chain_id chain,
                   tx_chainName = chain_name chain,
                   tx_symbol = chain_symbol chain,
                   tx_method = Undefined,
                   tx_gasUsed = Undefined,
                   tx_gasPrice = Undefined,
                   tx_nonce = Undefined,
                   tx_input = Undefined,
                   tx_explorerUrl = ''https://blockchair.com/bitcoin/transaction/'' @
                     ToString rt (get tx ''hash'')\<rparr>))))"

text \<open>The record that \<^verbatim>\<open>fetchBitcoinTransactions\<close> builds from a Blockstream entry.\<close>

definition parseBlockstreamTransaction ::
  "runtime \<Rightarrow> string \<Rightarrow> jsval \<Rightarrow> ChainConfig \<Rightarrow> error + Transaction" where
  "parseBlockstreamTransaction rt address tx chain =
     (if nullish tx then Inl TypeError
      else
        then_result (js_find_by ''scriptpubkey_address'' address (get tx ''vout'')) (\<lambda>found.
          let value = or_else (opt_get found ''value'') (Num (Fin 0)) in
          if nullish (get tx ''status'') \<or> nullish (get tx ''vin'') then Inl TypeError
          else
            then_result (formatValue rt (Str (ToString rt value)) (chain_decimals chain))
              (\<lambda>valueFormatted.
            then_result (formatValue rt (Str (ToString rt (or_else (get tx ''fee'') (Num (Fin 0)))))
                           (chain_decimals chain)) (\<lambda>feeFormatted.
              Inr \<lparr>tx_hash = get tx ''txid'',
                   tx_blockNumber = Str (ToString rt (or_else (get (get tx ''status'') ''block_height'')
                                                       (Str ''pending''))),
                   tx_timestamp = Str (ToString rt (or_else (get (get tx ''status'') ''block_time'')
                                                     (Num (Fin (Date_now rt div 1000))))),
                   tx_from = or_else (opt_get (opt_get (index0 (get tx ''vin'')) ''prevout'')
                                        ''scriptpubkey_address'') (Str ''coinbase''),
                   tx_to = or_else (opt_get (index0 (get tx ''vout'')) ''scriptpubkey_address'')
                             (Str []),
                   tx_value = Str (ToString rt value),
                   tx_valueFormatted = valueFormatted,
                   tx_fee = Str (ToString rt (or_else (get tx ''fee'') (Num (Fin 0)))),
                   tx_feeFormatted = feeFormatted,
                   tx_status = Str (if truthy (get (get tx ''status'') ''confirmed'') then ''success''
                                    else ''pending''),
                   tx_type = Str ''transfer'',
                   tx_chainId = chain_id chain,
                   tx_chainName = chain_name chain,
                   tx_symbol = chain_symbol chain,
                   tx_method = Undefined,
                   tx_gasUsed = Undefined,
                   tx_gasPrice = Undefined,
                   tx_nonce = Undefined,
                   tx_input = Undefined,
                   tx_explorerUrl = ''https://blockstream.info/tx/'' @
                     ToString rt (get tx ''txid'')\<rparr>))))"

definition blockchain_info_request :: "runtime \<Rightarrow> string \<Rightarrow> int \<Rightarrow> int \<Rightarrow> request" where
  "blockchain_info_request rt address page limit =
     (let offset = (page - 1) * limit in
      http_get (''https://blockchain.info/rawaddr/'' @ address @ ''?limit='' @ show_int rt limit @
                ''&offset='' @ show_int rt offset))"

definition blockchain_info_attempt ::
  "runtime \<Rightarrow> string \<Rightarrow> ChainConfig \<Rightarrow> int \<Rightarrow> int \<Rightarrow> request list \<Rightarrow> error + TransactionResponse" where
  "blockchain_info_attempt rt address chain page limit log =
     then_result (fetch_json rt log (blockchain_info_request rt address page limit)) (\<lambda>data.
       if nullish data then Inl TypeError
       else if \<not> isArray (get data ''txs'') then Inl (Error ''Failed to fetch Bitcoin transactions'')
       else
         then_result (js_map (\<lambda>tx. parseBlockchainInfoTransaction rt address tx chain)
                        (get data ''txs'')) (\<lambda>transactions.
           Inr (envelope transactions (or_else (get data ''n_tx'') (count_of transactions))
                  page limit)))"

definition blockstream_request :: "string \<Rightarrow> request" where
  "blockstream_request address =
     http_get (''https://blockstream.info/api/address/'' @ address @ ''/txs'')"

definition blockstream_attempt ::
  "runtime \<Rightarrow> string \<Rightarrow> ChainConfig \<Rightarrow> int \<Rightarrow> int \<Rightarrow> request list \<Rightarrow> error + TransactionResponse" where
  "blockstream_attempt rt address chain page limit log =
     (let offset = (page - 1) * limit in
      then_result (fetch_json rt log (blockstream_request address)) (\<lambda>data.
        if \<not> isArray data then Inl (Error ''Failed to fetch Bitcoin transactions'')
        else
          then_result (map_result (\<lambda>tx. parseBlockstreamTransaction rt address tx chain)
                         (array_slice (elements data) offset (offset + limit))) (\<lambda>transactions.
            Inr (envelope transactions (count_of transactions) page limit))))"

text \<open>
  \<^verbatim>\<open>fetchBitcoinTransactions\<close>: any exception of the Blockchain.info attempt leads to the
  call with \<^verbatim>\<open>useFallback = true\<close>, which asks Blockstream and rethrows what fails there.
\<close>

function fetchBitcoinTransactions ::
  "runtime \<Rightarrow> string \<Rightarrow> ChainConfig \<Rightarrow> int \<Rightarrow> int \<Rightarrow> bool \<Rightarrow> request list \<Rightarrow> fetch_result" where
  "fetchBitcoinTransactions rt address chain page limit useFallback log =
     (if \<not> useFallback then
        (case blockchain_info_attempt rt address chain page limit log of
           Inr r \<Rightarrow> (Inr r, log @ [blockchain_info_request rt address page limit])
         | Inl e \<Rightarrow>
             fetchBitcoinTransactions rt address chain page limit True
               (log @ [blockchain_info_request rt address page limit]))
      else
        settle log (blockstream_request address)
          (blockstream_attempt rt address chain page limit log))"
  by pat_completeness auto
termination
  by (relation "measure (\<lambda>(rt, address, chain, page, limit, useFallback, log).
                  if useFallback then 0 else 1)") auto

declare fetchBitcoinTransactions.simps [simp del]

definition parseTronTransaction :: "runtime \<Rightarrow> jsval \<Rightarrow> ChainConfig \<Rightarrow> error + Transaction" where
  "parseTronTransaction rt tx chain =
     (if nullish tx then Inl TypeError
      else
        then_result (formatValue rt (Str (ToString rt (or_else (get tx ''amount'') (Num (Fin 0)))))
                       (chain_decimals chain)) (\<lambda>valueFormatted.
        then_result (formatValue rt
                       (Str (ToString rt (or_else (opt_get (get tx ''cost'') ''fee'') (Num (Fin 0)))))
                       (chain_decimals chain)) (\<lambda>feeFormatted.
          Inr \<lparr>tx_hash = get tx ''hash'',
               tx_blockNumber = Str (ToString rt (get tx ''block'')),
               tx_timestamp = Str (Number_toString rt
                                     (floor_div (ToNumber rt (get tx ''timestamp'')) 1000)),
               tx_from = get tx ''ownerAddress'',
               tx_to = get tx ''toAddress'',
               tx_value = Str (ToString rt (or_else (get tx ''amount'') (Num (Fin 0)))),
               tx_valueFormatted = valueFormatted,
               tx_fee = Str (ToString rt (or_else (opt_get (get tx ''cost'') ''fee'') (Num (Fin 0)))),
               tx_feeFormatted = feeFormatted,
               tx_status = Str (if get tx ''contractRet'' = Str ''SUCCESS'' then ''success''
                                else ''failed''),
               tx_type = Str (if get tx ''contractType'' = Num (Fin 1) then ''transfer''
                              else ''contract''),
               tx_chainId = chain_id chain,
               tx_chainName = chain_name chain,
               tx_symbol = chain_symbol chain,
               tx_method = Undefined,
               tx_gasUsed = Undefined,
               tx_gasPrice = Undefined,
               tx_nonce = Undefined,
               tx_input = Undefined,
               tx_explorerUrl = ''https://tronscan.org/#/transaction/'' @
                 ToString rt (get tx ''hash'')\<rparr>)))"

definition tron_request :: "runtime \<Rightarrow> string \<Rightarrow> int \<Rightarrow> int \<Rightarrow> request" where
  "tron_request rt address page limit =
     (let start = (page - 1) * limit in
      http_get (''https://apilist.tronscanapi.com/api/transaction?address='' @ address @
                ''&start='' @ show_int rt start @ ''&limit='' @ show_int rt limit @
                ''&sort=-timestamp''))"

definition tron_attempt ::
  "runtime \<Rightarrow> string \<Rightarrow> ChainConfig \<Rightarrow> int \<Rightarrow> int \<Rightarrow> request list \<Rightarrow> error + TransactionResponse" where
  "tron_attempt rt address chain page limit log =
     then_result (fetch_json rt log (tron_request rt address page limit)) (\<lambda>data.
       if nullish data then Inl TypeError
       else if \<not> isArray (get data ''data'') then Inl (Error ''Failed to fetch TRON transactions'')
       else
         then_result (js_map (\<lambda>tx. parseTronTransaction rt tx chain) (get data ''data''))
           (\<lambda>transactions.
              Inr (envelope transactions (or_else (get data ''total'') (count_of transactions))
                     page limit)))"

definition fetchTronTransactions ::
  "runtime \<Rightarrow> string \<Rightarrow> ChainConfig \<Rightarrow> int \<Rightarrow> int \<Rightarrow> request list \<Rightarrow> fetch_result" where
  "fetchTronTransactions rt address chain page limit log =
     settle log (tron_request rt address page limit) (tron_attempt rt address chain page limit log)"

definition parseNearTransaction :: "runtime \<Rightarrow> jsval \<Rightarrow> ChainConfig \<Rightarrow> error + Transaction" where
  "parseNearTransaction rt tx chain =
     (if nullish tx then Inl TypeError
      else
        then_result (formatValue rt
                       (Str (ToString rt (or_else (opt_get (get tx ''actions_agg'') ''deposit'')
                                            (Num (Fin 0)))))
                       (chain_decimals chain)) (\<lambda>valueFormatted.
        then_result (formatValue rt
                       (Str (ToString rt (or_else (opt_get (get tx ''outcomes_agg'') ''transaction_fee'')
                                            (Num (Fin 0)))))
                       (chain_decimals chain)) (\<lambda>feeFormatted.
          Inr \<lparr>tx_hash = get tx ''transaction_hash'',
               tx_blockNumber = get tx ''included_in_block_hash'',
               tx_timestamp = Str (Number_toString rt
                                     (floor_div (Date_getTime rt (get tx ''block_timestamp'')) 1000)),
               tx_from = get tx ''signer_account_id'',
               tx_to = get tx ''receiver_account_id'',
               tx_value = Str (ToString rt (or_else (opt_get (get tx ''actions_agg'') ''deposit'')
                                              (Num (Fin 0)))),
               tx_valueFormatted = valueFormatted,
               tx_fee = Str (ToString rt (or_else (opt_get (get tx ''outcomes_agg'') ''transaction_fee'')
                                            (Num (Fin 0)))),
               tx_feeFormatted = feeFormatted,
               tx_status = Str (if truthy (opt_get (get tx ''outcomes'') ''status'') then ''success''
                                else ''failed''),
               tx_type = Str ''transfer'',
               tx_chainId = chain_id chain,
               tx_chainName = chain_name chain,
               tx_symbol = chain_symbol chain,
               tx_method = Undefined,
               tx_gasUsed = Undefined,
               tx_gasPrice = Undefined,
               tx_nonce = Undefined,
               tx_input = Undefined,
               tx_explorerUrl = ''https://nearblocks.io/txns/'' @
                 ToString rt (get tx ''transaction_hash'')\<rparr>)))"

definition near_request :: "runtime \<Rightarrow> string \<Rightarrow> int \<Rightarrow> int \<Rightarrow> request" where
  "near_request rt address page limit =
     http_get (''https://api.nearblocks.io/v1/account/'' @ address @ ''/txns?page='' @
               show_int rt page @ ''&per_page='' @ show_int rt limit @ ''&order=desc'')"

definition near_attempt ::
  "runtime \<Rightarrow> string \<Rightarrow> ChainConfig \<Rightarrow> int \<Rightarrow> int \<Rightarrow> request list \<Rightarrow> error + TransactionResponse" where
  "near_attempt rt address chain page limit log =
     then_result (fetch_json rt log (near_request rt address page limit)) (\<lambda>data.
       if nullish data then Inl TypeError
       else if \<not> isArray (get data ''txns'') then Inl (Error ''Failed to fetch NEAR transactions'')
       else
         then_result (js_map (\<lambda>tx. parseNearTransaction rt tx chain) (get data ''txns''))
           (\<lambda>transactions.
              Inr (envelope transactions (or_else (get data ''count'') (count_of transactions))
                     page limit)))"

definition fetchNearTransactions ::
  "runtime \<Rightarrow> string \<Rightarrow> ChainConfig \<Rightarrow> int \<Rightarrow> int \<Rightarrow> request list \<Rightarrow> fetch_result" where
  "fetchNearTransactions rt address chain page limit log =
     settle log (near_request rt address page limit) (near_attempt rt address chain page limit log)"

definition sui_fee :: "jsval \<Rightarrow> jsval" where
  "sui_fee tx =
     or_else (opt_get (opt_get (get tx ''effects'') ''gasUsed'') ''computationCost'') (Str ''0'')"

definition parseSuiTransaction ::
  "runtime \<Rightarrow> string \<Rightarrow> jsval \<Rightarrow> ChainConfig \<Rightarrow> error + Transaction" where
  "parseSuiTransaction rt address tx chain =
     (if nullish tx then Inl TypeError
      else
        then_result (formatValue rt (sui_fee tx) (chain_decimals chain)) (\<lambda>feeFormatted.
          Inr \<lparr>tx_hash = get tx ''digest'',
               tx_blockNumber = or_else (get tx ''checkpoint'') (Str []),
               tx_timestamp = Str (Number_toString rt
                                     (floor_div (ToNumber rt (get tx ''timestampMs'')) 1000)),
               tx_from = or_else (opt_get (opt_get (get tx ''transaction'') ''data'') ''sender'')
                           (Str address),
               tx_to = Str [],
               tx_value = Str ''0'',
               tx_valueFormatted = ''0'',
               tx_fee = sui_fee tx,
               tx_feeFormatted = feeFormatted,
               tx_status = Str (if opt_get (opt_get (get tx ''effects'') ''status'') ''status''
                                   = Str ''success''
                                then ''success'' else ''failed''),
               tx_type = Str ''transfer'',
               tx_chainId = chain_id chain,
               tx_chainName = chain_name chain,
               tx_symbol = chain_symbol chain,
               tx_method = Undefined,
               tx_gasUsed = Undefined,
               tx_gasPrice = Undefined,
               tx_nonce = Undefined,
               tx_input = Undefined,
               tx_explorerUrl = ''https://suiscan.xyz/mainnet/tx/'' @
                 ToString rt (get tx ''digest'')\<rparr>))"

definition sui_request :: "string \<Rightarrow> ChainConfig \<Rightarrow> int \<Rightarrow> request" where
  "sui_request address chain limit =
     \<lparr>req_url = chain_apiEndpoint chain,
      req_method = ''POST'',
      req_headers = [(''Content-Type'', ''application/json'')],
      req_body =
        Obj [(''jsonrpc'', Str ''2.0''),
             (''id'', Num (Fin 1)),
             (''method'', Str ''suix_queryTransactionBlocks''),
             (''params'',
              Arr [Obj [(''filter'', Obj [(''FromAddress'', Str address)]),
                        (''options'', Obj [(''showInput'', Bool True),
                                           (''showEffects'', Bool True)])],
                   Null, Num (Fin limit), Bool True])]\<rparr>"

definition sui_attempt ::
  "runtime \<Rightarrow> string \<Rightarrow> ChainConfig \<Rightarrow> int \<Rightarrow> int \<Rightarrow> request list \<Rightarrow> error + TransactionResponse" where
  "sui_attempt rt address chain page limit log =
     then_result (fetch_json rt log (sui_request address chain limit)) (\<lambda>data.
       if nullish data then Inl TypeError
       else if \<not> truthy (opt_get (get data ''result'') ''data'')
       then Inl (Error ''Failed to fetch Sui transactions'')
       else
         then_result (js_map (\<lambda>tx. parseSuiTransaction rt address tx chain)
                        (get (get data ''result'') ''data'')) (\<lambda>transactions.
           Inr (envelope transactions (count_of transactions) page limit)))"

definition fetchSuiTransactions ::
  "runtime \<Rightarrow> string \<Rightarrow> ChainConfig \<Rightarrow> int \<Rightarrow> int \<Rightarrow> request list \<Rightarrow> fetch_result" where
  "fetchSuiTransactions rt address chain page limit log =
     settle log (sui_request address chain limit) (sui_attempt rt address chain page limit log)"

text \<open>\<^verbatim>\<open>String(BigInt(tx.gas_used) * BigInt(tx.gas_unit_price))\<close>\<close>

definition aptos_fee :: "runtime \<Rightarrow> jsval \<Rightarrow> error + string" where
  "aptos_fee rt tx =
     then_result (BigInt rt (get tx ''gas_used'')) (\<lambda>gu.
     then_result (BigInt rt (get tx ''gas_unit_price'')) (\<lambda>gp.
       Inr (BigInt_toString (gu * gp))))"

definition parseAptosTransaction :: "runtime \<Rightarrow> jsval \<Rightarrow> ChainConfig \<Rightarrow> error + Transaction" where
  "parseAptosTransaction rt tx chain =
     (if nullish tx then Inl TypeError
      else
        then_result (aptos_fee rt tx) (\<lambda>fee.
        then_result (aptos_fee rt tx) (\<lambda>fee'.
        then_result (formatValue rt (Str fee') (chain_decimals chain)) (\<lambda>feeFormatted.
          Inr \<lparr>tx_hash = get tx ''hash'',
               tx_blockNumber = get tx ''version'',
               tx_timestamp = Str (Number_toString rt
                                     (floor_div (ToNumber rt (get tx ''timestamp'')) 1000000)),
               tx_from = get tx ''sender'',
               tx_to = Str [],
               tx_value = Str ''0'',
               tx_valueFormatted = ''0'',
               tx_fee = Str fee,
               tx_feeFormatted = feeFormatted,
               tx_status = Str (if truthy (get tx ''success'') then ''success'' else ''failed''),
               tx_type = Str ''transfer'',
               tx_chainId = chain_id chain,
               tx_chainName = chain_name chain,
               tx_symbol = chain_symbol chain,
               tx_method = Undefined,
               tx_gasUsed = Undefined,
               tx_gasPrice = Undefined,
               tx_nonce = Undefined,
               tx_input = Undefined,
               tx_explorerUrl = ''https://explorer.aptoslabs.com/txn/'' @
                 ToString rt (get tx ''hash'') @ ''?network=mainnet''\<rparr>))))"

definition aptos_request :: "runtime \<Rightarrow> string \<Rightarrow> ChainConfig \<Rightarrow> int \<Rightarrow> int \<Rightarrow> request" where
  "aptos_request rt address chain page limit =
     (let offset = (page - 1) * limit in
      http_get (chain_apiEndpoint chain @ ''/accounts/'' @ address @ ''/transactions?limit='' @
                show_int rt limit @ ''&start='' @ show_int rt offset))"

definition aptos_attempt ::
  "runtime \<Rightarrow> string \<Rightarrow> ChainConfig \<Rightarrow> int \<Rightarrow> int \<Rightarrow> request list \<Rightarrow> error + TransactionResponse" where
  "aptos_attempt rt address chain page limit log =
     then_result (fetch_json rt log (aptos_request rt address chain page limit)) (\<lambda>data.
       if \<not> isArray data then Inl (Error ''Failed to fetch Aptos transactions'')
       else
         then_result (js_map (\<lambda>tx. parseAptosTransaction rt tx chain) data) (\<lambda>transactions.
           Inr (envelope transactions (count_of transactions) page limit)))"

definition fetchAptosTransactions ::
  "runtime \<Rightarrow> string \<Rightarrow> ChainConfig \<Rightarrow> int \<Rightarrow> int \<Rightarrow> request list \<Rightarrow> fetch_result" where
  "fetchAptosTransactions rt address chain page limit log =
     settle log (aptos_request rt address chain page limit)
       (aptos_attempt rt address chain page limit log)"

subsection \<open>Mock data\<close>

text \<open>
  The \<open>k\<close>-th draw of \<^verbatim>\<open>Math.random()\<close>, a Number in \<open>[0, 1)\<close>: the fraction
  \<open>draw rt k / 2 ^ 53\<close>.
\<close>

definition draw :: "runtime \<Rightarrow> nat \<Rightarrow> nat" where
  "draw rt k = random rt k mod 2 ^ 53"

text \<open>
  \<^verbatim>\<open>Math.floor(Math.random() * m)\<close> for a draw \<open>d / 2 ^ 53\<close> and a Number \<open>m\<close> that
  is a natural number or \<open>Infinity\<close>: the product \<open>d * m / 2 ^ 53\<close> is rounded to 53
  significant bits before the floor is taken.
\<close>

fun random_floor :: "nat \<Rightarrow> number \<Rightarrow> number" where
  "random_floor d (Fin m) = Fin (int (round53 (d * nat m) div 2 ^ 53))"
| "random_floor d Infinity = (if d = 0 then NaN else Infinity)"
| "random_floor d NaN = NaN"

text \<open>
  \<^verbatim>\<open>Math.floor(Math.random() * 10 ** e)\<close>: for a negative \<open>e\<close> the power is below one
  and so is the product.
\<close>

definition random_amount :: "nat \<Rightarrow> int \<Rightarrow> number" where
  "random_amount d e = (if e < 0 then Fin 0 else random_floor d (pow10 (nat e)))"

text \<open>\<^verbatim>\<open>xs[n]\<close> for an array of strings and a Number \<open>n\<close>.\<close>

fun pick :: "string list \<Rightarrow> number \<Rightarrow> jsval" where
  "pick xs (Fin n) = (if 0 \<le> n \<and> nat n < length xs then Str (xs ! nat n) else Undefined)"
| "pick xs other = Undefined"

text \<open>
  \<^verbatim>\<open>Array.from({ length: n }, () => '0123456789abcdef'[Math.floor(Math.random() * 16)]).join('')\<close>
  for the draws from \<open>k\<close> on.
\<close>

definition random_hex :: "runtime \<Rightarrow> nat \<Rightarrow> nat \<Rightarrow> string" where
  "random_hex rt k n =
     concat (map (\<lambda>j. case pick (map (\<lambda>c. [c]) ''0123456789abcdef'')
                               (random_floor (draw rt (k + j)) (Fin 16)) of
                          Str c \<Rightarrow> c
                        | other \<Rightarrow> [])
               [0..<n])"

text \<open>
  The callback of \<^verbatim>\<open>Array.from\<close> in \<^verbatim>\<open>generateMockTransactions\<close> for the index \<open>i\<close>;
  it consumes 110 draws, in the order of the source.
\<close>

definition mockTransaction ::
  "runtime \<Rightarrow> string \<Rightarrow> ChainConfig \<Rightarrow> int \<Rightarrow> nat \<Rightarrow> error + Transaction" where
  "mockTransaction rt address chain now i =
     (let k = 110 * i;
          isOutgoing = (2 ^ 52 < draw rt k);
          type = pick [''transfer'', ''contract'', ''token'', ''stake'', ''swap'']
                   (random_floor (draw rt (k + 1)) (Fin 5));
          status = pick [''success'', ''success'', ''success'', ''failed'']
                     (random_floor (draw rt (k + 2)) (Fin 4));
          value = Number_toString rt
                    (random_amount (draw rt (k + 3)) (int (chain_decimals chain) - 2));
          fee = Number_toString rt
                  (random_amount (draw rt (k + 4)) (int (chain_decimals chain) - 6));
          timestamp = Number_toString rt
                        (case random_floor (draw rt (k + 5)) (Fin 3600) of
                           Fin j \<Rightarrow> Fin (now - int i * 3600 - j)
                         | other \<Rightarrow> other);
          hash = ''0x'' @ random_hex rt (k + 6) 64;
          randomAddr = ''0x'' @ random_hex rt (k + 70) 40
      in
      then_result (formatValue rt (Str value) (chain_decimals chain)) (\<lambda>valueFormatted.
      then_result (formatValue rt (Str fee) (chain_decimals chain)) (\<lambda>feeFormatted.
        Inr \<lparr>tx_hash = Str hash,
             tx_blockNumber = Str (show_int rt (20000000 - int i * 100)),
             tx_timestamp = Str timestamp,
             tx_from = Str (if isOutgoing then address else randomAddr),
             tx_to = Str (if isOutgoing then randomAddr else address),
             tx_value = Str value,
             tx_valueFormatted = valueFormatted,
             tx_fee = Str fee,
             tx_feeFormatted = feeFormatted,
             tx_status = status,
             tx_type = type,
             tx_chainId = chain_id chain,
             tx_chainName = chain_name chain,
             tx_symbol = chain_symbol chain,
             tx_method = (if type = Str ''contract'' then Str ''swap'' else Undefined),
             tx_gasUsed = Undefined,
             tx_gasPrice = Undefined,
             tx_nonce = Undefined,
             tx_input = Undefined,
             tx_explorerUrl = chain_explorerUrl chain @ ''/tx/'' @ hash\<rparr>)))"

text \<open>
  \<^verbatim>\<open>generateMockTransactions\<close>: \<^verbatim>\<open>Array.from({ length: count }, ...)\<close> runs the callback
  for the indices below \<open>count\<close> (none when \<open>count\<close> is negative).
\<close>

definition generateMockTransactions ::
  "runtime \<Rightarrow> string \<Rightarrow> ChainConfig \<Rightarrow> int \<Rightarrow> error + Transaction list" where
  "generateMockTransactions rt address chain count =
     (let now = Date_now rt div 1000 in
      map_result (mockTransaction rt address chain now) [0..<nat count])"

subsection \<open>Dispatcher\<close>

definition fetchTransactions ::
  "runtime \<Rightarrow> string \<Rightarrow> string \<Rightarrow> int \<Rightarrow> int \<Rightarrow> bool \<Rightarrow> fetch_result" where
  "fetchTransactions rt address chainId page limit useMock =
     (case getChainById rt chainId of
        None \<Rightarrow> (Inl (Error (''Chain '' @ chainId @ '' not found'')), [])
      | Some chain \<Rightarrow>
          if useMock then
            (case generateMockTransactions rt address chain limit of
               Inl e \<Rightarrow> (Inl e, [])
             | Inr mockTxs \<Rightarrow>
                 (Inr \<lparr>resp_transactions = mockTxs,
                       resp_totalCount = Num (Fin 100),
                       resp_page = page,
                       resp_limit = limit,
                       resp_hasMore = (page < 4)\<rparr>, []))
          else if chain_id chain = ''bitcoin'' then
            fetchBitcoinTransactions rt address chain page limit False []
          else if chain_id chain = ''tron'' then fetchTronTransactions rt address chain page limit []
          else if chain_id chain = ''near'' then fetchNearTransactions rt address chain page limit []
          else if chain_id chain = ''sui'' then fetchSuiTransactions rt address chain page limit []
          else if chain_id chain = ''aptos'' then fetchAptosTransactions rt address chain page limit []
          else if chain_apiType chain = ''etherscan'' then
            fetchEVMTransactions rt address chain page limit 0 []
          else if chain_apiType chain = ''subscan'' then
            fetchSubstrateTransactions rt address chain page limit []
          else if chain_apiType chain = ''solscan'' then
            fetchSolanaTransactions rt address chain page limit []
          else if chain_apiType chain = ''mintscan'' then
            fetchCosmosTransactions rt address chain page limit 0 []
          else (Inl (Error (chain_name chain @ '' API not yet implemented. Check back soon!'')), []))"

subsection \<open>The formatter of the specification\<close>

text \<open>
  The value formatter as the specification words it, on the number that the string
  denotes: integer part \<open>v div 10 ^ decimals\<close>, fractional part \<open>v mod 10 ^ decimals\<close>
  padded on the left to \<open>decimals\<close> digits, cut to six digits, trailing zeros dropped.
\<close>

definition formatValue_spec :: "nat \<Rightarrow> nat \<Rightarrow> string" where
  "formatValue_spec v decimals =
     (let intPart = v div 10 ^ decimals;
          fracPart = v mod 10 ^ decimals;
          fracStr = strip_trailing_zeros (take 6 (padStart decimals CHR ''0'' (show_nat fracPart)))
      in if fracStr \<noteq> [] then show_nat intPart @ ''.'' @ fracStr else show_nat intPart)"

text \<open>The number that a string of decimal digits denotes.\<close>

definition digit_of :: "char \<Rightarrow> nat" where
  "digit_of c = length (takeWhile (\<lambda>x. x \<noteq> c) ''0123456789'')"

definition decimal_value :: "string \<Rightarrow> nat" where
  "decimal_value s = foldl (\<lambda>a c. a * 10 + digit_of c) 0 s"

subsection \<open>Example inputs\<close>

text \<open>A runtime without network, environment or registry.\<close>

definition offline_runtime :: runtime where
  "offline_runtime =
     \<lparr>fetch_json = (\<lambda>prior req. Inl (Error ''Failed to fetch'')),
      env = (\<lambda>var. None),
      getChainById = (\<lambda>cid. None),
      Date_now = 1700000000000,
      Date_getTime = (\<lambda>v. NaN),
      random = (\<lambda>k. 0),
      unsafe_toString = (\<lambda>n. ''1e+21''),
      StringToNumber = (\<lambda>s. NaN),
      parseInt = (\<lambda>s. NaN)\<rparr>"

text \<open>An EVM chain with two fallback endpoints.\<close>

definition ethereum_chain :: ChainConfig where
  "ethereum_chain =
     \<lparr>chain_id = ''ethereum'',
      chain_name = ''Ethereum'',
      chain_symbol = ''ETH'',
      chain_decimals = 18,
      chain_apiEndpoint = ''https://api.etherscan.io/api'',
      chain_apiType = ''etherscan'',
      chain_fallbackEndpoints =
        Some [''https://eth.blockscout.com/api'', ''https://api.routescan.io/api''],
      chain_explorerUrl = ''https://etherscan.io''\<rparr>"

text \<open>An ERC-20 \<^verbatim>\<open>transfer\<close> call as an Etherscan-style record.\<close>

definition token_transfer_record :: jsval where
  "token_transfer_record =
     Obj [(''hash'', Str ''0x5c504ed4''),
          (''from'', Str ''0xd8da6bf2''),
          (''to'', Str ''0xdac17f95''),
          (''value'', Str ''0''),
          (''gasUsed'', Str ''46109''),
          (''gasPrice'', Str ''30000000000''),
          (''input'', Str ''0xa9059cbb000000000000000000000000ab5801a7'')]"

subsection \<open>Invariants of the results\<close>

text \<open>
  The formatted amounts of a transaction are the formatter's results on its raw amounts,
  for the decimals of the chain.
\<close>

definition derived_amounts :: "runtime \<Rightarrow> ChainConfig \<Rightarrow> Transaction \<Rightarrow> bool" where
  "derived_amounts rt chain t =
     (formatValue rt (tx_value t) (chain_decimals chain) = Inr (tx_valueFormatted t) \<and>
      formatValue rt (tx_fee t) (chain_decimals chain) = Inr (tx_feeFormatted t))"

text \<open>
  A response echoes the \<open>page\<close> and \<open>limit\<close> of the call and holds transactions with
  derived amounts only.
\<close>

definition sound_response ::
  "runtime \<Rightarrow> ChainConfig \<Rightarrow> int \<Rightarrow> int \<Rightarrow> TransactionResponse \<Rightarrow> bool" where
  "sound_response rt chain page limit r =
     (resp_page r = page \<and> resp_limit r = limit \<and>
      list_all (derived_amounts rt chain) (resp_transactions r))"

subsection \<open>Attempts\<close>

definition is_failure :: "attempt \<Rightarrow> bool" where
  "is_failure a = (case a of Success r \<Rightarrow> False | Envelope m \<Rightarrow> True | Thrown e \<Rightarrow> True)"

text \<open>
  The error that a failed attempt amounts to: the exception itself, or the error that the
  code constructs from the message of the provider's envelope.
\<close>

definition attempt_error :: "runtime \<Rightarrow> attempt \<Rightarrow> error option" where
  "attempt_error rt a =
     (case a of
        Success r \<Rightarrow> None
      | Envelope m \<Rightarrow> Some (Error (ToString rt (or_else m (Str ''Failed to fetch transactions''))))
      | Thrown e \<Rightarrow> Some e)"

text \<open>The requests of the attempts on the endpoints below \<open>n\<close>, in order.\<close>

definition evm_requests :: "runtime \<Rightarrow> string \<Rightarrow> ChainConfig \<Rightarrow> int \<Rightarrow> int \<Rightarrow> nat \<Rightarrow> request list" where
  "evm_requests rt address chain page limit n =
     map (evm_request rt address chain page limit) [0..<n]"

definition cosmos_requests :: "runtime \<Rightarrow> string \<Rightarrow> ChainConfig \<Rightarrow> int \<Rightarrow> int \<Rightarrow> nat \<Rightarrow> request list" where
  "cosmos_requests rt address chain page limit n =
     map (cosmos_request rt address chain page limit) [0..<n]"

subsection \<open>Example providers\<close>

definition etherscan_ok_body :: jsval where
  "etherscan_ok_body =
     Obj [(''status'', Str ''1''), (''message'', Str ''OK''),
          (''result'', Arr [token_transfer_record])]"

definition rate_limit_body :: jsval where
  "rate_limit_body =
     Obj [(''status'', Str ''0''), (''message'', Str ''NOTOK''),
          (''result'', Str ''Max rate limit reached'')]"

definition invalid_key_body :: jsval where
  "invalid_key_body =
     Obj [(''status'', Str ''0''), (''message'', Str ''NOTOK''),
          (''result'', Str ''Invalid API Key'')]"

text \<open>
  The primary endpoint is unreachable, the first fallback answers with an error envelope,
  the second fallback answers with one transaction.
\<close>

definition fallback_runtime :: runtime where
  "fallback_runtime =
     offline_runtime
       \<lparr>fetch_json := (\<lambda>prior req.
          if str_includes (req_url req) ''api.etherscan.io'' then Inl (Error ''Failed to fetch'')
          else if str_includes (req_url req) ''eth.blockscout.com'' then Inr rate_limit_body
          else if str_includes (req_url req) ''api.routescan.io'' then Inr etherscan_ok_body
          else Inl (Error ''Failed to fetch'')),
        getChainById := (\<lambda>cid. if cid = ''ethereum'' then Some ethereum_chain else None)\<rparr>"

text \<open>As before, but the second fallback answers with an error envelope too.\<close>

definition exhausted_runtime :: runtime where
  "exhausted_runtime =
     fallback_runtime
       \<lparr>fetch_json := (\<lambda>prior req.
          if str_includes (req_url req) ''api.etherscan.io'' then Inl (Error ''Failed to fetch'')
          else if str_includes (req_url req) ''eth.blockscout.com'' then Inr rate_limit_body
          else if str_includes (req_url req) ''api.routescan.io'' then Inr invalid_key_body
          else Inl (Error ''Failed to fetch''))\<rparr>"

definition example_transaction :: Transaction where
  "example_transaction =
     \<lparr>tx_hash = Str ''0x5c504ed4'',
      tx_blockNumber = Str [],
      tx_timestamp = Str ''0'',
      tx_from = Str ''0xd8da6bf2'',
      tx_to = Str ''0xdac17f95'',
      tx_value = Str ''0'',
      tx_valueFormatted = ''0'',
      tx_fee = Str ''1383270000000000'',
      tx_feeFormatted = ''0.001383'',
      tx_status = Str ''success'',
      tx_type = Str ''token'',
      tx_chainId = ''ethereum'',
      tx_chainName = ''Ethereum'',
      tx_symbol = ''ETH'',
      tx_method = Undefined,
      tx_gasUsed = Str ''46109'',
      tx_gasPrice = Str ''30000000000'',
      tx_nonce = Undefined,
      tx_input = Str ''0xa9059cbb000000000000000000000000ab5801a7'',
      tx_explorerUrl = ''https://etherscan.io/tx/0x5c504ed4''\<rparr>"

definition example_response :: TransactionResponse where
  "example_response =
     \<lparr>resp_transactions = [example_transaction],
      resp_totalCount = Num (Fin 1),
      resp_page = 1,
      resp_limit = 50,
      resp_hasMore = False\<rparr>"

definition example_requests :: "request list" where
  "example_requests =
     [http_get (''https://api.etherscan.io/api'' @
        ''?module=account&action=txlist&address=0xd8da6bf2&page=1&offset=50&sort=desc''),
      http_get (''https://eth.blockscout.com/api'' @
        ''?module=account&action=txlist&address=0xd8da6bf2&page=1&offset=50&sort=desc''),
      http_get (''https://api.routescan.io/api'' @
        ''?module=account&action=txlist&address=0xd8da6bf2&page=1&offset=50&sort=desc'')]"

text \<open>A Cosmos chain with two fallback endpoints, and a bank transfer as its LCD reports it.\<close>

definition cosmoshub_chain :: ChainConfig where
  "cosmoshub_chain =
     \<lparr>chain_id = ''cosmos'',
      chain_name = ''Cosmos Hub'',
      chain_symbol = ''ATOM'',
      chain_decimals = 6,
      chain_apiEndpoint = ''https://rest.cosmos.directory/cosmoshub'',
      chain_apiType = ''mintscan'',
      chain_fallbackEndpoints =
        Some [''https://cosmos-rest.publicnode.com'', ''https://lcd.cosmos.network''],
      chain_explorerUrl = ''https://www.mintscan.io/cosmos''\<rparr>"

definition cosmos_send_record :: jsval where
  "cosmos_send_record =
     Obj [(''txhash'', Str ''A1B2C3''),
          (''height'', Str ''19000000''),
          (''timestamp'', Str ''2024-01-01T00:00:00Z''),
          (''code'', Num (Fin 0)),
          (''tx'',
           Obj [(''body'',
                 Obj [(''messages'',
                       Arr [Obj [(''@type'', Str ''/cosmos.bank.v1beta1.MsgSend''),
                                 (''from_address'', Str ''cosmos1sender''),
                                 (''to_address'', Str ''cosmos1receiver''),
                                 (''amount'',
                                  Arr [Obj [(''denom'', Str ''uatom''),
                                            (''amount'', Str ''2500000'')]])]])])])]"

definition cosmos_ok_body :: jsval where
  "cosmos_ok_body =
     Obj [(''tx_responses'', Arr [cosmos_send_record]),
          (''pagination'', Obj [(''total'', Str ''1'')])]"

text \<open>
  The primary endpoint is unreachable, the first fallback answers with a document that has
  no \<open>tx_responses\<close>, the second fallback answers with one transaction.
\<close>

definition cosmos_runtime :: runtime where
  "cosmos_runtime =
     offline_runtime
       \<lparr>fetch_json := (\<lambda>prior req.
          if str_includes (req_url req) ''rest.cosmos.directory'' then Inl (Error ''Failed to fetch'')
          else if str_includes (req_url req) ''cosmos-rest.publicnode.com''
               then Inr (Obj [(''code'', Num (Fin 12)), (''message'', Str ''Not Implemented'')])
          else if str_includes (req_url req) ''lcd.cosmos.network'' then Inr cosmos_ok_body
          else Inl (Error ''Failed to fetch'')),
        getChainById := (\<lambda>cid. if cid = ''cosmos'' then Some cosmoshub_chain else None),
        parseInt := (\<lambda>s. if s = ''1'' then Fin 1 else NaN)\<rparr>"

definition cosmos_example_transaction :: Transaction where
  "cosmos_example_transaction =
     \<lparr>tx_hash = Str ''A1B2C3'',
      tx_blockNumber = Str ''19000000'',
      tx_timestamp = Str ''2024-01-01T00:00:00Z'',
      tx_from = Str ''cosmos1sender'',
      tx_to = Str ''cosmos1receiver'',
      tx_value = Str ''2500000'',
      tx_valueFormatted = ''2.5'',
      tx_fee = Str ''0'',
      tx_feeFormatted = ''0'',
      tx_status = Str ''success'',
      tx_type = Str ''transfer'',
      tx_chainId = ''cosmos'',
      tx_chainName = ''Cosmos Hub'',
      tx_symbol = ''ATOM'',
      tx_method = Str ''MsgSend'',
      tx_gasUsed = Undefined,
      tx_gasPrice = Undefined,
      tx_nonce = Undefined,
      tx_input = Undefined,
      tx_explorerUrl = ''https://www.mintscan.io/cosmos/txs/A1B2C3''\<rparr>"

definition cosmos_example_response :: TransactionResponse where
  "cosmos_example_response =
     \<lparr>resp_transactions = [cosmos_example_transaction],
      resp_totalCount = Num (Fin 1),
      resp_page = 1,
      resp_limit = 50,
      resp_hasMore = False\<rparr>"

text \<open>A Substrate chain whose configuration lists a fallback endpoint.\<close>

definition polkadot_chain :: ChainConfig where
  "polkadot_chain =
     \<lparr>chain_id = ''polkadot'',
      chain_name = ''Polkadot'',
      chain_symbol = ''DOT'',
      chain_decimals = 10,
      chain_apiEndpoint = ''https://polkadot.api.subscan.io'',
      chain_apiType = ''subscan'',
      chain_fallbackEndpoints = Some [''https://polkadot.webapi.subscan.io''],
      chain_explorerUrl = ''https://polkadot.subscan.io''\<rparr>"

text \<open>An offline runtime with a Helius key configured.\<close>

definition helius_runtime :: runtime where
  "helius_runtime =
     offline_runtime
       \<lparr>env := (\<lambda>var. if var = ''VITE_HELIUS_API_KEY'' then Some ''demo-key'' else None)\<rparr>"

subsection \<open>Where transactions come from\<close>

text \<open>
  The transactions that the module produces for a chain: the result of a parser, an
  element of the mock generator's result, or an element of the response of a fetcher or
  of the dispatcher.
\<close>

inductive produced :: "runtime \<Rightarrow> ChainConfig \<Rightarrow> Transaction \<Rightarrow> bool" for rt chain where
  by_parseEtherscan:
    "parseEtherscanTransaction rt tx chain = Inr t \<Longrightarrow> produced rt chain t"
| by_parseSubscan:
    "parseSubscanTransaction rt tx chain = Inr t \<Longrightarrow> produced rt chain t"
| by_parseSolscan:
    "parseSolscanTransaction rt tx chain = Inr t \<Longrightarrow> produced rt chain t"
| by_parseCosmos:
    "parseCosmosTransaction rt tx chain = Inr t \<Longrightarrow> produced rt chain t"
| by_generateMock:
    "generateMockTransactions rt address chain count = Inr ts \<Longrightarrow> t \<in> set ts
       \<Longrightarrow> produced rt chain t"
| by_fetchEVM:
    "fetchEVMTransactions rt address chain page limit endpointIndex log = (Inr r, log')
       \<Longrightarrow> t \<in> set (resp_transactions r) \<Longrightarrow> produced rt chain t"
| by_fetchSubstrate:
    "fetchSubstrateTransactions rt address chain page limit log = (Inr r, log')
       \<Longrightarrow> t \<in> set (resp_transactions r) \<Longrightarrow> produced rt chain t"
| by_fetchSolana:
    "fetchSolanaTransactions rt address chain page limit log = (Inr r, log')
       \<Longrightarrow> t \<in> set (resp_transactions r) \<Longrightarrow> produced rt chain t"
| by_fetchCosmos:
    "fetchCosmosTransactions rt address chain page limit endpointIndex log = (Inr r, log')
       \<Longrightarrow> t \<in> set (resp_transactions r) \<Longrightarrow> produced rt chain t"
| by_fetchBitcoin:
    "fetchBitcoinTransactions rt address chain page limit useFallback log = (Inr r, log')
       \<Longrightarrow> t \<in> set (resp_transactions r) \<Longrightarrow> produced rt chain t"
| by_fetchTron:
    "fetchTronTransactions rt address chain page limit log = (Inr r, log')
       \<Longrightarrow> t \<in> set (resp_transactions r) \<Longrightarrow> produced rt chain t"
| by_fetchNear:
    "fetchNearTransactions rt address chain page limit log = (Inr r, log')
       \<Longrightarrow> t \<in> set (resp_transactions r) \<Longrightarrow> produced rt chain t"
| by_fetchSui:
    "fetchSuiTransactions rt address chain page limit log = (Inr r, log')
       \<Longrightarrow> t \<in> set (resp_transactions r) \<Longrightarrow> produced rt chain t"
| by_fetchAptos:
    "fetchAptosTransactions rt address chain page limit log = (Inr r, log')
       \<Longrightarrow> t \<in> set (resp_transactions r) \<Longrightarrow> produced rt chain t"
| by_fetchTransactions:
    "getChainById rt chainId = Some chain
       \<Longrightarrow> fetchTransactions rt address chainId page limit useMock = (Inr r, log')
       \<Longrightarrow> t \<in> set (resp_transactions r) \<Longrightarrow> produced rt chain t"

text \<open>
  A chain with 24 decimals and a runtime for mock mode whose random draws are all
  \<open>2 ^ 52 / 2 ^ 53 = 0.5\<close>; it prints the one unsafe integer of the example, \<open>5 * 10 ^ 21\<close>,
  as JavaScript does.
\<close>

definition near_chain :: ChainConfig where
  "near_chain =
     \<lparr>chain_id = ''near'',
      chain_name = ''NEAR Protocol'',
      chain_symbol = ''NEAR'',
      chain_decimals = 24,
      chain_apiEndpoint = ''https://api.nearblocks.io'',
      chain_apiType = ''custom'',
      chain_fallbackEndpoints = None,
      chain_explorerUrl = ''https://nearblocks.io''\<rparr>"

definition near_mock_runtime :: runtime where
  "near_mock_runtime =
     offline_runtime
       \<lparr>getChainById := (\<lambda>cid. if cid = ''near'' then Some near_chain else None),
        random := (\<lambda>k. 2 ^ 52),
        unsafe_toString := (\<lambda>n. if n = 5 * 10 ^ 21 then ''5e+21'' else BigInt_toString n)\<rparr>"

section \<open>Properties\<close>

subsection \<open>Evaluation\<close>

lemma show_nat_numeral [simp]:
  "show_nat (numeral k) =
     (if numeral k < (10::nat) then [digit_char (numeral k)]
      else show_nat (numeral k div 10) @ [digit_char (numeral k mod 10)])"
  "show_nat 0 = ''0''"
  "show_nat 1 = ''1''"
  "show_nat (Suc 0) = ''1''"
  by (subst show_nat.simps, simp add: digit_char_def)+

lemma bitlen_numeral [simp]:
  "bitlen (numeral k) = Suc (bitlen (numeral k div 2))"
  "bitlen 0 = 0"
  "bitlen 1 = 1"
  "bitlen (Suc 0) = 1"
  by (subst bitlen.simps, simp add: bitlen.simps)+

lemma replicate_numeral:
  "replicate (numeral k) x = x # replicate (pred_numeral k) x"
  by (simp add: numeral_eq_Suc)

lemmas formatValue_eval =
  formatValue_def formatValue_divisor_def pow10_def round_binary64_def round53_def
  StringToBigInt_def trim_def is_space_def parse_radix_def digit_value_def digit_table_def
  padStart_def strip_trailing_zeros_def BigInt_toString_def digit_char_def
  signed_divide_int_def signed_modulo_int_def Let_def replicate_numeral

subsection \<open>Value formatter\<close>

text \<open>
  C1. The formatter is to return \<open>v / 10 ^ d\<close> cut to six fractional digits for every
  decimal string \<open>v\<close> and every \<open>d\<close>. At \<open>d = 24\<close> and \<open>v = 999999999999999983222784\<close>
  (a value below \<open>10 ^ 24\<close>, so below one unit) the code returns \<open>1\<close>, where the
  formatter of the specification gives \<open>0.999999\<close>.
\<close>

theorem formatValue_24_decimals_rounds_up:
  "formatValue rt (Str ''999999999999999983222784'') 24 = Inr ''1'' \<and>
   formatValue_spec 999999999999999983222784 24 = ''0.999999''"
  by (simp add: formatValue_eval formatValue_spec_def)

theorem formatValue_24_decimals_rounds_up_witness:
  "formatValue offline_runtime (Str ''999999999999999983222784'') 24
     \<noteq> Inr (formatValue_spec 999999999999999983222784 24)"
  using formatValue_24_decimals_rounds_up [of offline_runtime] by simp

text \<open>
  C6. The divisor is to be the integer \<open>10 ^ d\<close> for every \<open>d\<close>. The code computes
  \<^verbatim>\<open>10 ** decimals\<close> as a Number before converting it: at \<open>d = 24\<close> the divisor is
  \<open>10 ^ 24 - 2 ^ 24\<close>.
\<close>

theorem formatValue_divisor_24:
  "formatValue_divisor 24 = Inr (10 ^ 24 - 2 ^ 24)"
  by (simp add: formatValue_eval)

theorem formatValue_divisor_24_witness:
  "formatValue_divisor 24 \<noteq> Inr (10 ^ 24)"
  using formatValue_divisor_24 by simp

subsection \<open>The formatter up to 22 decimals\<close>

lemma is_digitE:
  assumes "is_digit c"
  obtains "c = CHR ''0''" | "c = CHR ''1''" | "c = CHR ''2''" | "c = CHR ''3''" | "c = CHR ''4''"
    | "c = CHR ''5''" | "c = CHR ''6''" | "c = CHR ''7''" | "c = CHR ''8''" | "c = CHR ''9''"
  using assms unfolding is_digit_def by (simp only: list.set insert_iff empty_iff) blast

lemma digit_value_digit: "is_digit c \<Longrightarrow> digit_value 10 c = Some (digit_of c)"
  by (erule is_digitE) (simp_all add: digit_value_def digit_table_def digit_of_def)

lemma digit_not_space: "is_digit c \<Longrightarrow> \<not> is_space c"
  by (erule is_digitE) (simp_all add: is_space_def)

lemma digit_not_marker:
  "is_digit c \<Longrightarrow> c \<notin> set ''xX'' \<and> c \<notin> set ''oO'' \<and> c \<notin> set ''bB'' \<and> c \<noteq> CHR ''-'' \<and> c \<noteq> CHR ''+''"
  by (erule is_digitE) simp_all

lemma parse_digits_decimal:
  "list_all is_digit s
     \<Longrightarrow> parse_digits 10 acc s = Some (foldl (\<lambda>a c. a * 10 + digit_of c) acc s)"
  by (induction s arbitrary: acc) (simp_all add: digit_value_digit)

lemma dropWhile_none: "\<forall>c\<in>set s. \<not> P c \<Longrightarrow> dropWhile P s = s"
  by (cases s) simp_all

lemma trim_digits: "list_all is_digit s \<Longrightarrow> trim s = s"
  by (simp add: trim_def dropWhile_none digit_not_space list_all_iff)

lemma StringToBigInt_digits:
  assumes "v \<noteq> []" and "list_all is_digit v"
  shows "StringToBigInt v = Inr (int (decimal_value v))"
proof -
  from assms obtain c cs where v: "v = c # cs"
    by (cases v) simp_all
  from assms(2) have c: "is_digit c" and cs: "list_all is_digit cs"
    unfolding v by simp_all
  have hd: "is_digit (hd cs)" if "cs \<noteq> []"
    using cs that by (cases cs) simp_all
  have mk: "\<not> (c = CHR ''0'' \<and> cs \<noteq> [] \<and> hd cs \<in> set m)"
    if "m = ''xX'' \<or> m = ''oO'' \<or> m = ''bB''" for m
    using hd digit_not_marker [of "hd cs"] that by blast
  have sg: "c \<noteq> CHR ''-''" "c \<noteq> CHR ''+''"
    using digit_not_marker [OF c] by blast+
  have tr: "trim (c # cs) = c # cs"
    using trim_digits [OF assms(2)] unfolding v .
  have "StringToBigInt (c # cs) = parse_radix 10 (c # cs)"
    unfolding StringToBigInt_def tr
    using mk [of "''xX''"] mk [of "''oO''"] mk [of "''bB''"] sg
    by (simp only: list.case if_False simp_thms)
  also have "parse_radix 10 (c # cs) = Inr (int (decimal_value v))"
    unfolding parse_radix_def decimal_value_def v [symmetric]
    by (simp only: assms(1) if_False parse_digits_decimal [OF assms(2)] option.case)
  finally show ?thesis
    unfolding v .
qed

lemma up_to_22:
  "(d::nat) \<le> 22 \<Longrightarrow>
     d = 0 \<or> d = 1 \<or> d = 2 \<or> d = 3 \<or> d = 4 \<or> d = 5 \<or> d = 6 \<or> d = 7 \<or> d = 8 \<or> d = 9 \<or> d = 10 \<or>
     d = 11 \<or> d = 12 \<or> d = 13 \<or> d = 14 \<or> d = 15 \<or> d = 16 \<or> d = 17 \<or> d = 18 \<or> d = 19 \<or>
     d = 20 \<or> d = 21 \<or> d = 22"
  by arith

text \<open>Up to 22 decimals the Number \<^verbatim>\<open>10 ** decimals\<close> is the power of ten itself.\<close>

lemma formatValue_divisor_exact:
  assumes "decimals \<le> 22"
  shows "formatValue_divisor decimals = Inr (10 ^ decimals)"
  using up_to_22 [OF assms]
  by (elim disjE)
     (simp_all add: formatValue_divisor_def pow10_def round_binary64_def round53_def Let_def)

lemma strip_zeros_replicate: "strip_trailing_zeros (replicate k CHR ''0'') = []"
  by (simp add: strip_trailing_zeros_def dropWhile_eq_Nil_conv)

lemma formatValue_spec_zero: "formatValue_spec 0 decimals = ''0''"
proof -
  have "padStart decimals CHR ''0'' (show_nat 0) = replicate (max decimals 1) CHR ''0''"
    by (cases decimals) (simp_all add: padStart_def replicate_append_same)
  then show ?thesis
    by (simp add: formatValue_spec_def take_replicate strip_zeros_replicate)
qed

lemma sdiv_smod_nat:
  "int a sdiv int b = int (a div b)"
  "int a smod int b = int (a mod b)"
  by (simp_all add: signed_divide_int_def signed_modulo_int_def sgn_if zdiv_int zmod_int)

lemma BigInt_toString_nat: "BigInt_toString (int k) = show_nat k"
  by (simp add: BigInt_toString_def)

text \<open>
  On a non-empty string of decimal digits and up to 22 decimals, the code computes the
  formatter of the specification.
\<close>

lemma formatValue_refines_spec:
  assumes "decimals \<le> 22" and "v \<noteq> []" and "list_all is_digit v"
  shows "formatValue rt (Str v) decimals = Inr (formatValue_spec (decimal_value v) decimals)"
proof (cases "v = ''0''")
  case True
  then show ?thesis
    by (simp add: formatValue_def formatValue_spec_zero decimal_value_def digit_of_def)
next
  case False
  have num: "BigInt rt (Str v) = Inr (int (decimal_value v))"
    by (simp add: StringToBigInt_digits [OF assms(2,3)])
  have dv: "formatValue_divisor decimals = Inr (int (10 ^ decimals))"
    by (simp add: formatValue_divisor_exact [OF assms(1)])
  have nz: "int (10 ^ decimals) \<noteq> 0"
    by simp
  show ?thesis
    unfolding formatValue_def formatValue_spec_def Let_def num dv
    using False assms(2) nz
    by (simp only: truthy.simps sum.case sdiv_smod_nat BigInt_toString_nat jsval.inject
          simp_thms if_False if_True)
qed

text \<open>The formatter of the specification prints at most six fractional digits, the last not a zero.\<close>

lemma formatValue_spec_shape:
  "\<exists>fracStr. length fracStr \<le> 6 \<and> (fracStr \<noteq> [] \<longrightarrow> last fracStr \<noteq> CHR ''0'') \<and>
     formatValue_spec v decimals =
       (if fracStr \<noteq> [] then show_nat (v div 10 ^ decimals) @ ''.'' @ fracStr
        else show_nat (v div 10 ^ decimals))"
proof -
  let ?t = "take 6 (padStart decimals CHR ''0'' (show_nat (v mod 10 ^ decimals)))"
  let ?f = "strip_trailing_zeros ?t"
  have "length ?f \<le> length (rev ?t)"
    unfolding strip_trailing_zeros_def length_rev [of "dropWhile _ _"]
    by (rule length_dropWhile_le)
  then have "length ?f \<le> 6"
    by simp
  moreover have "?f \<noteq> [] \<longrightarrow> last ?f \<noteq> CHR ''0''"
    using hd_dropWhile [of "\<lambda>c. c = CHR ''0''" "rev ?t"]
    by (auto simp: strip_trailing_zeros_def last_rev)
  ultimately show ?thesis
    by (intro exI [of _ ?f]) (simp add: formatValue_spec_def Let_def)
qed

text \<open>The three examples of the specification.\<close>

lemma formatValue_examples:
  "formatValue rt (Str ''1500000000000000000'') 18 = Inr ''1.5''"
  "formatValue rt (Str ''1000000'') 6 = Inr ''1''"
  "formatValue rt (Str ''0'') 18 = Inr ''0''"
  by (simp_all add: formatValue_eval)

text \<open>With 24 decimals a large amount is off in its integer part as well.\<close>

lemma formatValue_24_decimals_large:
  "formatValue rt (Str ''1000000000000000000000000000000000000000000'') 24
     = Inr ''1000000000000000016.777216''"
  "formatValue_spec (10 ^ 42) 24 = ''1000000000000000000''"
  by (simp_all add: formatValue_eval formatValue_spec_def)

subsection \<open>Sequencing\<close>

lemma then_result_simps [simp]:
  "then_result (Inl e) f = Inl e"
  "then_result (Inr x) f = f x"
  by (simp_all add: then_result_def)

lemma then_result_Inr_iff:
  "then_result m f = Inr y \<longleftrightarrow> (\<exists>x. m = Inr x \<and> f x = Inr y)"
  by (cases m) simp_all

lemma then_result_Inl_iff:
  "then_result m f = Inl e \<longleftrightarrow> m = Inl e \<or> (\<exists>x. m = Inr x \<and> f x = Inl e)"
  by (cases m) simp_all

subsection \<open>EVM method classification\<close>

lemma toLowerCase_selector: "toLowerCase ''0xa9059cbb'' = ''0xa9059cbb''"
  by (simp add: toLowerCase_def lower_char_def)

lemma etherscan_type_token:
  assumes "take 10 s = ''0xa9059cbb''"
    and "truthy (get tx ''contractAddress'') \<or> 10 < length s"
  shows "etherscan_type rt tx (Str s) = Inr ''token''"
proof -
  have "s \<noteq> []" "s \<noteq> ''0x''"
    using assms(1) by auto
  then show ?thesis
    using assms by (auto simp: etherscan_type_def Let_def toLowerCase_selector)
qed

text \<open>
  C5, as stated: every record whose \<open>input\<close> starts with \<open>0xa9059cbb\<close> is classified
  \<open>token\<close>. A record whose \<open>input\<close> is the bare selector (ten characters, no
  \<open>contractAddress\<close>) does not pass the guard \<^verbatim>\<open>input.length > 10\<close> and stays a
  \<open>transfer\<close>.
\<close>

theorem parseEtherscan_bare_selector_is_transfer:
  "map_sum id tx_type
     (parseEtherscanTransaction offline_runtime (Obj [(''input'', Str ''0xa9059cbb'')])
        ethereum_chain)
   = Inr (Str ''transfer'')"
  by (simp add: parseEtherscanTransaction_def nullish_def or_else_def etherscan_type_def
        etherscan_method_def formatValue_eval ethereum_chain_def)

text \<open>
  C5, amended: a record whose \<open>input\<close> starts with \<open>0xa9059cbb\<close> and is longer than ten
  characters, or that also has a \<open>contractAddress\<close>, is never given another type than
  \<open>token\<close>; and the parser does return a transaction as soon as its conversions of
  \<open>gasUsed\<close>, \<open>gasPrice\<close>, \<open>value\<close>, the fee and \<open>functionName\<close> succeed.
\<close>

theorem parseEtherscan_token:
  assumes "get tx ''input'' = Str s"
    and "take 10 s = ''0xa9059cbb''"
    and "truthy (get tx ''contractAddress'') \<or> 10 < length s"
  shows "(\<forall>t. parseEtherscanTransaction rt tx chain = Inr t \<longrightarrow> tx_type t = Str ''token'') \<and>
         (\<forall>gu gp vf ff m.
            BigInt rt (or_else (or_else (get tx ''gasUsed'') (get tx ''gas'')) (Str ''0'')) = Inr gu \<and>
            BigInt rt (or_else (get tx ''gasPrice'') (Str ''0'')) = Inr gp \<and>
            formatValue rt (or_else (get tx ''value'') (Str ''0'')) (chain_decimals chain) = Inr vf \<and>
            formatValue rt (Str (BigInt_toString (gu * gp))) (chain_decimals chain) = Inr ff \<and>
            etherscan_method (get tx ''functionName'') = Inr m
            \<longrightarrow> (\<exists>t. parseEtherscanTransaction rt tx chain = Inr t))"
proof -
  have ne: "s \<noteq> []"
    using assms(2) by auto
  have nn: "\<not> nullish tx"
    using assms(1) by (auto simp: nullish_def)
  have inp: "or_else (or_else (get tx ''input'') (get tx ''data'')) (Str []) = Str s"
    using assms(1) ne by (simp add: or_else_def)
  have ty: "etherscan_type rt tx (Str s) = Inr ''token''"
    by (rule etherscan_type_token [OF assms(2,3)])
  show ?thesis
    by (auto simp: parseEtherscanTransaction_def Let_def nn inp ty then_result_Inr_iff)
qed

theorem parseEtherscan_token_witness:
  "map_sum id tx_type
     (parseEtherscanTransaction offline_runtime token_transfer_record ethereum_chain)
   = Inr (Str ''token'')"
proof -
  let ?s = "''0xa9059cbb000000000000000000000000ab5801a7''"
  have 1: "get token_transfer_record ''input'' = Str ?s"
    by (simp add: token_transfer_record_def)
  have 2: "take 10 ?s = ''0xa9059cbb''"
    by simp
  have 3: "truthy (get token_transfer_record ''contractAddress'') \<or> 10 < length ?s"
    by simp
  note tok = parseEtherscan_token [OF 1 2 3, of offline_runtime ethereum_chain]
  have gu: "BigInt offline_runtime
              (or_else (or_else (get token_transfer_record ''gasUsed'')
                          (get token_transfer_record ''gas'')) (Str ''0'')) = Inr 46109"
    by (simp add: token_transfer_record_def or_else_def formatValue_eval)
  have gp: "BigInt offline_runtime (or_else (get token_transfer_record ''gasPrice'') (Str ''0''))
              = Inr 30000000000"
    by (simp add: token_transfer_record_def or_else_def formatValue_eval)
  have vf: "formatValue offline_runtime (or_else (get token_transfer_record ''value'') (Str ''0''))
              (chain_decimals ethereum_chain) = Inr ''0''"
    by (simp add: token_transfer_record_def or_else_def formatValue_def)
  have ff: "formatValue offline_runtime (Str (BigInt_toString (46109 * 30000000000)))
              (chain_decimals ethereum_chain) = Inr ''0.001383''"
    by (simp add: ethereum_chain_def formatValue_eval)
  have m: "etherscan_method (get token_transfer_record ''functionName'') = Inr Undefined"
    by (simp add: token_transfer_record_def etherscan_method_def nullish_def)
  from tok gu gp vf ff m
  obtain t where t: "parseEtherscanTransaction offline_runtime token_transfer_record ethereum_chain
                       = Inr t"
    by blast
  with tok have "tx_type t = Str ''token''"
    by blast
  with t show ?thesis
    by simp
qed

subsection \<open>Dispatcher: unknown chain\<close>

text \<open>
  C7. With a chain id that the registry does not resolve, the call rejects with an error
  whose message names the chain id, and no request has been issued.
\<close>

theorem fetchTransactions_unknown_chain:
  assumes "getChainById rt chainId = None"
  shows "fetchTransactions rt address chainId page limit useMock
           = (Inl (Error (''Chain '' @ chainId @ '' not found'')), [])"
  using assms by (simp add: fetchTransactions_def)

theorem fetchTransactions_unknown_chain_witness:
  "fetchTransactions offline_runtime ''0xd8da6bf2'' ''unknown-chain-id'' 1 10 False
     = (Inl (Error ''Chain unknown-chain-id not found''), [])"
  using fetchTransactions_unknown_chain
          [of offline_runtime "''unknown-chain-id''" "''0xd8da6bf2''" 1 10 False]
  by (simp add: offline_runtime_def)

subsection \<open>Formatted amounts are derived from the raw amounts\<close>

lemma map_result_list_all:
  "map_result f xs = Inr ys \<Longrightarrow> (\<And>x y. f x = Inr y \<Longrightarrow> P y) \<Longrightarrow> list_all P ys"
  by (induction xs arbitrary: ys) (auto split: sum.splits)

lemma map_result_length:
  "map_result f xs = Inr ys \<Longrightarrow> length ys = length xs"
  by (induction xs arbitrary: ys) (auto split: sum.splits)

lemma js_map_list_all:
  "js_map f v = Inr ys \<Longrightarrow> (\<And>x y. f x = Inr y \<Longrightarrow> P y) \<Longrightarrow> list_all P ys"
  by (cases v) (auto intro: map_result_list_all)

lemma formatValue_zero [simp]: "formatValue rt (Str ''0'') decimals = Inr ''0''"
  by (simp add: formatValue_def)

lemma parseEtherscan_derived:
  "parseEtherscanTransaction rt tx chain = Inr t \<Longrightarrow> derived_amounts rt chain t"
  unfolding parseEtherscanTransaction_def Let_def
  by (auto simp: then_result_Inr_iff derived_amounts_def split: if_splits)

lemma parseSubscan_derived:
  "parseSubscanTransaction rt tx chain = Inr t \<Longrightarrow> derived_amounts rt chain t"
  unfolding parseSubscanTransaction_def Let_def
  by (auto simp: then_result_Inr_iff derived_amounts_def split: if_splits)

lemma parseSolscan_derived:
  "parseSolscanTransaction rt tx chain = Inr t \<Longrightarrow> derived_amounts rt chain t"
  unfolding parseSolscanTransaction_def Let_def
  by (auto simp: then_result_Inr_iff derived_amounts_def split: if_splits)

lemma parseCosmos_derived:
  "parseCosmosTransaction rt tx chain = Inr t \<Longrightarrow> derived_amounts rt chain t"
  unfolding parseCosmosTransaction_def Let_def
  by (auto simp: then_result_Inr_iff derived_amounts_def split: if_splits)

lemma parseHelius_derived:
  "parseHeliusTransaction rt address tx chain = Inr t \<Longrightarrow> derived_amounts rt chain t"
  unfolding parseHeliusTransaction_def Let_def
  by (auto simp: then_result_Inr_iff derived_amounts_def split: if_splits)

lemma parseBlockchainInfo_derived:
  "parseBlockchainInfoTransaction rt address tx chain = Inr t \<Longrightarrow> derived_amounts rt chain t"
  unfolding parseBlockchainInfoTransaction_def Let_def
  by (auto simp: then_result_Inr_iff derived_amounts_def split: if_splits)

lemma parseBlockstream_derived:
  "parseBlockstreamTransaction rt address tx chain = Inr t \<Longrightarrow> derived_amounts rt chain t"
  unfolding parseBlockstreamTransaction_def Let_def
  by (auto simp: then_result_Inr_iff derived_amounts_def split: if_splits)

lemma parseTron_derived:
  "parseTronTransaction rt tx chain = Inr t \<Longrightarrow> derived_amounts rt chain t"
  unfolding parseTronTransaction_def Let_def
  by (auto simp: then_result_Inr_iff derived_amounts_def split: if_splits)

lemma parseNear_derived:
  "parseNearTransaction rt tx chain = Inr t \<Longrightarrow> derived_amounts rt chain t"
  unfolding parseNearTransaction_def Let_def
  by (auto simp: then_result_Inr_iff derived_amounts_def split: if_splits)

lemma parseSui_derived:
  "parseSuiTransaction rt address tx chain = Inr t \<Longrightarrow> derived_amounts rt chain t"
  unfolding parseSuiTransaction_def Let_def
  by (auto simp: then_result_Inr_iff derived_amounts_def split: if_splits)

lemma parseAptos_derived:
  "parseAptosTransaction rt tx chain = Inr t \<Longrightarrow> derived_amounts rt chain t"
  unfolding parseAptosTransaction_def Let_def
  by (auto simp: then_result_Inr_iff derived_amounts_def split: if_splits)

lemma mockTransaction_derived:
  "mockTransaction rt address chain now i = Inr t \<Longrightarrow> derived_amounts rt chain t"
  unfolding mockTransaction_def Let_def
  by (auto simp: then_result_Inr_iff derived_amounts_def split: if_splits)

lemma generateMock_derived:
  "generateMockTransactions rt address chain count = Inr ts
     \<Longrightarrow> list_all (derived_amounts rt chain) ts"
  unfolding generateMockTransactions_def Let_def
  by (erule map_result_list_all) (rule mockTransaction_derived)

lemma envelope_sound:
  "list_all (derived_amounts rt chain) txs
     \<Longrightarrow> sound_response rt chain page limit (envelope txs c page limit)"
  by (simp add: sound_response_def envelope_def)

lemma evm_attempt_sound:
  assumes "evm_attempt rt address chain page limit i log = Success r"
  shows "sound_response rt chain page limit r"
  using assms unfolding evm_attempt_def
  by (auto split: sum.splits if_splits
           intro!: envelope_sound js_map_list_all [where P = "derived_amounts rt chain"]
           dest: parseEtherscan_derived)

lemma cosmos_attempt_sound:
  assumes "cosmos_attempt rt address chain page limit i log = Success r"
  shows "sound_response rt chain page limit r"
  using assms unfolding cosmos_attempt_def
  by (auto split: sum.splits if_splits
           intro!: envelope_sound js_map_list_all [where P = "derived_amounts rt chain"]
           dest: parseCosmos_derived)

lemma fetchEVM_sound:
  "fetchEVMTransactions rt address chain page limit i log = (Inr r, log')
     \<Longrightarrow> sound_response rt chain page limit r"
proof (induction rt address chain page limit i log rule: fetchEVMTransactions.induct)
  case (1 rt address chain page limit endpointIndex log)
  note unfold = fetchEVMTransactions.simps [of rt address chain page limit endpointIndex log]
  show ?case
  proof (cases "evm_attempt rt address chain page limit endpointIndex log")
    case (Success r')
    with "1.prems" have "r' = r"
      by (simp add: unfold Let_def)
    with Success show ?thesis
      by (auto dest: evm_attempt_sound)
  next
    case (Envelope msg)
    with "1.prems" "1.IH"(1) show ?thesis
      by (simp add: unfold Let_def split: if_splits)
  next
    case (Thrown e)
    with "1.prems" "1.IH"(2) show ?thesis
      by (simp add: unfold Let_def split: if_splits)
  qed
qed

lemma fetchCosmos_sound:
  "fetchCosmosTransactions rt address chain page limit i log = (Inr r, log')
     \<Longrightarrow> sound_response rt chain page limit r"
proof (induction rt address chain page limit i log rule: fetchCosmosTransactions.induct)
  case (1 rt address chain page limit endpointIndex log)
  note unfold = fetchCosmosTransactions.simps [of rt address chain page limit endpointIndex log]
  show ?case
  proof (cases "cosmos_attempt rt address chain page limit endpointIndex log")
    case (Success r')
    with "1.prems" have "r' = r"
      by (simp add: unfold Let_def)
    with Success show ?thesis
      by (auto dest: cosmos_attempt_sound)
  next
    case (Envelope msg)
    with "1.prems" "1.IH"(1) show ?thesis
      by (simp add: unfold Let_def split: if_splits)
  next
    case (Thrown e)
    with "1.prems" "1.IH"(2) show ?thesis
      by (simp add: unfold Let_def split: if_splits)
  qed
qed

lemma settle_Inr: "settle log req a = (Inr r, log') \<longleftrightarrow> a = Inr r \<and> log' = log @ [req]"
  by (auto simp: settle_def)

lemma substrate_attempt_sound:
  "substrate_attempt rt address chain page limit log = Inr r
     \<Longrightarrow> sound_response rt chain page limit r"
  unfolding substrate_attempt_def
  by (auto simp: then_result_Inr_iff split: if_splits
           intro!: envelope_sound js_map_list_all [where P = "derived_amounts rt chain"]
           dest: parseSubscan_derived)

lemma helius_attempt_sound:
  "helius_attempt rt key address chain page limit log = Inr r
     \<Longrightarrow> sound_response rt chain page limit r"
  unfolding helius_attempt_def
  by (auto simp: then_result_Inr_iff split: if_splits
           intro!: envelope_sound js_map_list_all [where P = "derived_amounts rt chain"]
           dest: parseHelius_derived)

lemma solscan_attempt_sound:
  "solscan_attempt rt address chain page limit log = Inr r
     \<Longrightarrow> sound_response rt chain page limit r"
  unfolding solscan_attempt_def
  by (auto simp: then_result_Inr_iff split: if_splits
           intro!: envelope_sound js_map_list_all [where P = "derived_amounts rt chain"]
           dest: parseSolscan_derived)

lemma blockchain_info_attempt_sound:
  "blockchain_info_attempt rt address chain page limit log = Inr r
     \<Longrightarrow> sound_response rt chain page limit r"
  unfolding blockchain_info_attempt_def
  by (auto simp: then_result_Inr_iff split: if_splits
           intro!: envelope_sound js_map_list_all [where P = "derived_amounts rt chain"]
           dest: parseBlockchainInfo_derived)

lemma blockstream_attempt_sound:
  "blockstream_attempt rt address chain page limit log = Inr r
     \<Longrightarrow> sound_response rt chain page limit r"
  unfolding blockstream_attempt_def Let_def
  by (auto simp: then_result_Inr_iff split: if_splits
           intro!: envelope_sound map_result_list_all [where P = "derived_amounts rt chain"]
           dest: parseBlockstream_derived)

lemma tron_attempt_sound:
  "tron_attempt rt address chain page limit log = Inr r
     \<Longrightarrow> sound_response rt chain page limit r"
  unfolding tron_attempt_def
  by (auto simp: then_result_Inr_iff split: if_splits
           intro!: envelope_sound js_map_list_all [where P = "derived_amounts rt chain"]
           dest: parseTron_derived)

lemma near_attempt_sound:
  "near_attempt rt address chain page limit log = Inr r
     \<Longrightarrow> sound_response rt chain page limit r"
  unfolding near_attempt_def
  by (auto simp: then_result_Inr_iff split: if_splits
           intro!: envelope_sound js_map_list_all [where P = "derived_amounts rt chain"]
           dest: parseNear_derived)

lemma sui_attempt_sound:
  "sui_attempt rt address chain page limit log = Inr r
     \<Longrightarrow> sound_response rt chain page limit r"
  unfolding sui_attempt_def
  by (auto simp: then_result_Inr_iff split: if_splits
           intro!: envelope_sound js_map_list_all [where P = "derived_amounts rt chain"]
           dest: parseSui_derived)

lemma aptos_attempt_sound:
  "aptos_attempt rt address chain page limit log = Inr r
     \<Longrightarrow> sound_response rt chain page limit r"
  unfolding aptos_attempt_def
  by (auto simp: then_result_Inr_iff split: if_splits
           intro!: envelope_sound js_map_list_all [where P = "derived_amounts rt chain"]
           dest: parseAptos_derived)

lemma fetchBitcoin_fallback_sound:
  "fetchBitcoinTransactions rt address chain page limit True log = (Inr r, log')
     \<Longrightarrow> sound_response rt chain page limit r"
  by (auto simp: fetchBitcoinTransactions.simps [of _ _ _ _ _ True] settle_Inr
           dest: blockstream_attempt_sound)

lemma fetchBitcoin_sound:
  "fetchBitcoinTransactions rt address chain page limit False log = (Inr r, log')
     \<Longrightarrow> sound_response rt chain page limit r"
  by (auto simp: fetchBitcoinTransactions.simps [of _ _ _ _ _ False] split: sum.splits
           dest: blockchain_info_attempt_sound fetchBitcoin_fallback_sound)

lemma fetchTransactions_sound:
  assumes "getChainById rt chainId = Some chain"
    and "fetchTransactions rt address chainId page limit useMock = (Inr r, log)"
  shows "sound_response rt chain page limit r"
proof (cases useMock)
  case True
  with assms show ?thesis
    by (auto simp: fetchTransactions_def sound_response_def split: sum.splits
             dest: generateMock_derived)
next
  case False
  with assms show ?thesis
    by (auto simp: fetchTransactions_def fetchTronTransactions_def fetchNearTransactions_def
                   fetchSuiTransactions_def fetchAptosTransactions_def
                   fetchSubstrateTransactions_def fetchSolanaTransactions_def settle_Inr
             split: if_splits option.splits
             dest: fetchBitcoin_sound fetchEVM_sound fetchCosmos_sound tron_attempt_sound
                   near_attempt_sound sui_attempt_sound aptos_attempt_sound
                   substrate_attempt_sound helius_attempt_sound solscan_attempt_sound)
qed

subsection \<open>The example providers, evaluated\<close>

lemmas parse_eval =
  parseEtherscanTransaction_def nullish_def or_else_def etherscan_type_def etherscan_status_def
  etherscan_method_def toLowerCase_def lower_char_def

lemmas request_eval =
  evm_request_def currentEndpoint_def allEndpoints_def apiKeyMap_def show_int_def http_get_def

lemma fallback_runtime_simps:
  "fetch_json fallback_runtime prior req =
     (if str_includes (req_url req) ''api.etherscan.io'' then Inl (Error ''Failed to fetch'')
      else if str_includes (req_url req) ''eth.blockscout.com'' then Inr rate_limit_body
      else if str_includes (req_url req) ''api.routescan.io'' then Inr etherscan_ok_body
      else Inl (Error ''Failed to fetch''))"
  "env fallback_runtime var = None"
  "getChainById fallback_runtime cid = (if cid = ''ethereum'' then Some ethereum_chain else None)"
  by (simp_all add: fallback_runtime_def offline_runtime_def)

lemma exhausted_runtime_simps:
  "fetch_json exhausted_runtime prior req =
     (if str_includes (req_url req) ''api.etherscan.io'' then Inl (Error ''Failed to fetch'')
      else if str_includes (req_url req) ''eth.blockscout.com'' then Inr rate_limit_body
      else if str_includes (req_url req) ''api.routescan.io'' then Inr invalid_key_body
      else Inl (Error ''Failed to fetch''))"
  "env exhausted_runtime var = None"
  "getChainById exhausted_runtime cid = (if cid = ''ethereum'' then Some ethereum_chain else None)"
  by (simp_all add: exhausted_runtime_def fallback_runtime_def offline_runtime_def)

lemma example_request:
  assumes "\<And>var. env rt var = None"
  shows "evm_request rt ''0xd8da6bf2'' ethereum_chain 1 50 0 = example_requests ! 0"
    and "evm_request rt ''0xd8da6bf2'' ethereum_chain 1 50 (Suc 0) = example_requests ! 1"
    and "evm_request rt ''0xd8da6bf2'' ethereum_chain 1 50 (Suc (Suc 0)) = example_requests ! 2"
  using assms
  by (simp_all add: request_eval ethereum_chain_def formatValue_eval example_requests_def)

lemma example_parse:
  "parseEtherscanTransaction rt token_transfer_record ethereum_chain = Inr example_transaction"
  by (simp add: parse_eval token_transfer_record_def formatValue_eval ethereum_chain_def
        example_transaction_def)

lemma example_attempt_0:
  "evm_attempt fallback_runtime ''0xd8da6bf2'' ethereum_chain 1 50 0 log
     = Thrown (Error ''Failed to fetch'')"
  by (simp add: evm_attempt_def example_request fallback_runtime_simps example_requests_def
        http_get_def)

lemma example_attempt_1:
  "evm_attempt fallback_runtime ''0xd8da6bf2'' ethereum_chain 1 50 (Suc 0) log
     = Envelope (Str ''Max rate limit reached'')"
  by (simp add: evm_attempt_def example_request fallback_runtime_simps example_requests_def
        http_get_def rate_limit_body_def nullish_def)

lemma example_attempt_2:
  "evm_attempt fallback_runtime ''0xd8da6bf2'' ethereum_chain 1 50 (Suc (Suc 0)) log
     = Success example_response"
  by (simp add: evm_attempt_def example_request fallback_runtime_simps example_requests_def
        http_get_def etherscan_ok_body_def nullish_def example_parse envelope_def count_of_def
        example_response_def)

lemma exhausted_attempt_0:
  "evm_attempt exhausted_runtime ''0xd8da6bf2'' ethereum_chain 1 50 0 log
     = Thrown (Error ''Failed to fetch'')"
  by (simp add: evm_attempt_def example_request exhausted_runtime_simps example_requests_def
        http_get_def)

lemma exhausted_attempt_1:
  "evm_attempt exhausted_runtime ''0xd8da6bf2'' ethereum_chain 1 50 (Suc 0) log
     = Envelope (Str ''Max rate limit reached'')"
  by (simp add: evm_attempt_def example_request exhausted_runtime_simps example_requests_def
        http_get_def rate_limit_body_def nullish_def)

lemma exhausted_attempt_2:
  "evm_attempt exhausted_runtime ''0xd8da6bf2'' ethereum_chain 1 50 (Suc (Suc 0)) log
     = Envelope (Str ''Invalid API Key'')"
  by (simp add: evm_attempt_def example_request exhausted_runtime_simps example_requests_def
        http_get_def invalid_key_body_def nullish_def)

subsection \<open>The fallback protocol of the EVM and Cosmos fetchers\<close>

lemma is_failure_simps [simp]:
  "is_failure (Success r) = False"
  "is_failure (Envelope m) = True"
  "is_failure (Thrown e) = True"
  by (simp_all add: is_failure_def)

lemma attempt_error_simps [simp]:
  "attempt_error rt (Success r) = None"
  "attempt_error rt (Envelope m)
     = Some (Error (ToString rt (or_else m (Str ''Failed to fetch transactions''))))"
  "attempt_error rt (Thrown e) = Some e"
  by (simp_all add: attempt_error_def)

lemma is_failure_error: "is_failure a \<Longrightarrow> \<exists>e. attempt_error rt a = Some e"
  by (cases a) simp_all

lemma evm_requests_Suc:
  "evm_requests rt address chain page limit (Suc n)
     = evm_requests rt address chain page limit n @ [evm_request rt address chain page limit n]"
  by (simp add: evm_requests_def)

lemma cosmos_requests_Suc:
  "cosmos_requests rt address chain page limit (Suc n)
     = cosmos_requests rt address chain page limit n
         @ [cosmos_request rt address chain page limit n]"
  by (simp add: cosmos_requests_def)

lemma fetchEVM_success:
  "evm_attempt rt address chain page limit i log = Success r
     \<Longrightarrow> fetchEVMTransactions rt address chain page limit i log
           = (Inr r, log @ [evm_request rt address chain page limit i])"
  by (simp add: fetchEVMTransactions.simps [of rt address chain page limit i log] Let_def)

lemma fetchEVM_retry:
  "is_failure (evm_attempt rt address chain page limit i log)
     \<Longrightarrow> i < length (allEndpoints chain) - 1
     \<Longrightarrow> fetchEVMTransactions rt address chain page limit i log
           = fetchEVMTransactions rt address chain page limit (Suc i)
               (log @ [evm_request rt address chain page limit i])"
  by (cases "evm_attempt rt address chain page limit i log")
     (simp_all add: fetchEVMTransactions.simps [of rt address chain page limit i log] Let_def)

lemma fetchEVM_last:
  "attempt_error rt (evm_attempt rt address chain page limit i log) = Some e
     \<Longrightarrow> \<not> i < length (allEndpoints chain) - 1
     \<Longrightarrow> fetchEVMTransactions rt address chain page limit i log
           = (Inl e, log @ [evm_request rt address chain page limit i])"
  by (cases "evm_attempt rt address chain page limit i log")
     (simp_all add: fetchEVMTransactions.simps [of rt address chain page limit i log] Let_def)

lemma cosmos_attempt_Envelope:
  "cosmos_attempt rt address chain page limit i log = Envelope m
     \<Longrightarrow> m = Str ''Failed to fetch Cosmos transactions''"
  by (auto simp: cosmos_attempt_def split: sum.splits if_splits)

lemma fetchCosmos_success:
  "cosmos_attempt rt address chain page limit i log = Success r
     \<Longrightarrow> fetchCosmosTransactions rt address chain page limit i log
           = (Inr r, log @ [cosmos_request rt address chain page limit i])"
  by (simp add: fetchCosmosTransactions.simps [of rt address chain page limit i log] Let_def)

lemma fetchCosmos_retry:
  "is_failure (cosmos_attempt rt address chain page limit i log)
     \<Longrightarrow> i < length (allEndpoints chain) - 1
     \<Longrightarrow> fetchCosmosTransactions rt address chain page limit i log
           = fetchCosmosTransactions rt address chain page limit (Suc i)
               (log @ [cosmos_request rt address chain page limit i])"
  by (cases "cosmos_attempt rt address chain page limit i log")
     (simp_all add: fetchCosmosTransactions.simps [of rt address chain page limit i log] Let_def)

lemma fetchCosmos_last:
  "attempt_error rt (cosmos_attempt rt address chain page limit i log) = Some e
     \<Longrightarrow> \<not> i < length (allEndpoints chain) - 1
     \<Longrightarrow> fetchCosmosTransactions rt address chain page limit i log
           = (Inl e, log @ [cosmos_request rt address chain page limit i])"
  by (cases "cosmos_attempt rt address chain page limit i log")
     (auto simp: fetchCosmosTransactions.simps [of rt address chain page limit i log] Let_def
                 or_else_def
           dest: cosmos_attempt_Envelope)

text \<open>
  When every attempt from the endpoint \<open>k\<close> on fails, the call at \<open>k\<close> rejects with the
  error of the attempt on the last endpoint, after one request per endpoint.
\<close>

lemma fetchEVM_all_fail:
  assumes "n = length (allEndpoints chain)"
    and "\<forall>i. k \<le> i \<and> i < n \<longrightarrow>
           is_failure (evm_attempt rt address chain page limit i
                         (log @ evm_requests rt address chain page limit i))"
    and "k < n"
  shows "\<exists>e. attempt_error rt (evm_attempt rt address chain page limit (n - 1)
                                  (log @ evm_requests rt address chain page limit (n - 1)))
              = Some e \<and>
             fetchEVMTransactions rt address chain page limit k
               (log @ evm_requests rt address chain page limit k)
             = (Inl e, log @ evm_requests rt address chain page limit n)"
  using assms(2,3)
proof (induction "n - k" arbitrary: k)
  case 0
  then show ?case by simp
next
  case (Suc d)
  let ?a = "evm_attempt rt address chain page limit k
              (log @ evm_requests rt address chain page limit k)"
  have fail: "is_failure ?a"
    using Suc.prems by simp
  show ?case
  proof (cases "k < n - 1")
    case True
    have "fetchEVMTransactions rt address chain page limit k
            (log @ evm_requests rt address chain page limit k)
          = fetchEVMTransactions rt address chain page limit (Suc k)
              (log @ evm_requests rt address chain page limit (Suc k))"
      using fetchEVM_retry [OF fail] True assms(1) by (simp add: evm_requests_Suc)
    moreover have "\<exists>e. attempt_error rt (evm_attempt rt address chain page limit (n - 1)
                                  (log @ evm_requests rt address chain page limit (n - 1)))
              = Some e \<and>
             fetchEVMTransactions rt address chain page limit (Suc k)
               (log @ evm_requests rt address chain page limit (Suc k))
             = (Inl e, log @ evm_requests rt address chain page limit n)"
      using Suc.hyps(2) Suc.prems True by (intro Suc.hyps(1)) auto
    ultimately show ?thesis by simp
  next
    case False
    with Suc.prems have k: "k = n - 1" by simp
    from is_failure_error [OF fail] obtain e where e: "attempt_error rt ?a = Some e" ..
    have "fetchEVMTransactions rt address chain page limit k
            (log @ evm_requests rt address chain page limit k)
          = (Inl e, log @ evm_requests rt address chain page limit (Suc k))"
      using fetchEVM_last [OF e] False assms(1) by (simp add: evm_requests_Suc)
    with e k Suc.prems show ?thesis by auto
  qed
qed

lemma fetchCosmos_all_fail:
  assumes "n = length (allEndpoints chain)"
    and "\<forall>i. k \<le> i \<and> i < n \<longrightarrow>
           is_failure (cosmos_attempt rt address chain page limit i
                         (log @ cosmos_requests rt address chain page limit i))"
    and "k < n"
  shows "\<exists>e. attempt_error rt (cosmos_attempt rt address chain page limit (n - 1)
                                  (log @ cosmos_requests rt address chain page limit (n - 1)))
              = Some e \<and>
             fetchCosmosTransactions rt address chain page limit k
               (log @ cosmos_requests rt address chain page limit k)
             = (Inl e, log @ cosmos_requests rt address chain page limit n)"
  using assms(2,3)
proof (induction "n - k" arbitrary: k)
  case 0
  then show ?case by simp
next
  case (Suc d)
  let ?a = "cosmos_attempt rt address chain page limit k
              (log @ cosmos_requests rt address chain page limit k)"
  have fail: "is_failure ?a"
    using Suc.prems by simp
  show ?case
  proof (cases "k < n - 1")
    case True
    have "fetchCosmosTransactions rt address chain page limit k
            (log @ cosmos_requests rt address chain page limit k)
          = fetchCosmosTransactions rt address chain page limit (Suc k)
              (log @ cosmos_requests rt address chain page limit (Suc k))"
      using fetchCosmos_retry [OF fail] True assms(1) by (simp add: cosmos_requests_Suc)
    moreover have "\<exists>e. attempt_error rt (cosmos_attempt rt address chain page limit (n - 1)
                                  (log @ cosmos_requests rt address chain page limit (n - 1)))
              = Some e \<and>
             fetchCosmosTransactions rt address chain page limit (Suc k)
               (log @ cosmos_requests rt address chain page limit (Suc k))
             = (Inl e, log @ cosmos_requests rt address chain page limit n)"
      using Suc.hyps(2) Suc.prems True by (intro Suc.hyps(1)) auto
    ultimately show ?thesis by simp
  next
    case False
    with Suc.prems have k: "k = n - 1" by simp
    from is_failure_error [OF fail] obtain e where e: "attempt_error rt ?a = Some e" ..
    have "fetchCosmosTransactions rt address chain page limit k
            (log @ cosmos_requests rt address chain page limit k)
          = (Inl e, log @ cosmos_requests rt address chain page limit (Suc k))"
      using fetchCosmos_last [OF e] False assms(1) by (simp add: cosmos_requests_Suc)
    with e k Suc.prems show ?thesis by auto
  qed
qed

lemma cosmos_runtime_simps:
  "fetch_json cosmos_runtime prior req =
     (if str_includes (req_url req) ''rest.cosmos.directory'' then Inl (Error ''Failed to fetch'')
      else if str_includes (req_url req) ''cosmos-rest.publicnode.com''
           then Inr (Obj [(''code'', Num (Fin 12)), (''message'', Str ''Not Implemented'')])
      else if str_includes (req_url req) ''lcd.cosmos.network'' then Inr cosmos_ok_body
      else Inl (Error ''Failed to fetch''))"
  "parseInt cosmos_runtime s = (if s = ''1'' then Fin 1 else NaN)"
  "getChainById cosmos_runtime cid = (if cid = ''cosmos'' then Some cosmoshub_chain else None)"
  by (simp_all add: cosmos_runtime_def offline_runtime_def)

lemmas cosmos_request_eval =
  cosmos_request_def currentEndpoint_def allEndpoints_def cosmoshub_chain_def http_get_def
  show_int_def BigInt_toString_def digit_char_def Let_def

lemma cosmos_example_parse:
  "parseCosmosTransaction rt cosmos_send_record cosmoshub_chain = Inr cosmos_example_transaction"
  by (simp add: parseCosmosTransaction_def cosmos_send_record_def cosmoshub_chain_def nullish_def
        or_else_def opt_get_def opt_index0_def cosmos_type_def split_last_def or_undefined_def
        formatValue_eval cosmos_example_transaction_def)

lemma cosmos_example_attempt_0:
  "cosmos_attempt cosmos_runtime ''cosmos1sender'' cosmoshub_chain 1 50 0 log
     = Thrown (Error ''Failed to fetch'')"
  by (simp add: cosmos_attempt_def cosmos_request_eval cosmos_runtime_simps)

lemma cosmos_example_attempt_1:
  "cosmos_attempt cosmos_runtime ''cosmos1sender'' cosmoshub_chain 1 50 (Suc 0) log
     = Envelope (Str ''Failed to fetch Cosmos transactions'')"
  by (simp add: cosmos_attempt_def cosmos_request_eval cosmos_runtime_simps nullish_def)

lemma cosmos_example_attempt_2:
  "cosmos_attempt cosmos_runtime ''cosmos1sender'' cosmoshub_chain 1 50 (Suc (Suc 0)) log
     = Success cosmos_example_response"
proof -
  have "fetch_json cosmos_runtime log
          (cosmos_request cosmos_runtime ''cosmos1sender'' cosmoshub_chain 1 50 (Suc (Suc 0)))
        = Inr cosmos_ok_body"
    by (simp add: cosmos_request_eval cosmos_runtime_simps)
  then show ?thesis
    by (simp add: cosmos_attempt_def cosmos_ok_body_def nullish_def cosmos_example_parse
          envelope_def count_of_def cosmos_example_response_def opt_get_def or_else_def
          cosmos_runtime_simps)
qed

subsection \<open>Fallback policy\<close>

lemma currentEndpoint_third:
  "chain_fallbackEndpoints chain = Some [B, C]
     \<Longrightarrow> currentEndpoint chain 2 = (if C = [] then chain_apiEndpoint chain else C)"
  by (simp add: currentEndpoint_def allEndpoints_def)

lemma fetchEVM_third:
  assumes eps: "chain_fallbackEndpoints chain = Some [B, C]"
    and a0: "is_failure (evm_attempt rt address chain page limit 0 log)"
    and a1: "is_failure (evm_attempt rt address chain page limit 1
                           (log @ evm_requests rt address chain page limit 1))"
    and a2: "evm_attempt rt address chain page limit 2
               (log @ evm_requests rt address chain page limit 2) = Success r"
  shows "fetchEVMTransactions rt address chain page limit 0 log
           = (Inr r, log @ evm_requests rt address chain page limit 3)"
proof -
  have len: "length (allEndpoints chain) = 3"
    using eps by (simp add: allEndpoints_def)
  have "fetchEVMTransactions rt address chain page limit 0 log
        = fetchEVMTransactions rt address chain page limit 1
            (log @ evm_requests rt address chain page limit 1)"
    using fetchEVM_retry [OF a0] len by (simp add: evm_requests_def)
  also have "\<dots> = fetchEVMTransactions rt address chain page limit 2
                     (log @ evm_requests rt address chain page limit 2)"
    using fetchEVM_retry [OF a1] len by (simp add: evm_requests_def numeral_2_eq_2)
  also have "\<dots> = (Inr r, log @ evm_requests rt address chain page limit 3)"
    using fetchEVM_success [OF a2] by (simp add: evm_requests_def numeral_2_eq_2 numeral_3_eq_3)
  finally show ?thesis .
qed

lemma fetchCosmos_third:
  assumes eps: "chain_fallbackEndpoints chain = Some [B, C]"
    and a0: "is_failure (cosmos_attempt rt address chain page limit 0 log)"
    and a1: "is_failure (cosmos_attempt rt address chain page limit 1
                           (log @ cosmos_requests rt address chain page limit 1))"
    and a2: "cosmos_attempt rt address chain page limit 2
               (log @ cosmos_requests rt address chain page limit 2) = Success r"
  shows "fetchCosmosTransactions rt address chain page limit 0 log
           = (Inr r, log @ cosmos_requests rt address chain page limit 3)"
proof -
  have len: "length (allEndpoints chain) = 3"
    using eps by (simp add: allEndpoints_def)
  have "fetchCosmosTransactions rt address chain page limit 0 log
        = fetchCosmosTransactions rt address chain page limit 1
            (log @ cosmos_requests rt address chain page limit 1)"
    using fetchCosmos_retry [OF a0] len by (simp add: cosmos_requests_def)
  also have "\<dots> = fetchCosmosTransactions rt address chain page limit 2
                     (log @ cosmos_requests rt address chain page limit 2)"
    using fetchCosmos_retry [OF a1] len by (simp add: cosmos_requests_def numeral_2_eq_2)
  also have "\<dots> = (Inr r, log @ cosmos_requests rt address chain page limit 3)"
    using fetchCosmos_success [OF a2]
    by (simp add: cosmos_requests_def numeral_2_eq_2 numeral_3_eq_3)
  finally show ?thesis .
qed


text \<open>
  C2. With the endpoint list \<open>[A, B, C]\<close>, when the attempts on \<open>A\<close> and \<open>B\<close> fail (by an
  exception or by an error envelope) and the attempt on \<open>C\<close> succeeds with the response
  \<open>r\<close>, the EVM fetcher and the Cosmos fetcher (the two fetchers that build an endpoint
  list) resolve with \<open>r\<close> after three requests; the third request goes to \<open>C\<close> (to \<open>A\<close>
  when \<open>C\<close> is the empty string).
\<close>

theorem fallback_to_third_endpoint:
  "(chain_fallbackEndpoints chain = Some [B, C] \<and>
    is_failure (evm_attempt rt address chain page limit 0 log) \<and>
    is_failure (evm_attempt rt address chain page limit 1
                  (log @ evm_requests rt address chain page limit 1)) \<and>
    evm_attempt rt address chain page limit 2
      (log @ evm_requests rt address chain page limit 2) = Success r
    \<longrightarrow> fetchEVMTransactions rt address chain page limit 0 log
          = (Inr r, log @ evm_requests rt address chain page limit 3) \<and>
        currentEndpoint chain 2 = (if C = [] then chain_apiEndpoint chain else C)) \<and>
   (chain_fallbackEndpoints chain = Some [B, C] \<and>
    is_failure (cosmos_attempt rt address chain page limit 0 log) \<and>
    is_failure (cosmos_attempt rt address chain page limit 1
                  (log @ cosmos_requests rt address chain page limit 1)) \<and>
    cosmos_attempt rt address chain page limit 2
      (log @ cosmos_requests rt address chain page limit 2) = Success r'
    \<longrightarrow> fetchCosmosTransactions rt address chain page limit 0 log
          = (Inr r', log @ cosmos_requests rt address chain page limit 3) \<and>
        currentEndpoint chain 2 = (if C = [] then chain_apiEndpoint chain else C))"
  by (intro conjI impI; elim conjE)
     (simp_all only: fetchEVM_third fetchCosmos_third currentEndpoint_third)

theorem fallback_to_third_endpoint_witness:
  "fetchEVMTransactions fallback_runtime ''0xd8da6bf2'' ethereum_chain 1 50 0 []
     = (Inr example_response, example_requests) \<and>
   fst (fetchCosmosTransactions cosmos_runtime ''cosmos1sender'' cosmoshub_chain 1 50 0 [])
     = Inr cosmos_example_response"
proof -
  have reqs: "evm_requests fallback_runtime ''0xd8da6bf2'' ethereum_chain 1 50 3 = example_requests"
    by (simp add: evm_requests_def numeral_3_eq_3 example_request fallback_runtime_simps
          example_requests_def)
  have "fetchEVMTransactions fallback_runtime ''0xd8da6bf2'' ethereum_chain 1 50 0 []
          = (Inr example_response, example_requests)"
    using fallback_to_third_endpoint
            [where chain = ethereum_chain and rt = fallback_runtime and address = "''0xd8da6bf2''"
               and page = 1 and limit = 50 and log = "[]" and r = example_response]
          example_attempt_0 example_attempt_1 example_attempt_2 reqs
    by (simp add: ethereum_chain_def numeral_2_eq_2)
  moreover
  have "fst (fetchCosmosTransactions cosmos_runtime ''cosmos1sender'' cosmoshub_chain 1 50 0 [])
          = Inr cosmos_example_response"
    using fallback_to_third_endpoint
            [where chain = cosmoshub_chain and rt = cosmos_runtime
               and address = "''cosmos1sender''" and page = 1 and limit = 50 and log = "[]"
               and r' = cosmos_example_response]
          cosmos_example_attempt_0 cosmos_example_attempt_1 cosmos_example_attempt_2
    by (simp add: cosmoshub_chain_def numeral_2_eq_2)
  ultimately show ?thesis by simp
qed

lemma offline_fetch [simp]: "fetch_json offline_runtime prior req = Inl (Error ''Failed to fetch'')"
  by (simp add: offline_runtime_def)

lemma offline_env [simp]: "env offline_runtime var = None"
  by (simp add: offline_runtime_def)

lemma offline_attempts:
  "cosmos_attempt offline_runtime address chain page limit i log = Thrown (Error ''Failed to fetch'')"
  "blockchain_info_attempt offline_runtime address chain page limit log
     = Inl (Error ''Failed to fetch'')"
  "blockstream_attempt offline_runtime address chain page limit log
     = Inl (Error ''Failed to fetch'')"
  "substrate_attempt offline_runtime address chain page limit log = Inl (Error ''Failed to fetch'')"
  "solscan_attempt offline_runtime address chain page limit log = Inl (Error ''Failed to fetch'')"
  "tron_attempt offline_runtime address chain page limit log = Inl (Error ''Failed to fetch'')"
  "near_attempt offline_runtime address chain page limit log = Inl (Error ''Failed to fetch'')"
  "sui_attempt offline_runtime address chain page limit log = Inl (Error ''Failed to fetch'')"
  "aptos_attempt offline_runtime address chain page limit log = Inl (Error ''Failed to fetch'')"
  by (simp_all add: cosmos_attempt_def blockchain_info_attempt_def blockstream_attempt_def
        substrate_attempt_def solscan_attempt_def tron_attempt_def near_attempt_def
        sui_attempt_def aptos_attempt_def)

lemma fetchBitcoin_both:
  "blockchain_info_attempt rt address chain page limit log = Inl e
     \<Longrightarrow> fetchBitcoinTransactions rt address chain page limit False log
           = (blockstream_attempt rt address chain page limit
                (log @ [blockchain_info_request rt address page limit]),
              log @ [blockchain_info_request rt address page limit, blockstream_request address])"
  by (simp add: fetchBitcoinTransactions.simps [of _ _ _ _ _ False]
        fetchBitcoinTransactions.simps [of _ _ _ _ _ True] settle_def)

text \<open>
  C3. When the attempt on every endpoint fails, the EVM and the Cosmos fetcher reject with
  the error of the attempt on the last endpoint, having asked every endpoint once, in order.
  The Bitcoin fetcher rejects with Blockstream's error when both providers fail, and every
  other fetcher rejects with the error of its only attempt.
\<close>

theorem exhaustion_rejects_with_last_error:
  "(n = length (allEndpoints chain) \<and>
    (\<forall>i. i < n \<longrightarrow> is_failure (evm_attempt rt address chain page limit i
                                  (log @ evm_requests rt address chain page limit i)))
    \<longrightarrow> (\<exists>e. attempt_error rt (evm_attempt rt address chain page limit (n - 1)
                                  (log @ evm_requests rt address chain page limit (n - 1)))
               = Some e \<and>
              fetchEVMTransactions rt address chain page limit 0 log
               = (Inl e, log @ evm_requests rt address chain page limit n))) \<and>
   (n = length (allEndpoints chain) \<and>
    (\<forall>i. i < n \<longrightarrow> is_failure (cosmos_attempt rt address chain page limit i
                                  (log @ cosmos_requests rt address chain page limit i)))
    \<longrightarrow> (\<exists>e. attempt_error rt (cosmos_attempt rt address chain page limit (n - 1)
                                  (log @ cosmos_requests rt address chain page limit (n - 1)))
               = Some e \<and>
              fetchCosmosTransactions rt address chain page limit 0 log
               = (Inl e, log @ cosmos_requests rt address chain page limit n))) \<and>
   (blockchain_info_attempt rt address chain page limit log = Inl e_primary \<and>
    blockstream_attempt rt address chain page limit
      (log @ [blockchain_info_request rt address page limit]) = Inl e_fallback
    \<longrightarrow> fetchBitcoinTransactions rt address chain page limit False log
          = (Inl e_fallback, log @ [blockchain_info_request rt address page limit,
                            blockstream_request address])) \<and>
   (substrate_attempt rt address chain page limit log = Inl e
    \<longrightarrow> fetchSubstrateTransactions rt address chain page limit log
          = (Inl e, log @ [substrate_request rt address chain page limit])) \<and>
   (env rt ''VITE_HELIUS_API_KEY'' = Some heliusKey \<and> heliusKey \<noteq> [] \<and>
    helius_attempt rt heliusKey address chain page limit log = Inl e
    \<longrightarrow> fetchSolanaTransactions rt address chain page limit log
          = (Inl e, log @ [helius_request rt heliusKey address limit])) \<and>
   (env rt ''VITE_HELIUS_API_KEY'' \<in> {None, Some []} \<and>
    solscan_attempt rt address chain page limit log = Inl e
    \<longrightarrow> fetchSolanaTransactions rt address chain page limit log
          = (Inl e, log @ [solscan_request rt address chain page limit])) \<and>
   (tron_attempt rt address chain page limit log = Inl e
    \<longrightarrow> fetchTronTransactions rt address chain page limit log
          = (Inl e, log @ [tron_request rt address page limit])) \<and>
   (near_attempt rt address chain page limit log = Inl e
    \<longrightarrow> fetchNearTransactions rt address chain page limit log
          = (Inl e, log @ [near_request rt address page limit])) \<and>
   (sui_attempt rt address chain page limit log = Inl e
    \<longrightarrow> fetchSuiTransactions rt address chain page limit log
          = (Inl e, log @ [sui_request address chain limit])) \<and>
   (aptos_attempt rt address chain page limit log = Inl e
    \<longrightarrow> fetchAptosTransactions rt address chain page limit log
          = (Inl e, log @ [aptos_request rt address chain page limit]))"
proof -
  have nonempty: "0 < length (allEndpoints chain)"
    by (simp add: allEndpoints_def)
  have evm: "\<exists>e. attempt_error rt (evm_attempt rt address chain page limit (n - 1)
                                  (log @ evm_requests rt address chain page limit (n - 1)))
               = Some e \<and>
              fetchEVMTransactions rt address chain page limit 0 log
               = (Inl e, log @ evm_requests rt address chain page limit n)"
    if "n = length (allEndpoints chain)"
      and "\<forall>i. i < n \<longrightarrow> is_failure (evm_attempt rt address chain page limit i
                                  (log @ evm_requests rt address chain page limit i))"
    using fetchEVM_all_fail [of n chain 0 rt address page limit log] that nonempty
    by (simp add: evm_requests_def)
  have cosmos: "\<exists>e. attempt_error rt (cosmos_attempt rt address chain page limit (n - 1)
                                  (log @ cosmos_requests rt address chain page limit (n - 1)))
               = Some e \<and>
              fetchCosmosTransactions rt address chain page limit 0 log
               = (Inl e, log @ cosmos_requests rt address chain page limit n)"
    if "n = length (allEndpoints chain)"
      and "\<forall>i. i < n \<longrightarrow> is_failure (cosmos_attempt rt address chain page limit i
                                  (log @ cosmos_requests rt address chain page limit i))"
    using fetchCosmos_all_fail [of n chain 0 rt address page limit log] that nonempty
    by (simp add: cosmos_requests_def)
  show ?thesis
    using evm cosmos
    by (auto simp: fetchBitcoin_both fetchSubstrateTransactions_def fetchSolanaTransactions_def
          fetchTronTransactions_def fetchNearTransactions_def fetchSuiTransactions_def
          fetchAptosTransactions_def settle_def)
qed

lemma helius_runtime_simps [simp]:
  "fetch_json helius_runtime prior req = Inl (Error ''Failed to fetch'')"
  "env helius_runtime ''VITE_HELIUS_API_KEY'' = Some ''demo-key''"
  by (simp_all add: helius_runtime_def offline_runtime_def)

theorem exhaustion_rejects_with_last_error_witness:
  "fetchEVMTransactions exhausted_runtime ''0xd8da6bf2'' ethereum_chain 1 50 0 []
     = (Inl (Error ''Invalid API Key''), example_requests) \<and>
   fst (fetchCosmosTransactions offline_runtime ''cosmos1sender'' cosmoshub_chain 1 50 0 [])
     = Inl (Error ''Failed to fetch'') \<and>
   fst (fetchBitcoinTransactions offline_runtime ''bc1qxy2k'' polkadot_chain 1 50 False [])
     = Inl (Error ''Failed to fetch'') \<and>
   fst (fetchSubstrateTransactions offline_runtime ''15oF4uVJ'' polkadot_chain 1 50 [])
     = Inl (Error ''Failed to fetch'') \<and>
   fst (fetchSolanaTransactions helius_runtime ''7xKXtg2C'' polkadot_chain 1 50 [])
     = Inl (Error ''Failed to fetch'') \<and>
   fst (fetchSolanaTransactions offline_runtime ''7xKXtg2C'' polkadot_chain 1 50 [])
     = Inl (Error ''Failed to fetch'') \<and>
   fst (fetchTronTransactions offline_runtime ''TJRabPrw'' polkadot_chain 1 50 [])
     = Inl (Error ''Failed to fetch'') \<and>
   fst (fetchNearTransactions offline_runtime ''alice.near'' polkadot_chain 1 50 [])
     = Inl (Error ''Failed to fetch'') \<and>
   fst (fetchSuiTransactions offline_runtime ''0x02a212de'' polkadot_chain 1 50 [])
     = Inl (Error ''Failed to fetch'') \<and>
   fst (fetchAptosTransactions offline_runtime ''0x1d8727df'' polkadot_chain 1 50 [])
     = Inl (Error ''Failed to fetch'')"
proof -
  have reqs: "evm_requests exhausted_runtime ''0xd8da6bf2'' ethereum_chain 1 50 3 = example_requests"
    by (simp add: evm_requests_def numeral_3_eq_3 example_request exhausted_runtime_simps
          example_requests_def)
  have len: "length (allEndpoints ethereum_chain) = 3" "length (allEndpoints cosmoshub_chain) = 3"
    by (simp_all add: allEndpoints_def ethereum_chain_def cosmoshub_chain_def)
  have all: "\<forall>i. i < 3 \<longrightarrow>
               is_failure (evm_attempt exhausted_runtime ''0xd8da6bf2'' ethereum_chain 1 50 i
                             ([] @ evm_requests exhausted_runtime ''0xd8da6bf2'' ethereum_chain 1 50 i))"
    by (auto simp: less_Suc_eq numeral_3_eq_3 exhausted_attempt_0 exhausted_attempt_1
          exhausted_attempt_2)
  have evm: "fetchEVMTransactions exhausted_runtime ''0xd8da6bf2'' ethereum_chain 1 50 0 []
               = (Inl (Error ''Invalid API Key''), example_requests)"
    using exhaustion_rejects_with_last_error
            [where n = 3 and chain = ethereum_chain and rt = exhausted_runtime
               and address = "''0xd8da6bf2''" and page = 1 and limit = 50 and log = "[]",
             THEN conjunct1]
          all len reqs
    by (auto simp: numeral_2_eq_2 exhausted_attempt_2 or_else_def)
  have cosmos: "fst (fetchCosmosTransactions offline_runtime ''cosmos1sender'' cosmoshub_chain 1 50 0 [])
                  = Inl (Error ''Failed to fetch'')"
    using exhaustion_rejects_with_last_error
            [where n = 3 and chain = cosmoshub_chain and rt = offline_runtime
               and address = "''cosmos1sender''" and page = 1 and limit = 50 and log = "[]",
             THEN conjunct2, THEN conjunct1]
          len
    by (auto simp: offline_attempts)
  have rest: "fst (fetchBitcoinTransactions offline_runtime ''bc1qxy2k'' polkadot_chain 1 50 False [])
     = Inl (Error ''Failed to fetch'')"
   "fst (fetchSubstrateTransactions offline_runtime ''15oF4uVJ'' polkadot_chain 1 50 [])
     = Inl (Error ''Failed to fetch'')"
   "fst (fetchSolanaTransactions offline_runtime ''7xKXtg2C'' polkadot_chain 1 50 [])
     = Inl (Error ''Failed to fetch'')"
   "fst (fetchTronTransactions offline_runtime ''TJRabPrw'' polkadot_chain 1 50 [])
     = Inl (Error ''Failed to fetch'')"
   "fst (fetchNearTransactions offline_runtime ''alice.near'' polkadot_chain 1 50 [])
     = Inl (Error ''Failed to fetch'')"
   "fst (fetchSuiTransactions offline_runtime ''0x02a212de'' polkadot_chain 1 50 [])
     = Inl (Error ''Failed to fetch'')"
   "fst (fetchAptosTransactions offline_runtime ''0x1d8727df'' polkadot_chain 1 50 [])
     = Inl (Error ''Failed to fetch'')"
    using exhaustion_rejects_with_last_error
            [where rt = offline_runtime and chain = polkadot_chain and page = 1 and limit = 50
               and log = "[]" and e = "Error ''Failed to fetch''"
               and e_primary = "Error ''Failed to fetch''"
               and e_fallback = "Error ''Failed to fetch''"]
    by (simp_all add: offline_attempts)
  have helius: "fst (fetchSolanaTransactions helius_runtime ''7xKXtg2C'' polkadot_chain 1 50 [])
     = Inl (Error ''Failed to fetch'')"
    using exhaustion_rejects_with_last_error
            [where rt = helius_runtime and chain = polkadot_chain and page = 1 and limit = 50
               and log = "[]" and e = "Error ''Failed to fetch''" and heliusKey = "''demo-key''"
               and address = "''7xKXtg2C''"]
    by (simp add: helius_attempt_def)
  from evm cosmos rest helius show ?thesis
    by simp
qed

subsection \<open>The fetchers without an endpoint list\<close>

lemma parsers_ignore_fallbackEndpoints:
  "parseSubscanTransaction rt tx (chain\<lparr>chain_fallbackEndpoints := fb\<rparr>)
     = parseSubscanTransaction rt tx chain"
  "parseSolscanTransaction rt tx (chain\<lparr>chain_fallbackEndpoints := fb\<rparr>)
     = parseSolscanTransaction rt tx chain"
  "parseHeliusTransaction rt address tx (chain\<lparr>chain_fallbackEndpoints := fb\<rparr>)
     = parseHeliusTransaction rt address tx chain"
  "parseBlockchainInfoTransaction rt address tx (chain\<lparr>chain_fallbackEndpoints := fb\<rparr>)
     = parseBlockchainInfoTransaction rt address tx chain"
  "parseBlockstreamTransaction rt address tx (chain\<lparr>chain_fallbackEndpoints := fb\<rparr>)
     = parseBlockstreamTransaction rt address tx chain"
  "parseTronTransaction rt tx (chain\<lparr>chain_fallbackEndpoints := fb\<rparr>)
     = parseTronTransaction rt tx chain"
  "parseNearTransaction rt tx (chain\<lparr>chain_fallbackEndpoints := fb\<rparr>)
     = parseNearTransaction rt tx chain"
  "parseSuiTransaction rt address tx (chain\<lparr>chain_fallbackEndpoints := fb\<rparr>)
     = parseSuiTransaction rt address tx chain"
  "parseAptosTransaction rt tx (chain\<lparr>chain_fallbackEndpoints := fb\<rparr>)
     = parseAptosTransaction rt tx chain"
  by (simp_all add: parseSubscanTransaction_def parseSolscanTransaction_def
        parseHeliusTransaction_def parseBlockchainInfoTransaction_def
        parseBlockstreamTransaction_def parseTronTransaction_def parseNearTransaction_def
        parseSuiTransaction_def parseAptosTransaction_def Let_def
      cong: if_cong option.case_cong sum.case_cong jsval.case_cong)

lemma requests_ignore_fallbackEndpoints:
  "substrate_request rt address (chain\<lparr>chain_fallbackEndpoints := fb\<rparr>) page limit
     = substrate_request rt address chain page limit"
  "solscan_request rt address (chain\<lparr>chain_fallbackEndpoints := fb\<rparr>) page limit
     = solscan_request rt address chain page limit"
  "sui_request address (chain\<lparr>chain_fallbackEndpoints := fb\<rparr>) limit
     = sui_request address chain limit"
  "aptos_request rt address (chain\<lparr>chain_fallbackEndpoints := fb\<rparr>) page limit
     = aptos_request rt address chain page limit"
  by (simp_all add: substrate_request_def solscan_request_def sui_request_def aptos_request_def)

lemma attempts_ignore_fallbackEndpoints:
  "substrate_attempt rt address (chain\<lparr>chain_fallbackEndpoints := fb\<rparr>) page limit log
     = substrate_attempt rt address chain page limit log"
  "helius_attempt rt heliusKey address (chain\<lparr>chain_fallbackEndpoints := fb\<rparr>) page limit log
     = helius_attempt rt heliusKey address chain page limit log"
  "solscan_attempt rt address (chain\<lparr>chain_fallbackEndpoints := fb\<rparr>) page limit log
     = solscan_attempt rt address chain page limit log"
  "blockchain_info_attempt rt address (chain\<lparr>chain_fallbackEndpoints := fb\<rparr>) page limit log
     = blockchain_info_attempt rt address chain page limit log"
  "blockstream_attempt rt address (chain\<lparr>chain_fallbackEndpoints := fb\<rparr>) page limit log
     = blockstream_attempt rt address chain page limit log"
  "tron_attempt rt address (chain\<lparr>chain_fallbackEndpoints := fb\<rparr>) page limit log
     = tron_attempt rt address chain page limit log"
  "near_attempt rt address (chain\<lparr>chain_fallbackEndpoints := fb\<rparr>) page limit log
     = near_attempt rt address chain page limit log"
  "sui_attempt rt address (chain\<lparr>chain_fallbackEndpoints := fb\<rparr>) page limit log
     = sui_attempt rt address chain page limit log"
  "aptos_attempt rt address (chain\<lparr>chain_fallbackEndpoints := fb\<rparr>) page limit log
     = aptos_attempt rt address chain page limit log"
  by (simp_all add: substrate_attempt_def helius_attempt_def solscan_attempt_def
        blockchain_info_attempt_def blockstream_attempt_def tron_attempt_def near_attempt_def
        sui_attempt_def aptos_attempt_def parsers_ignore_fallbackEndpoints
        requests_ignore_fallbackEndpoints
      cong: if_cong)

lemma fetchBitcoin_ignores_fallbackEndpoints:
  "fetchBitcoinTransactions rt address (chain\<lparr>chain_fallbackEndpoints := fb\<rparr>) page limit
     useFallback log
     = fetchBitcoinTransactions rt address chain page limit useFallback log"
proof -
  have fallback: "fetchBitcoinTransactions rt address (chain\<lparr>chain_fallbackEndpoints := fb\<rparr>)
                    page limit True log'
                  = fetchBitcoinTransactions rt address chain page limit True log'" for log'
    by (simp add: fetchBitcoinTransactions.simps [of _ _ _ _ _ True]
          attempts_ignore_fallbackEndpoints)
  show ?thesis
  proof (cases useFallback)
    case True
    then show ?thesis
      by (simp only: fallback)
  next
    case False
    then show ?thesis
      by (simp add: fetchBitcoinTransactions.simps [of _ _ _ _ _ False] fallback
            attempts_ignore_fallbackEndpoints cong: sum.case_cong)
  qed
qed

lemma fetchers_ignore_fallbackEndpoints:
  "fetchSubstrateTransactions rt address (chain\<lparr>chain_fallbackEndpoints := fb\<rparr>) page limit log
     = fetchSubstrateTransactions rt address chain page limit log"
  "fetchSolanaTransactions rt address (chain\<lparr>chain_fallbackEndpoints := fb\<rparr>) page limit log
     = fetchSolanaTransactions rt address chain page limit log"
  "fetchTronTransactions rt address (chain\<lparr>chain_fallbackEndpoints := fb\<rparr>) page limit log
     = fetchTronTransactions rt address chain page limit log"
  "fetchNearTransactions rt address (chain\<lparr>chain_fallbackEndpoints := fb\<rparr>) page limit log
     = fetchNearTransactions rt address chain page limit log"
  "fetchSuiTransactions rt address (chain\<lparr>chain_fallbackEndpoints := fb\<rparr>) page limit log
     = fetchSuiTransactions rt address chain page limit log"
  "fetchAptosTransactions rt address (chain\<lparr>chain_fallbackEndpoints := fb\<rparr>) page limit log
     = fetchAptosTransactions rt address chain page limit log"
  by (simp_all add: fetchSubstrateTransactions_def fetchSolanaTransactions_def
        fetchTronTransactions_def fetchNearTransactions_def fetchSuiTransactions_def
        fetchAptosTransactions_def attempts_ignore_fallbackEndpoints
        requests_ignore_fallbackEndpoints
      cong: if_cong option.case_cong)

lemma fetchSolana_by_key:
  "env rt ''VITE_HELIUS_API_KEY'' = Some heliusKey \<Longrightarrow> heliusKey \<noteq> [] \<Longrightarrow>
     fetchSolanaTransactions rt address chain page limit log
       = (helius_attempt rt heliusKey address chain page limit log,
          log @ [helius_request rt heliusKey address limit])"
  "env rt ''VITE_HELIUS_API_KEY'' = None \<Longrightarrow>
     fetchSolanaTransactions rt address chain page limit log
       = (solscan_attempt rt address chain page limit log,
          log @ [solscan_request rt address chain page limit])"
  "env rt ''VITE_HELIUS_API_KEY'' = Some [] \<Longrightarrow>
     fetchSolanaTransactions rt address chain page limit log
       = (solscan_attempt rt address chain page limit log,
          log @ [solscan_request rt address chain page limit])"
  by (simp_all add: fetchSolanaTransactions_def settle_def)

text \<open>
  C4, as stated: every per-provider fetcher retries on the next endpoint of
  \<open>[primaryEndpoint, ...fallbackEndpoints]\<close> while one remains. The Substrate fetcher
  rejects after one request to the primary endpoint although the chain lists a fallback
  endpoint.
\<close>

theorem substrate_fetcher_ignores_fallback_endpoints:
  "chain_fallbackEndpoints polkadot_chain = Some [''https://polkadot.webapi.subscan.io''] \<and>
   fst (fetchSubstrateTransactions offline_runtime ''15oF4uVJ'' polkadot_chain 1 50 [])
     = Inl (Error ''Failed to fetch'') \<and>
   map req_url (snd (fetchSubstrateTransactions offline_runtime ''15oF4uVJ'' polkadot_chain 1 50 []))
     = [''https://polkadot.api.subscan.io/api/v2/scan/extrinsics'']"
  by (simp add: fetchSubstrateTransactions_def settle_def offline_attempts
        substrate_request_def polkadot_chain_def)

text \<open>
  C4, amended. The EVM and the Cosmos fetcher follow the protocol: after a failed attempt
  the call continues as the call on the next endpoint while one remains, and rejects with
  the error of the attempt when none remains. The Bitcoin fetcher answers a failure of
  Blockchain.info with one attempt on Blockstream, whatever the endpoint list is. The
  Substrate, Solana, Tron, Near, Sui and Aptos fetchers issue exactly one request and settle
  with the outcome of that attempt; for Solana the request goes to Helius when a non-empty
  Helius key is configured and to Solscan otherwise. The Bitcoin fetcher and these six never
  read \<^verbatim>\<open>fallbackEndpoints\<close>: the call on a chain whose \<^verbatim>\<open>fallbackEndpoints\<close> is replaced by any
  other value is the same call, with the same requests and the same outcome.
\<close>

theorem fallback_protocol_by_fetcher:
  "(is_failure (evm_attempt rt address chain page limit i log) \<longrightarrow>
      (i < length (allEndpoints chain) - 1 \<longrightarrow>
         fetchEVMTransactions rt address chain page limit i log
           = fetchEVMTransactions rt address chain page limit (i + 1)
               (log @ [evm_request rt address chain page limit i])) \<and>
      (\<not> i < length (allEndpoints chain) - 1 \<longrightarrow>
         (\<exists>e. attempt_error rt (evm_attempt rt address chain page limit i log) = Some e \<and>
              fetchEVMTransactions rt address chain page limit i log
                = (Inl e, log @ [evm_request rt address chain page limit i])))) \<and>
   (is_failure (cosmos_attempt rt address chain page limit i log) \<longrightarrow>
      (i < length (allEndpoints chain) - 1 \<longrightarrow>
         fetchCosmosTransactions rt address chain page limit i log
           = fetchCosmosTransactions rt address chain page limit (i + 1)
               (log @ [cosmos_request rt address chain page limit i])) \<and>
      (\<not> i < length (allEndpoints chain) - 1 \<longrightarrow>
         (\<exists>e. attempt_error rt (cosmos_attempt rt address chain page limit i log) = Some e \<and>
              fetchCosmosTransactions rt address chain page limit i log
                = (Inl e, log @ [cosmos_request rt address chain page limit i])))) \<and>
   (blockchain_info_attempt rt address chain page limit log = Inl e \<longrightarrow>
      fetchBitcoinTransactions rt address chain page limit False log
        = (blockstream_attempt rt address chain page limit
             (log @ [blockchain_info_request rt address page limit]),
           log @ [blockchain_info_request rt address page limit, blockstream_request address])) \<and>
   fetchSubstrateTransactions rt address chain page limit log
     = (substrate_attempt rt address chain page limit log,
        log @ [substrate_request rt address chain page limit]) \<and>
   (env rt ''VITE_HELIUS_API_KEY'' = Some heliusKey \<and> heliusKey \<noteq> [] \<longrightarrow>
      fetchSolanaTransactions rt address chain page limit log
        = (helius_attempt rt heliusKey address chain page limit log,
           log @ [helius_request rt heliusKey address limit])) \<and>
   (env rt ''VITE_HELIUS_API_KEY'' = None \<or> env rt ''VITE_HELIUS_API_KEY'' = Some [] \<longrightarrow>
      fetchSolanaTransactions rt address chain page limit log
        = (solscan_attempt rt address chain page limit log,
           log @ [solscan_request rt address chain page limit])) \<and>
   fetchTronTransactions rt address chain page limit log
     = (tron_attempt rt address chain page limit log, log @ [tron_request rt address page limit]) \<and>
   fetchNearTransactions rt address chain page limit log
     = (near_attempt rt address chain page limit log, log @ [near_request rt address page limit]) \<and>
   fetchSuiTransactions rt address chain page limit log
     = (sui_attempt rt address chain page limit log, log @ [sui_request address chain limit]) \<and>
   fetchAptosTransactions rt address chain page limit log
     = (aptos_attempt rt address chain page limit log,
        log @ [aptos_request rt address chain page limit]) \<and>
   fetchBitcoinTransactions rt address (chain\<lparr>chain_fallbackEndpoints := fb\<rparr>) page limit
       useFallback log
     = fetchBitcoinTransactions rt address chain page limit useFallback log \<and>
   fetchSubstrateTransactions rt address (chain\<lparr>chain_fallbackEndpoints := fb\<rparr>) page limit log
     = fetchSubstrateTransactions rt address chain page limit log \<and>
   fetchSolanaTransactions rt address (chain\<lparr>chain_fallbackEndpoints := fb\<rparr>) page limit log
     = fetchSolanaTransactions rt address chain page limit log \<and>
   fetchTronTransactions rt address (chain\<lparr>chain_fallbackEndpoints := fb\<rparr>) page limit log
     = fetchTronTransactions rt address chain page limit log \<and>
   fetchNearTransactions rt address (chain\<lparr>chain_fallbackEndpoints := fb\<rparr>) page limit log
     = fetchNearTransactions rt address chain page limit log \<and>
   fetchSuiTransactions rt address (chain\<lparr>chain_fallbackEndpoints := fb\<rparr>) page limit log
     = fetchSuiTransactions rt address chain page limit log \<and>
   fetchAptosTransactions rt address (chain\<lparr>chain_fallbackEndpoints := fb\<rparr>) page limit log
     = fetchAptosTransactions rt address chain page limit log"
proof -
  have evm: "\<exists>e. attempt_error rt (evm_attempt rt address chain page limit i log) = Some e \<and>
              fetchEVMTransactions rt address chain page limit i log
                = (Inl e, log @ [evm_request rt address chain page limit i])"
    if "is_failure (evm_attempt rt address chain page limit i log)"
      and "\<not> i < length (allEndpoints chain) - 1"
    using is_failure_error [OF that(1), of rt] fetchEVM_last [OF _ that(2)] by auto
  have cosmos: "\<exists>e. attempt_error rt (cosmos_attempt rt address chain page limit i log) = Some e \<and>
              fetchCosmosTransactions rt address chain page limit i log
                = (Inl e, log @ [cosmos_request rt address chain page limit i])"
    if "is_failure (cosmos_attempt rt address chain page limit i log)"
      and "\<not> i < length (allEndpoints chain) - 1"
    using is_failure_error [OF that(1), of rt] fetchCosmos_last [OF _ that(2)] by auto
  have retry: "is_failure (evm_attempt rt address chain page limit i log) \<longrightarrow>
      (i < length (allEndpoints chain) - 1 \<longrightarrow>
         fetchEVMTransactions rt address chain page limit i log
           = fetchEVMTransactions rt address chain page limit (i + 1)
               (log @ [evm_request rt address chain page limit i]))"
    "is_failure (cosmos_attempt rt address chain page limit i log) \<longrightarrow>
      (i < length (allEndpoints chain) - 1 \<longrightarrow>
         fetchCosmosTransactions rt address chain page limit i log
           = fetchCosmosTransactions rt address chain page limit (i + 1)
               (log @ [cosmos_request rt address chain page limit i]))"
    by (simp_all add: fetchEVM_retry fetchCosmos_retry)
  have single:
    "fetchSubstrateTransactions rt address chain page limit log
       = (substrate_attempt rt address chain page limit log,
          log @ [substrate_request rt address chain page limit])"
    "fetchTronTransactions rt address chain page limit log
       = (tron_attempt rt address chain page limit log, log @ [tron_request rt address page limit])"
    "fetchNearTransactions rt address chain page limit log
       = (near_attempt rt address chain page limit log, log @ [near_request rt address page limit])"
    "fetchSuiTransactions rt address chain page limit log
       = (sui_attempt rt address chain page limit log, log @ [sui_request address chain limit])"
    "fetchAptosTransactions rt address chain page limit log
       = (aptos_attempt rt address chain page limit log,
          log @ [aptos_request rt address chain page limit])"
    by (simp_all add: fetchSubstrateTransactions_def fetchTronTransactions_def
          fetchNearTransactions_def fetchSuiTransactions_def fetchAptosTransactions_def settle_def)
  have solana:
    "env rt ''VITE_HELIUS_API_KEY'' = Some heliusKey \<and> heliusKey \<noteq> [] \<longrightarrow>
       fetchSolanaTransactions rt address chain page limit log
         = (helius_attempt rt heliusKey address chain page limit log,
            log @ [helius_request rt heliusKey address limit])"
    "env rt ''VITE_HELIUS_API_KEY'' = None \<or> env rt ''VITE_HELIUS_API_KEY'' = Some [] \<longrightarrow>
       fetchSolanaTransactions rt address chain page limit log
         = (solscan_attempt rt address chain page limit log,
            log @ [solscan_request rt address chain page limit])"
    by (auto simp: fetchSolana_by_key)
  have bitcoin: "blockchain_info_attempt rt address chain page limit log = Inl e \<longrightarrow>
      fetchBitcoinTransactions rt address chain page limit False log
        = (blockstream_attempt rt address chain page limit
             (log @ [blockchain_info_request rt address page limit]),
           log @ [blockchain_info_request rt address page limit, blockstream_request address])"
    by (simp add: fetchBitcoin_both)
  have evm_protocol: "is_failure (evm_attempt rt address chain page limit i log) \<longrightarrow>
      (i < length (allEndpoints chain) - 1 \<longrightarrow>
         fetchEVMTransactions rt address chain page limit i log
           = fetchEVMTransactions rt address chain page limit (i + 1)
               (log @ [evm_request rt address chain page limit i])) \<and>
      (\<not> i < length (allEndpoints chain) - 1 \<longrightarrow>
         (\<exists>e. attempt_error rt (evm_attempt rt address chain page limit i log) = Some e \<and>
              fetchEVMTransactions rt address chain page limit i log
                = (Inl e, log @ [evm_request rt address chain page limit i])))"
  proof (intro impI conjI)
    assume "is_failure (evm_attempt rt address chain page limit i log)"
      and "i < length (allEndpoints chain) - 1"
    then show "fetchEVMTransactions rt address chain page limit i log
           = fetchEVMTransactions rt address chain page limit (i + 1)
               (log @ [evm_request rt address chain page limit i])"
      by (rule retry(1) [rule_format])
  next
    assume "is_failure (evm_attempt rt address chain page limit i log)"
      and "\<not> i < length (allEndpoints chain) - 1"
    then show "\<exists>e. attempt_error rt (evm_attempt rt address chain page limit i log) = Some e \<and>
              fetchEVMTransactions rt address chain page limit i log
                = (Inl e, log @ [evm_request rt address chain page limit i])"
      by (rule evm)
  qed
  have cosmos_protocol: "is_failure (cosmos_attempt rt address chain page limit i log) \<longrightarrow>
      (i < length (allEndpoints chain) - 1 \<longrightarrow>
         fetchCosmosTransactions rt address chain page limit i log
           = fetchCosmosTransactions rt address chain page limit (i + 1)
               (log @ [cosmos_request rt address chain page limit i])) \<and>
      (\<not> i < length (allEndpoints chain) - 1 \<longrightarrow>
         (\<exists>e. attempt_error rt (cosmos_attempt rt address chain page limit i log) = Some e \<and>
              fetchCosmosTransactions rt address chain page limit i log
                = (Inl e, log @ [cosmos_request rt address chain page limit i])))"
  proof (intro impI conjI)
    assume "is_failure (cosmos_attempt rt address chain page limit i log)"
      and "i < length (allEndpoints chain) - 1"
    then show "fetchCosmosTransactions rt address chain page limit i log
           = fetchCosmosTransactions rt address chain page limit (i + 1)
               (log @ [cosmos_request rt address chain page limit i])"
      by (rule retry(2) [rule_format])
  next
    assume "is_failure (cosmos_attempt rt address chain page limit i log)"
      and "\<not> i < length (allEndpoints chain) - 1"
    then show "\<exists>e. attempt_error rt (cosmos_attempt rt address chain page limit i log) = Some e \<and>
              fetchCosmosTransactions rt address chain page limit i log
                = (Inl e, log @ [cosmos_request rt address chain page limit i])"
      by (rule cosmos)
  qed
  show ?thesis
    by (intro conjI evm_protocol cosmos_protocol bitcoin single solana
          fetchBitcoin_ignores_fallbackEndpoints fetchers_ignore_fallbackEndpoints)
qed

theorem fallback_protocol_by_fetcher_witness:
  "fetchEVMTransactions fallback_runtime ''0xd8da6bf2'' ethereum_chain 1 50 0 []
     = fetchEVMTransactions fallback_runtime ''0xd8da6bf2'' ethereum_chain 1 50 1
         [example_requests ! 0] \<and>
   fetchEVMTransactions exhausted_runtime ''0xd8da6bf2'' ethereum_chain 1 50 2 []
     = (Inl (Error ''Invalid API Key''), [example_requests ! 2]) \<and>
   fetchCosmosTransactions offline_runtime ''cosmos1sender'' cosmoshub_chain 1 50 0 []
     = fetchCosmosTransactions offline_runtime ''cosmos1sender'' cosmoshub_chain 1 50 1
         [cosmos_request offline_runtime ''cosmos1sender'' cosmoshub_chain 1 50 0] \<and>
   fetchCosmosTransactions offline_runtime ''cosmos1sender'' cosmoshub_chain 1 50 2 []
     = (Inl (Error ''Failed to fetch''),
        [cosmos_request offline_runtime ''cosmos1sender'' cosmoshub_chain 1 50 2]) \<and>
   fst (fetchBitcoinTransactions offline_runtime ''bc1qxy2k'' polkadot_chain 1 50 False [])
     = Inl (Error ''Failed to fetch'') \<and>
   fetchSolanaTransactions helius_runtime ''7xKXtg2C'' polkadot_chain 1 50 []
     = (Inl (Error ''Failed to fetch''), [helius_request helius_runtime ''demo-key'' ''7xKXtg2C'' 50]) \<and>
   fetchSolanaTransactions offline_runtime ''7xKXtg2C'' polkadot_chain 1 50 []
     = (Inl (Error ''Failed to fetch''),
        [solscan_request offline_runtime ''7xKXtg2C'' polkadot_chain 1 50]) \<and>
   fetchSubstrateTransactions offline_runtime ''15oF4uVJ''
       (polkadot_chain\<lparr>chain_fallbackEndpoints := None\<rparr>) 1 50 []
     = fetchSubstrateTransactions offline_runtime ''15oF4uVJ'' polkadot_chain 1 50 []"
proof -
  have len: "length (allEndpoints ethereum_chain) = 3" "length (allEndpoints cosmoshub_chain) = 3"
    by (simp_all add: allEndpoints_def ethereum_chain_def cosmoshub_chain_def)
  have 1: "fetchEVMTransactions fallback_runtime ''0xd8da6bf2'' ethereum_chain 1 50 0 []
     = fetchEVMTransactions fallback_runtime ''0xd8da6bf2'' ethereum_chain 1 50 1
         [example_requests ! 0]"
    using fallback_protocol_by_fetcher
            [where rt = fallback_runtime and chain = ethereum_chain and i = 0 and log = "[]"
               and address = "''0xd8da6bf2''" and page = 1 and limit = 50, THEN conjunct1]
          len
    by (simp add: example_attempt_0 example_request fallback_runtime_simps)
  have 2: "fetchEVMTransactions exhausted_runtime ''0xd8da6bf2'' ethereum_chain 1 50 2 []
     = (Inl (Error ''Invalid API Key''), [example_requests ! 2])"
    using fallback_protocol_by_fetcher
            [where rt = exhausted_runtime and chain = ethereum_chain and i = 2 and log = "[]"
               and address = "''0xd8da6bf2''" and page = 1 and limit = 50, THEN conjunct1]
          len
    by (simp add: numeral_2_eq_2 exhausted_attempt_2 example_request exhausted_runtime_simps
          or_else_def)
  have 3: "fetchCosmosTransactions offline_runtime ''cosmos1sender'' cosmoshub_chain 1 50 0 []
     = fetchCosmosTransactions offline_runtime ''cosmos1sender'' cosmoshub_chain 1 50 1
         [cosmos_request offline_runtime ''cosmos1sender'' cosmoshub_chain 1 50 0]"
    using fallback_protocol_by_fetcher
            [where rt = offline_runtime and chain = cosmoshub_chain and i = 0 and log = "[]"
               and address = "''cosmos1sender''" and page = 1 and limit = 50,
             THEN conjunct2, THEN conjunct1]
          len
    by (simp add: offline_attempts)
  have 4: "fetchCosmosTransactions offline_runtime ''cosmos1sender'' cosmoshub_chain 1 50 2 []
     = (Inl (Error ''Failed to fetch''),
        [cosmos_request offline_runtime ''cosmos1sender'' cosmoshub_chain 1 50 2])"
    using fallback_protocol_by_fetcher
            [where rt = offline_runtime and chain = cosmoshub_chain and i = 2 and log = "[]"
               and address = "''cosmos1sender''" and page = 1 and limit = 50,
             THEN conjunct2, THEN conjunct1]
          len
    by (simp add: offline_attempts)
  have 5: "fst (fetchBitcoinTransactions offline_runtime ''bc1qxy2k'' polkadot_chain 1 50 False [])
     = Inl (Error ''Failed to fetch'')"
    using fallback_protocol_by_fetcher
            [where rt = offline_runtime and chain = polkadot_chain and log = "[]"
               and address = "''bc1qxy2k''" and page = 1 and limit = 50
               and e = "Error ''Failed to fetch''",
             THEN conjunct2, THEN conjunct2, THEN conjunct1]
    by (simp add: offline_attempts)
  have 6: "fetchSolanaTransactions helius_runtime ''7xKXtg2C'' polkadot_chain 1 50 []
     = (Inl (Error ''Failed to fetch''), [helius_request helius_runtime ''demo-key'' ''7xKXtg2C'' 50])"
    using fallback_protocol_by_fetcher
            [where rt = helius_runtime and chain = polkadot_chain and log = "[]"
               and address = "''7xKXtg2C''" and page = 1 and limit = 50
               and heliusKey = "''demo-key''",
             THEN conjunct2, THEN conjunct2, THEN conjunct2, THEN conjunct2, THEN conjunct1]
    by (simp add: helius_attempt_def)
  have 7: "fetchSolanaTransactions offline_runtime ''7xKXtg2C'' polkadot_chain 1 50 []
     = (Inl (Error ''Failed to fetch''),
        [solscan_request offline_runtime ''7xKXtg2C'' polkadot_chain 1 50])"
    using fallback_protocol_by_fetcher
            [where rt = offline_runtime and chain = polkadot_chain and log = "[]"
               and address = "''7xKXtg2C''" and page = 1 and limit = 50,
             THEN conjunct2, THEN conjunct2, THEN conjunct2, THEN conjunct2, THEN conjunct2,
             THEN conjunct1]
    by (simp add: offline_attempts)
  have 8: "fetchSubstrateTransactions offline_runtime ''15oF4uVJ''
       (polkadot_chain\<lparr>chain_fallbackEndpoints := None\<rparr>) 1 50 []
     = fetchSubstrateTransactions offline_runtime ''15oF4uVJ'' polkadot_chain 1 50 []"
    using fallback_protocol_by_fetcher
            [where rt = offline_runtime and chain = polkadot_chain and log = "[]"
               and address = "''15oF4uVJ''" and page = 1 and limit = 50 and fb = None,
             THEN conjunct2, THEN conjunct2, THEN conjunct2, THEN conjunct2, THEN conjunct2,
             THEN conjunct2, THEN conjunct2, THEN conjunct2, THEN conjunct2, THEN conjunct2,
             THEN conjunct2, THEN conjunct1] .
  from 1 2 3 4 5 6 7 8 show ?thesis
    by (simp only: simp_thms)
qed

subsection \<open>Every response is sound\<close>

lemma sound_response_member:
  "sound_response rt chain page limit r \<Longrightarrow> t \<in> set (resp_transactions r)
     \<Longrightarrow> derived_amounts rt chain t"
  by (simp add: sound_response_def list_all_iff)

lemma fetchBitcoin_any_sound:
  "fetchBitcoinTransactions rt address chain page limit useFallback log = (Inr r, log')
     \<Longrightarrow> sound_response rt chain page limit r"
  by (cases useFallback) (auto dest: fetchBitcoin_sound fetchBitcoin_fallback_sound)

lemma single_attempt_sound:
  "fetchSubstrateTransactions rt address chain page limit log = (Inr r, log')
     \<Longrightarrow> sound_response rt chain page limit r"
  "fetchSolanaTransactions rt address chain page limit log = (Inr r, log')
     \<Longrightarrow> sound_response rt chain page limit r"
  "fetchTronTransactions rt address chain page limit log = (Inr r, log')
     \<Longrightarrow> sound_response rt chain page limit r"
  "fetchNearTransactions rt address chain page limit log = (Inr r, log')
     \<Longrightarrow> sound_response rt chain page limit r"
  "fetchSuiTransactions rt address chain page limit log = (Inr r, log')
     \<Longrightarrow> sound_response rt chain page limit r"
  "fetchAptosTransactions rt address chain page limit log = (Inr r, log')
     \<Longrightarrow> sound_response rt chain page limit r"
  by (auto simp: fetchTronTransactions_def fetchNearTransactions_def fetchSuiTransactions_def
        fetchAptosTransactions_def fetchSubstrateTransactions_def fetchSolanaTransactions_def
        settle_Inr
      split: if_splits option.splits
      dest: tron_attempt_sound near_attempt_sound sui_attempt_sound aptos_attempt_sound
        substrate_attempt_sound helius_attempt_sound solscan_attempt_sound)

text \<open>
  C9. Every transaction that a parser, the mock generator, a fetcher or the dispatcher
  produces for a chain carries as \<open>valueFormatted\<close> and \<open>feeFormatted\<close> the results of
  \<open>formatValue\<close> on its \<open>value\<close> and \<open>fee\<close> with the decimals of that chain.
\<close>

theorem formatted_amounts_are_derived:
  assumes "produced rt chain t"
  shows "formatValue rt (tx_value t) (chain_decimals chain) = Inr (tx_valueFormatted t) \<and>
         formatValue rt (tx_fee t) (chain_decimals chain) = Inr (tx_feeFormatted t)"
proof -
  from assms have "derived_amounts rt chain t"
  proof cases
    case (by_generateMock address count ts)
    then show ?thesis
      using generateMock_derived [of rt address chain count ts] by (simp add: list_all_iff)
  qed (auto dest: parseEtherscan_derived parseSubscan_derived parseSolscan_derived
         parseCosmos_derived fetchEVM_sound fetchCosmos_sound fetchBitcoin_any_sound
         single_attempt_sound fetchTransactions_sound
       intro: sound_response_member)
  then show ?thesis
    by (simp add: derived_amounts_def)
qed

lemma example_fetchEVM:
  "fetchEVMTransactions fallback_runtime ''0xd8da6bf2'' ethereum_chain 1 50 0 []
     = (Inr example_response, example_requests)"
proof -
  have eps: "chain_fallbackEndpoints ethereum_chain
               = Some [''https://eth.blockscout.com/api'', ''https://api.routescan.io/api'']"
    by (simp add: ethereum_chain_def)
  have reqs: "evm_requests fallback_runtime ''0xd8da6bf2'' ethereum_chain 1 50 3 = example_requests"
    by (simp add: evm_requests_def numeral_3_eq_3 example_request fallback_runtime_simps
          example_requests_def)
  show ?thesis
    using fetchEVM_third [OF eps, of fallback_runtime "''0xd8da6bf2''" 1 50 "[]" example_response]
          reqs
    by (simp add: example_attempt_0 example_attempt_1 example_attempt_2 numeral_2_eq_2)
qed

lemma example_fetch:
  "fetchTransactions fallback_runtime ''0xd8da6bf2'' ''ethereum'' 1 50 False
     = (Inr example_response, example_requests)"
proof -
  have "chain_id ethereum_chain = ''ethereum''" "chain_apiType ethereum_chain = ''etherscan''"
    by (simp_all add: ethereum_chain_def)
  then show ?thesis
    by (simp add: fetchTransactions_def fallback_runtime_simps example_fetchEVM)
qed

theorem formatted_amounts_are_derived_witness:
  "formatValue fallback_runtime (Str ''0'') 18 = Inr ''0'' \<and>
   formatValue fallback_runtime (Str ''1383270000000000'') 18 = Inr ''0.001383''"
proof -
  have "produced fallback_runtime ethereum_chain example_transaction"
    by (rule by_fetchTransactions [OF _ example_fetch])
       (simp_all add: fallback_runtime_simps example_response_def)
  from formatted_amounts_are_derived [OF this] show ?thesis
    by (simp add: example_transaction_def ethereum_chain_def)
qed

subsection \<open>The envelope echoes the call\<close>

text \<open>
  C10. Every response that \<open>fetchTransactions\<close> resolves with, through any fetcher or the
  mock branch, has the \<open>page\<close> and the \<open>limit\<close> of the call.
\<close>

theorem response_echoes_page_and_limit:
  assumes "fetchTransactions rt address chainId page limit useMock = (Inr r, log)"
  shows "resp_page r = page \<and> resp_limit r = limit"
proof (cases "getChainById rt chainId")
  case None
  with assms show ?thesis
    by (simp add: fetchTransactions_def)
next
  case (Some chain)
  from fetchTransactions_sound [OF this assms] show ?thesis
    by (simp add: sound_response_def)
qed

theorem response_echoes_page_and_limit_witness:
  "resp_page example_response = 1 \<and> resp_limit example_response = 50"
  using response_echoes_page_and_limit [OF example_fetch] .

subsection \<open>Mock mode\<close>

text \<open>
  What mock mode guarantees: no request is issued, and a response, when there is one,
  holds \<open>limit\<close> transactions (none for a negative \<open>limit\<close>), reports a total of 100 and
  has \<open>hasMore\<close> exactly when \<open>page < 4\<close>.
\<close>

lemma mock_mode_shape:
  assumes "getChainById rt chainId = Some chain"
    and "fetchTransactions rt address chainId page limit True = (res, log)"
  shows "log = [] \<and>
         (\<forall>r. res = Inr r \<longrightarrow>
            length (resp_transactions r) = nat limit \<and> resp_hasMore r = (page < 4) \<and>
            resp_totalCount r = Num (Fin 100))"
  using assms
  by (auto simp: fetchTransactions_def generateMockTransactions_def Let_def split: sum.splits
           dest: map_result_length)

lemma near_mock_runtime_simps:
  "getChainById near_mock_runtime cid = (if cid = ''near'' then Some near_chain else None)"
  "random near_mock_runtime k = 2 ^ 52"
  "unsafe_toString near_mock_runtime n = (if n = 5 * 10 ^ 21 then ''5e+21'' else BigInt_toString n)"
  by (simp_all add: near_mock_runtime_def offline_runtime_def)

lemma near_mock_value:
  "Number_toString near_mock_runtime
     (random_amount (draw near_mock_runtime (110 * 0 + 3)) (int (chain_decimals near_chain) - 2))
   = ''5e+21''"
  by (simp add: near_chain_def draw_def near_mock_runtime_simps random_amount_def
        pow10_def round_binary64_def round53_def Let_def)

lemma near_mock_first:
  "mockTransaction near_mock_runtime address near_chain now 0 = Inl SyntaxError"
proof -
  have "formatValue near_mock_runtime (Str ''5e+21'') (chain_decimals near_chain) = Inl SyntaxError"
    by (simp add: formatValue_eval)
  then show ?thesis
    by (simp only: mockTransaction_def Let_def near_mock_value then_result_simps)
qed

text \<open>
  C8. Mock mode is to resolve with \<open>limit\<close> transactions for every registered chain. For a
  chain with 24 decimals and a draw of 0.5 the amount \<open>Math.floor(0.5 * 10 ** 22)\<close> prints
  as \<open>5e+21\<close>, which \<open>BigInt\<close> rejects: the call rejects with a SyntaxError.
\<close>

theorem mock_mode_rejects_for_24_decimals:
  "fetchTransactions near_mock_runtime ''alice.near'' ''near'' 1 25 True = (Inl SyntaxError, [])"
proof -
  have "[0..<nat 25] = 0 # [Suc 0..<25]"
    by (simp add: upt_conv_Cons)
  then have "generateMockTransactions near_mock_runtime ''alice.near'' near_chain 25
               = Inl SyntaxError"
    by (simp add: generateMockTransactions_def Let_def near_mock_first)
  then show ?thesis
    by (simp add: fetchTransactions_def near_mock_runtime_simps)
qed

theorem mock_mode_rejects_for_24_decimals_witness:
  "isl (fst (fetchTransactions near_mock_runtime ''alice.near'' ''near'' 1 25 True))"
  using mock_mode_rejects_for_24_decimals by simp

end
